theory Spec2Isabelle
  imports Main "HOL-Library.Word"
begin

unbundle bit_operations_syntax

section \<open>Front Light Management: safety control plane\<close>

text \<open>
  A shallow embedding of the C++ sources of the FLM electronic control unit:
  the E2E Profile 01 library (\<^verbatim>\<open>BSW/E2E/E2E_P01.cpp\<close>) and the five software
  components \<^verbatim>\<open>SwitchEvent\<close>, \<^verbatim>\<open>LightRequest\<close>, \<^verbatim>\<open>FLM_Application\<close>,
  \<^verbatim>\<open>Headlight\<close> and \<^verbatim>\<open>SafetyMonitor\<close>.

  Conventions of the embedding.
  \<^item> \<^verbatim>\<open>uint8_t\<close>, \<^verbatim>\<open>uint16_t\<close>, \<^verbatim>\<open>uint32_t\<close> are \<open>8 word\<close>, \<open>16 word\<close>,
    \<open>32 word\<close>; \<open>+\<close> and \<open>-\<close> wrap as the unsigned C arithmetic does.
  \<^item> Every C \<^verbatim>\<open>enum\<close> is a datatype with one constructor per enumerator, so the
    \<^verbatim>\<open>default:\<close> arm of a \<^verbatim>\<open>switch\<close> over an enum has no counterpart.
  \<^item> Every C \<^verbatim>\<open>struct\<close> is a record. Record fields share one name space in a
    theory, so each field carries a short prefix of its struct.
  \<^item> The file-level \<^verbatim>\<open>static\<close> variables of a component (its state struct, its
    system-time counter, its test hooks) are gathered in one record per component;
    a function of the component takes that record and returns the updated one.
  \<^item> Values a component fetches from another component through a getter are passed
    in as arguments (a snapshot taken at the read point).
  \<^item> A pointer argument that callers may pass as \<^verbatim>\<open>NULL_PTR\<close> is an \<open>option\<close>; the
    \<^verbatim>\<open>config\<close> and \<^verbatim>\<open>state\<close> pointers of the E2E library always point to
    structs owned by the caller and are passed by value.
  \<^item> The watchdog checkpoint and diagnostic event calls are stubs in the source that
    discard their arguments and return \<^verbatim>\<open>RTE_E_OK\<close>; they have no effect on any
    state and are left out.
\<close>

type_synonym u8 = "8 word"
type_synonym u16 = "16 word"
type_synonym u32 = "32 word"

subsection \<open>Shared types (\<^verbatim>\<open>Rte_Type.h\<close>, \<^verbatim>\<open>ComStack_Types.h\<close>, \<^verbatim>\<open>Std_Types.h\<close>)\<close>

datatype Std_ReturnType = E_OK | E_NOT_OK

datatype FLM_StateType = FLM_STATE_INIT | FLM_STATE_NORMAL | FLM_STATE_DEGRADED | FLM_STATE_SAFE

datatype E2E_P01CheckStatusType =
    E2E_P01STATUS_OK
  | E2E_P01STATUS_NONEWDATA
  | E2E_P01STATUS_WRONGCRC
  | E2E_P01STATUS_SYNC
  | E2E_P01STATUS_INITIAL
  | E2E_P01STATUS_REPEATED
  | E2E_P01STATUS_OKSOMELOST
  | E2E_P01STATUS_WRONGSEQUENCE

datatype E2E_SMStateType =
  E2E_SM_VALID | E2E_SM_DEINIT | E2E_SM_NODATA | E2E_SM_INIT | E2E_SM_INVALID

datatype WdgM_GlobalStatusType =
    WDGM_GLOBAL_STATUS_OK
  | WDGM_GLOBAL_STATUS_FAILED
  | WDGM_GLOBAL_STATUS_EXPIRED
  | WDGM_GLOBAL_STATUS_STOPPED
  | WDGM_GLOBAL_STATUS_DEACTIVATED

datatype LightSwitchCmd =
  LIGHT_SWITCH_OFF | LIGHT_SWITCH_LOW_BEAM | LIGHT_SWITCH_HIGH_BEAM | LIGHT_SWITCH_AUTO

record LightSwitchStatus =
  ls_command :: LightSwitchCmd
  ls_isValid :: bool
  ls_e2eStatus :: u8

record AmbientLightLevel =
  al_adcValue :: u16
  al_luxValue :: u16
  al_isValid :: bool

datatype SignalStatus =
    SIGNAL_STATUS_VALID
  | SIGNAL_STATUS_INVALID
  | SIGNAL_STATUS_TIMEOUT
  | SIGNAL_STATUS_OPEN_CIRCUIT
  | SIGNAL_STATUS_SHORT_CIRCUIT
  | SIGNAL_STATUS_PLAUSIBILITY

datatype HeadlightCommand = HEADLIGHT_CMD_OFF | HEADLIGHT_CMD_LOW_BEAM | HEADLIGHT_CMD_HIGH_BEAM

datatype HeadlightFaultStatus =
    HEADLIGHT_FAULT_NONE
  | HEADLIGHT_FAULT_OPEN_LOAD
  | HEADLIGHT_FAULT_SHORT
  | HEADLIGHT_FAULT_OVERCURRENT

datatype SafetyStatusType =
  SAFETY_STATUS_OK | SAFETY_STATUS_WARNING | SAFETY_STATUS_DEGRADED | SAFETY_STATUS_SAFE_STATE

datatype SafeStateReason =
    SAFE_STATE_REASON_NONE
  | SAFE_STATE_REASON_E2E_FAILURE
  | SAFE_STATE_REASON_WDGM_FAILURE
  | SAFE_STATE_REASON_MULTI_FAULT
  | SAFE_STATE_REASON_TIMEOUT
  | SAFE_STATE_REASON_MANUAL

subsection \<open>Configuration constants (\<^verbatim>\<open>FLM_Config.h\<close> and the component headers)\<close>

definition FLM_MAIN_FUNCTION_PERIOD_MS :: u32 where "FLM_MAIN_FUNCTION_PERIOD_MS = 10"
definition FLM_AMBIENT_LIGHT_PERIOD_MS :: u32 where "FLM_AMBIENT_LIGHT_PERIOD_MS = 20"
definition FLM_SAFETY_MONITOR_PERIOD_MS :: u32 where "FLM_SAFETY_MONITOR_PERIOD_MS = 5"
definition FLM_CAN_TIMEOUT_MS :: u32 where "FLM_CAN_TIMEOUT_MS = 50"
definition FLM_E2E_TIMEOUT_MS :: u32 where "FLM_E2E_TIMEOUT_MS = 100"
definition FLM_FTTI_MS :: u32 where "FLM_FTTI_MS = 200"
definition FLM_SAFE_STATE_TRANSITION_MS :: u32 where "FLM_SAFE_STATE_TRANSITION_MS = 100"
definition FLM_AMBIENT_THRESHOLD_ON :: u16 where "FLM_AMBIENT_THRESHOLD_ON = 800"
definition FLM_AMBIENT_THRESHOLD_OFF :: u16 where "FLM_AMBIENT_THRESHOLD_OFF = 1000"
definition FLM_AMBIENT_RATE_LIMIT :: u16 where "FLM_AMBIENT_RATE_LIMIT = 500"
definition FLM_AMBIENT_OPEN_CIRCUIT :: u16 where "FLM_AMBIENT_OPEN_CIRCUIT = 100"
definition FLM_AMBIENT_SHORT_CIRCUIT :: u16 where "FLM_AMBIENT_SHORT_CIRCUIT = 3995"
definition FLM_ADC_SAMPLES :: u8 where "FLM_ADC_SAMPLES = 4"
definition FLM_HEADLIGHT_FAULT_DETECT_MS :: u32 where "FLM_HEADLIGHT_FAULT_DETECT_MS = 20"
definition FLM_HEADLIGHT_MIN_CURRENT_MA :: u16 where "FLM_HEADLIGHT_MIN_CURRENT_MA = 100"
definition FLM_HEADLIGHT_MAX_CURRENT_MA :: u16 where "FLM_HEADLIGHT_MAX_CURRENT_MA = 15000"
definition FLM_HEADLIGHT_OPEN_LOAD_MA :: u16 where "FLM_HEADLIGHT_OPEN_LOAD_MA = 50"
definition FLM_HEADLIGHT_CURRENT_FACTOR :: u16 where "FLM_HEADLIGHT_CURRENT_FACTOR = 10"
definition FLM_E2E_LIGHTSWITCH_DATA_LENGTH :: u16 where "FLM_E2E_LIGHTSWITCH_DATA_LENGTH = 32"
definition FLM_E2E_LIGHTSWITCH_DATA_ID :: u16 where "FLM_E2E_LIGHTSWITCH_DATA_ID = 0x0100"
definition FLM_E2E_MAX_DELTA_COUNTER :: u8 where "FLM_E2E_MAX_DELTA_COUNTER = 2"
definition FLM_E2E_MAX_NO_NEW_DATA :: u16 where "FLM_E2E_MAX_NO_NEW_DATA = 5"
definition FLM_E2E_SYNC_COUNTER :: u16 where "FLM_E2E_SYNC_COUNTER = 2"
definition FLM_E2E_COUNTER_OFFSET :: u16 where "FLM_E2E_COUNTER_OFFSET = 8"
definition FLM_E2E_CRC_OFFSET :: u16 where "FLM_E2E_CRC_OFFSET = 0"
definition FLM_CAN_LIGHTSWITCH_MSG_LEN :: u16 where "FLM_CAN_LIGHTSWITCH_MSG_LEN = 4"
definition FLM_MAX_CONSECUTIVE_ERRORS :: u8 where "FLM_MAX_CONSECUTIVE_ERRORS = 3"
definition COM_LIGHTSWITCH_CMD_BYTE :: nat where "COM_LIGHTSWITCH_CMD_BYTE = 2"

subsection \<open>E2E Profile 01 (\<^verbatim>\<open>E2E_P01.h\<close>, \<^verbatim>\<open>E2E_P01.cpp\<close>)\<close>

definition E2E_P01_CRC_INITIAL_VALUE :: u8 where "E2E_P01_CRC_INITIAL_VALUE = 0xFF"
definition E2E_P01_CRC_XOR_VALUE :: u8 where "E2E_P01_CRC_XOR_VALUE = 0xFF"
definition E2E_P01_COUNTER_MAX :: u8 where "E2E_P01_COUNTER_MAX = 14"
definition E2E_P01_COUNTER_WRAP :: u8 where "E2E_P01_COUNTER_WRAP = 15"
definition E2E_P01_MAX_DELTA_COUNTER_DEFAULT :: u8 where "E2E_P01_MAX_DELTA_COUNTER_DEFAULT = 1"
definition E2E_P01_HIGH_NIBBLE_MASK :: u8 where "E2E_P01_HIGH_NIBBLE_MASK = 0xF0"
definition E2E_P01_LOW_NIBBLE_MASK :: u8 where "E2E_P01_LOW_NIBBLE_MASK = 0x0F"

record E2E_P01ConfigType =
  DataLength :: u16
  DataID :: u16
  MaxDeltaCounter :: u8
  MaxNoNewOrRepeatedData :: u16
  SyncCounter :: u16
  CounterOffset :: u16
  CRCOffset :: u16
  DataIDNibbleOffset :: u16
  DataIDMode :: bool

record E2E_P01ProtectStateType =
  Counter :: u8

record E2E_P01CheckStateType =
  LastValidCounter :: u8
  cs_MaxDeltaCounter :: u8
  WaitForFirstData :: bool
  NewDataAvailable :: bool
  LostData :: u16
  Status :: E2E_P01CheckStatusType
  NoNewOrRepeatedDataCounter :: u16
  cs_SyncCounter :: u16

record E2E_SMConfigType =
  WindowSize :: u8
  MinOkStateInit :: u8
  MaxErrorStateInit :: u8
  MinOkStateValid :: u8
  MinOkStateInvalid :: u8
  MaxErrorStateValid :: u8
  MaxErrorStateInvalid :: u8

record E2E_SMCheckStateType =
  OkCount :: u8
  ErrorCount :: u8
  SMState :: E2E_SMStateType

text \<open>The lookup table of the CRC-8 with polynomial \<open>0x1D\<close>, as the source lists it.\<close>

definition E2E_P01_CRC8_Table :: "u8 list" where
  "E2E_P01_CRC8_Table = [
    0x00, 0x1D, 0x3A, 0x27, 0x74, 0x69, 0x4E, 0x53,
    0xE8, 0xF5, 0xD2, 0xCF, 0x9C, 0x81, 0xA6, 0xBB,
    0xCD, 0xD0, 0xF7, 0xEA, 0xB9, 0xA4, 0x83, 0x9E,
    0x25, 0x38, 0x1F, 0x02, 0x51, 0x4C, 0x6B, 0x76,
    0x87, 0x9A, 0xBD, 0xA0, 0xF3, 0xEE, 0xC9, 0xD4,
    0x6F, 0x72, 0x55, 0x48, 0x1B, 0x06, 0x21, 0x3C,
    0x4A, 0x57, 0x70, 0x6D, 0x3E, 0x23, 0x04, 0x19,
    0xA2, 0xBF, 0x98, 0x85, 0xD6, 0xCB, 0xEC, 0xF1,
    0x13, 0x0E, 0x29, 0x34, 0x67, 0x7A, 0x5D, 0x40,
    0xFB, 0xE6, 0xC1, 0xDC, 0x8F, 0x92, 0xB5, 0xA8,
    0xDE, 0xC3, 0xE4, 0xF9, 0xAA, 0xB7, 0x90, 0x8D,
    0x36, 0x2B, 0x0C, 0x11, 0x42, 0x5F, 0x78, 0x65,
    0x94, 0x89, 0xAE, 0xB3, 0xE0, 0xFD, 0xDA, 0xC7,
    0x7C, 0x61, 0x46, 0x5B, 0x08, 0x15, 0x32, 0x2F,
    0x59, 0x44, 0x63, 0x7E, 0x2D, 0x30, 0x17, 0x0A,
    0xB1, 0xAC, 0x8B, 0x96, 0xC5, 0xD8, 0xFF, 0xE2,
    0x26, 0x3B, 0x1C, 0x01, 0x52, 0x4F, 0x68, 0x75,
    0xCE, 0xD3, 0xF4, 0xE9, 0xBA, 0xA7, 0x80, 0x9D,
    0xEB, 0xF6, 0xD1, 0xCC, 0x9F, 0x82, 0xA5, 0xB8,
    0x03, 0x1E, 0x39, 0x24, 0x77, 0x6A, 0x4D, 0x50,
    0xA1, 0xBC, 0x9B, 0x86, 0xD5, 0xC8, 0xEF, 0xF2,
    0x49, 0x54, 0x73, 0x6E, 0x3D, 0x20, 0x07, 0x1A,
    0x6C, 0x71, 0x56, 0x4B, 0x18, 0x05, 0x22, 0x3F,
    0x84, 0x99, 0xBE, 0xA3, 0xF0, 0xED, 0xCA, 0xD7,
    0x35, 0x28, 0x0F, 0x12, 0x41, 0x5C, 0x7B, 0x66,
    0xDD, 0xC0, 0xE7, 0xFA, 0xA9, 0xB4, 0x93, 0x8E,
    0xF8, 0xE5, 0xC2, 0xDF, 0x8C, 0x91, 0xB6, 0xAB,
    0x10, 0x0D, 0x2A, 0x37, 0x64, 0x79, 0x5E, 0x43,
    0xB2, 0xAF, 0x88, 0x95, 0xC6, 0xDB, 0xFC, 0xE1,
    0x5A, 0x47, 0x60, 0x7D, 0x2E, 0x33, 0x14, 0x09,
    0x7F, 0x62, 0x45, 0x58, 0x0B, 0x16, 0x31, 0x2C,
    0x97, 0x8A, 0xAD, 0xB0, 0xE3, 0xFE, 0xD9, 0xC4]"

text \<open>
  A message buffer is a list of bytes. \<open>byte_at\<close> is the read \<^verbatim>\<open>data[i]\<close>; a read
  past the end of the buffer is undefined behaviour in C++ and yields \<open>0\<close> here. The
  store \<^verbatim>\<open>data[i] = v\<close> is \<open>data[i := v]\<close>, which leaves the list as it is when \<open>i\<close>
  is past the end. No statement below depends on either out-of-range case.
\<close>

definition byte_at :: "u8 list \<Rightarrow> nat \<Rightarrow> u8" where
  "byte_at xs i = (if i < length xs then xs ! i else 0)"

text \<open>The body of the \<^verbatim>\<open>for\<close> loop of \<^verbatim>\<open>E2E_P01_CalculateCRC8\<close>, over the bytes it reads.\<close>

fun crc8_loop :: "u8 \<Rightarrow> u8 list \<Rightarrow> u8" where
  "crc8_loop crc [] = crc"
| "crc8_loop crc (b # bs) = crc8_loop (E2E_P01_CRC8_Table ! unat (crc XOR b)) bs"

definition E2E_P01_CalculateCRC8 :: "u8 list option \<Rightarrow> u16 \<Rightarrow> u8 \<Rightarrow> bool \<Rightarrow> u8" where
  "E2E_P01_CalculateCRC8 data len startValue isFirstCall =
     (case data of
        None \<Rightarrow> 0xFF
      | Some bytes \<Rightarrow>
          (let crc = (if isFirstCall then E2E_P01_CRC_INITIAL_VALUE else startValue)
           in crc8_loop crc (take (unat len) bytes) XOR E2E_P01_CRC_XOR_VALUE))"

definition E2E_P01_IncrementCounter :: "u8 \<Rightarrow> u8" where
  "E2E_P01_IncrementCounter counter =
     (let newCounter = counter + 1
      in if newCounter > E2E_P01_COUNTER_MAX then 0 else newCounter)"

text \<open>The result is an \<^verbatim>\<open>int16_t\<close>; its value lies between \<open>-239\<close> and \<open>255\<close>, so no
  conversion wraps and \<open>int\<close> represents it exactly.\<close>

definition E2E_P01_DeltaCounter :: "u8 \<Rightarrow> u8 \<Rightarrow> int" where
  "E2E_P01_DeltaCounter receivedCounter lastValidCounter =
     (if receivedCounter \<ge> lastValidCounter
      then uint receivedCounter - uint lastValidCounter
      else uint E2E_P01_COUNTER_WRAP - uint lastValidCounter + uint receivedCounter + 1)"

definition E2E_P01_GetCounter :: "u8 list option \<Rightarrow> E2E_P01ConfigType \<Rightarrow> u8" where
  "E2E_P01_GetCounter data config =
     (case data of
        None \<Rightarrow> 0
      | Some bytes \<Rightarrow> byte_at bytes (unat (CounterOffset config div 8)) AND E2E_P01_LOW_NIBBLE_MASK)"

definition E2E_P01_SetCounter :: "u8 list option \<Rightarrow> E2E_P01ConfigType \<Rightarrow> u8 \<Rightarrow> u8 list option" where
  "E2E_P01_SetCounter data config counter =
     (case data of
        None \<Rightarrow> None
      | Some bytes \<Rightarrow>
          (let byteOffset = unat (CounterOffset config div 8)
           in Some (bytes[byteOffset :=
                (byte_at bytes byteOffset AND E2E_P01_HIGH_NIBBLE_MASK) OR
                (counter AND E2E_P01_LOW_NIBBLE_MASK)])))"

definition E2E_P01_GetCRC :: "u8 list option \<Rightarrow> E2E_P01ConfigType \<Rightarrow> u8" where
  "E2E_P01_GetCRC data config =
     (case data of
        None \<Rightarrow> 0
      | Some bytes \<Rightarrow> byte_at bytes (unat (CRCOffset config div 8)))"

definition E2E_P01_SetCRC :: "u8 list option \<Rightarrow> E2E_P01ConfigType \<Rightarrow> u8 \<Rightarrow> u8 list option" where
  "E2E_P01_SetCRC data config crc =
     (case data of
        None \<Rightarrow> None
      | Some bytes \<Rightarrow> Some (bytes[unat (CRCOffset config div 8) := crc]))"

definition E2E_P01ProtectInit :: "E2E_P01ProtectStateType \<Rightarrow> E2E_P01ProtectStateType" where
  "E2E_P01ProtectInit state = state\<lparr>Counter := 0\<rparr>"

text \<open>
  The CRC over the DataID bytes and the payload without its CRC byte: the three calls
  of \<^verbatim>\<open>E2E_P01_CalculateCRC8\<close> that \<^verbatim>\<open>E2E_P01Protect\<close> and \<^verbatim>\<open>E2E_P01Check\<close> both make,
  in the same order and under the same guards. \<^verbatim>\<open>&data[crcByteOffset + 1U]\<close> is the
  buffer without its first \<open>crcByteOffset + 1\<close> bytes. The caller has checked
  \<open>len \<noteq> 0\<close>, so \<^verbatim>\<open>length - 1U\<close> does not wrap.
\<close>

definition E2E_P01_ComputeCRC :: "E2E_P01ConfigType \<Rightarrow> u8 list \<Rightarrow> u16 \<Rightarrow> u8" where
  "E2E_P01_ComputeCRC config bytes len =
     (let crcByteOffset = CRCOffset config div 8;
          dataIdBytes = [ucast (drop_bit 8 (DataID config)) :: u8, ucast (DataID config AND 0xFF)];
          crc0 = E2E_P01_CalculateCRC8 (Some dataIdBytes) 2 0 True;
          crc1 = (if crcByteOffset > 0
                  then E2E_P01_CalculateCRC8 (Some bytes) crcByteOffset crc0 False
                  else crc0)
      in if unat crcByteOffset < unat len - 1
         then E2E_P01_CalculateCRC8 (Some (drop (unat crcByteOffset + 1) bytes))
                (len - crcByteOffset - 1) crc1 False
         else crc1)"

definition E2E_P01Protect ::
  "E2E_P01ConfigType \<Rightarrow> E2E_P01ProtectStateType \<Rightarrow> u8 list option \<Rightarrow> u16
     \<Rightarrow> Std_ReturnType \<times> E2E_P01ProtectStateType \<times> u8 list option" where
  "E2E_P01Protect config state data len =
     (case data of
        None \<Rightarrow> (E_NOT_OK, state, data)
      | Some bytes \<Rightarrow>
          (if len = 0 then (E_NOT_OK, state, data)
           else
             (case E2E_P01_SetCounter data config (Counter state) of
                None \<Rightarrow> (E_NOT_OK, state, data)
              | Some bytes1 \<Rightarrow>
                  (let crc = E2E_P01_ComputeCRC config bytes1 len;
                       data2 = E2E_P01_SetCRC (Some bytes1) config crc
                   in (E_OK, state\<lparr>Counter := E2E_P01_IncrementCounter (Counter state)\<rparr>, data2)))))"

definition E2E_P01CheckInit :: "E2E_P01CheckStateType \<Rightarrow> E2E_P01CheckStateType" where
  "E2E_P01CheckInit state =
     state\<lparr>LastValidCounter := 0,
           cs_MaxDeltaCounter := E2E_P01_MAX_DELTA_COUNTER_DEFAULT,
           WaitForFirstData := True,
           NewDataAvailable := False,
           LostData := 0,
           Status := E2E_P01STATUS_INITIAL,
           NoNewOrRepeatedDataCounter := 0,
           cs_SyncCounter := 0\<rparr>"

text \<open>The branch of \<^verbatim>\<open>E2E_P01Check\<close> for a call without data (\<^verbatim>\<open>data == NULL_PTR\<close> or
  \<^verbatim>\<open>length == 0U\<close>).\<close>

definition E2E_P01Check_noNewData ::
  "E2E_P01ConfigType \<Rightarrow> E2E_P01CheckStateType \<Rightarrow> E2E_P01CheckStatusType \<times> E2E_P01CheckStateType" where
  "E2E_P01Check_noNewData config state =
     (let s1 = state\<lparr>NoNewOrRepeatedDataCounter := NoNewOrRepeatedDataCounter state + 1\<rparr>;
          s2 = (if NoNewOrRepeatedDataCounter s1 \<ge> MaxNoNewOrRepeatedData config
                then s1\<lparr>Status := E2E_P01STATUS_NONEWDATA\<rparr> else s1)
      in (Status s2, s2))"

definition E2E_P01Check ::
  "E2E_P01ConfigType \<Rightarrow> E2E_P01CheckStateType \<Rightarrow> u8 list option \<Rightarrow> u16
     \<Rightarrow> E2E_P01CheckStatusType \<times> E2E_P01CheckStateType" where
  "E2E_P01Check config state data len =
     (case data of
        None \<Rightarrow> E2E_P01Check_noNewData config state
      | Some bytes \<Rightarrow>
          (if len = 0 then E2E_P01Check_noNewData config state
           else
             (let receivedCrc = E2E_P01_GetCRC data config;
                  receivedCounter = E2E_P01_GetCounter data config;
                  calculatedCrc = E2E_P01_ComputeCRC config bytes len
              in if receivedCrc \<noteq> calculatedCrc then
                   (let s1 = state\<lparr>Status := E2E_P01STATUS_WRONGCRC\<rparr> in (Status s1, s1))
                 else
                   (let s1 = state\<lparr>NoNewOrRepeatedDataCounter := 0\<rparr>;
                        s2 = (if WaitForFirstData s1 then
                                s1\<lparr>WaitForFirstData := False,
                                   LastValidCounter := receivedCounter,
                                   Status := E2E_P01STATUS_INITIAL\<rparr>
                              else
                                (let deltaCounter =
                                       E2E_P01_DeltaCounter receivedCounter (LastValidCounter s1)
                                 in if deltaCounter = 0 then
                                      s1\<lparr>Status := E2E_P01STATUS_REPEATED\<rparr>
                                    else if deltaCounter = 1 then
                                      s1\<lparr>LastValidCounter := receivedCounter,
                                         Status := E2E_P01STATUS_OK\<rparr>
                                    else if deltaCounter > 1 \<and>
                                            deltaCounter \<le> uint (MaxDeltaCounter config) then
                                      s1\<lparr>LostData := LostData s1 + word_of_int (deltaCounter - 1),
                                         LastValidCounter := receivedCounter,
                                         Status := E2E_P01STATUS_OKSOMELOST\<rparr>
                                    else
                                      s1\<lparr>Status := E2E_P01STATUS_WRONGSEQUENCE\<rparr>))
                    in (Status s2, s2)))))"

definition E2E_SMCheckInit :: "E2E_SMCheckStateType \<Rightarrow> E2E_SMCheckStateType" where
  "E2E_SMCheckInit state = state\<lparr>OkCount := 0, ErrorCount := 0, SMState := E2E_SM_DEINIT\<rparr>"

definition E2E_SMCheck ::
  "E2E_SMConfigType \<Rightarrow> E2E_SMCheckStateType \<Rightarrow> E2E_P01CheckStatusType
     \<Rightarrow> E2E_SMStateType \<times> E2E_SMCheckStateType" where
  "E2E_SMCheck config state profileStatus =
     (let isOk = (profileStatus = E2E_P01STATUS_OK \<or>
                  profileStatus = E2E_P01STATUS_OKSOMELOST \<or>
                  profileStatus = E2E_P01STATUS_INITIAL);
          s1 = (if isOk then
                  (let a = (if OkCount state < 0xFF then state\<lparr>OkCount := OkCount state + 1\<rparr> else state)
                   in a\<lparr>ErrorCount := 0\<rparr>)
                else
                  (let a = (if ErrorCount state < 0xFF
                            then state\<lparr>ErrorCount := ErrorCount state + 1\<rparr> else state)
                   in if profileStatus \<noteq> E2E_P01STATUS_REPEATED then a\<lparr>OkCount := 0\<rparr> else a));
          s2 = (case SMState s1 of
                  E2E_SM_DEINIT \<Rightarrow> s1\<lparr>SMState := E2E_SM_NODATA\<rparr>
                | E2E_SM_NODATA \<Rightarrow>
                    (if profileStatus \<noteq> E2E_P01STATUS_NONEWDATA
                     then s1\<lparr>SMState := E2E_SM_INIT\<rparr> else s1)
                | E2E_SM_INIT \<Rightarrow>
                    (if OkCount s1 \<ge> MinOkStateInit config then
                       s1\<lparr>SMState := E2E_SM_VALID, OkCount := 0, ErrorCount := 0\<rparr>
                     else if ErrorCount s1 \<ge> MaxErrorStateInit config then
                       s1\<lparr>SMState := E2E_SM_INVALID, OkCount := 0, ErrorCount := 0\<rparr>
                     else s1)
                | E2E_SM_VALID \<Rightarrow>
                    (if ErrorCount s1 \<ge> MaxErrorStateValid config then
                       s1\<lparr>SMState := E2E_SM_INVALID, OkCount := 0, ErrorCount := 0\<rparr>
                     else s1)
                | E2E_SM_INVALID \<Rightarrow>
                    (if OkCount s1 \<ge> MinOkStateInvalid config then
                       s1\<lparr>SMState := E2E_SM_VALID, OkCount := 0, ErrorCount := 0\<rparr>
                     else s1))
      in (SMState s2, s2))"

subsection \<open>The frame CRC as the specification words it\<close>

text \<open>
  The specification asks for a CRC-8 with polynomial \<open>0x1D\<close>, initial value \<open>0xFF\<close> and
  XOR-out \<open>0xFF\<close> (SAE-J1850), fed first with the two DataID bytes, high byte first, then
  with the payload bytes in order, the CRC byte skipped. The definitions below follow
  these words and not the source: the register is shifted bit by bit, without the table,
  and the bytes are fed in one pass, so that the XOR-out is applied once, after the last
  byte. They are compared with \<^verbatim>\<open>E2E_P01_ComputeCRC\<close>, the computation of the source.
\<close>

fun Spec_CRC8_shift :: "nat \<Rightarrow> u8 \<Rightarrow> u8" where
  "Spec_CRC8_shift 0 crc = crc"
| "Spec_CRC8_shift (Suc n) crc =
     Spec_CRC8_shift n (if bit crc 7 then push_bit 1 crc XOR 0x1D else push_bit 1 crc)"

fun Spec_CRC8_feed :: "u8 \<Rightarrow> u8 list \<Rightarrow> u8" where
  "Spec_CRC8_feed crc [] = crc"
| "Spec_CRC8_feed crc (b # bs) = Spec_CRC8_feed (Spec_CRC8_shift 8 (crc XOR b)) bs"

definition Spec_CRC8_J1850 :: "u8 list \<Rightarrow> u8" where
  "Spec_CRC8_J1850 bytes = Spec_CRC8_feed 0xFF bytes XOR 0xFF"

definition Spec_FrameCRC :: "E2E_P01ConfigType \<Rightarrow> u8 list \<Rightarrow> u8" where
  "Spec_FrameCRC config bytes =
     (let crcByteOffset = unat (CRCOffset config div 8)
      in Spec_CRC8_J1850
           ([ucast (drop_bit 8 (DataID config)), ucast (DataID config AND 0xFF)]
            @ take crcByteOffset bytes @ drop (crcByteOffset + 1) bytes))"

subsection \<open>SwitchEvent (\<^verbatim>\<open>SwitchEvent.h\<close>, \<^verbatim>\<open>SwitchEvent.cpp\<close>)\<close>

definition SWITCHEVENT_TIMEOUT_CYCLES :: u32 where
  "SWITCHEVENT_TIMEOUT_CYCLES = FLM_CAN_TIMEOUT_MS div FLM_MAIN_FUNCTION_PERIOD_MS"
definition SWITCHEVENT_E2E_TIMEOUT_CYCLES :: u32 where
  "SWITCHEVENT_E2E_TIMEOUT_CYCLES = FLM_E2E_TIMEOUT_MS div FLM_MAIN_FUNCTION_PERIOD_MS"
definition SWITCHEVENT_MAX_E2E_ERRORS :: u8 where "SWITCHEVENT_MAX_E2E_ERRORS = 5"

record SwitchEvent_StateType =
  se_isInitialized :: bool
  se_e2eConfig :: E2E_P01ConfigType
  se_e2eCheckState :: E2E_P01CheckStateType
  se_e2eSmState :: E2E_SMCheckStateType
  se_e2eSmConfig :: E2E_SMConfigType
  se_lightSwitchStatus :: LightSwitchStatus
  se_e2eStatus :: E2E_P01CheckStatusType
  se_e2eSmStatus :: E2E_SMStateType
  se_timeoutCounter :: u16
  se_e2eTimeoutCounter :: u16
  se_lastValidTimestamp :: u32
  se_currentTimestamp :: u32
  se_consecutiveE2EErrors :: u8
  se_consecutiveTimeouts :: u8
  se_e2eFailureActive :: bool
  se_timeoutActive :: bool
  se_lastMessageData :: "u8 list"
  se_newMessageReceived :: bool

text \<open>The file-level variables \<^verbatim>\<open>SwitchEvent_State\<close> and \<^verbatim>\<open>SwitchEvent_SystemTime\<close>.\<close>

record SwitchEvent_Statics =
  SwitchEvent_State :: SwitchEvent_StateType
  SwitchEvent_SystemTime :: u32

text \<open>\<^verbatim>\<open>static_cast<uint8_t>\<close> of an E2E status: the enumerator's value.\<close>

fun E2E_P01CheckStatus_code :: "E2E_P01CheckStatusType \<Rightarrow> u8" where
  "E2E_P01CheckStatus_code E2E_P01STATUS_OK = 0x00"
| "E2E_P01CheckStatus_code E2E_P01STATUS_NONEWDATA = 0x01"
| "E2E_P01CheckStatus_code E2E_P01STATUS_WRONGCRC = 0x02"
| "E2E_P01CheckStatus_code E2E_P01STATUS_SYNC = 0x03"
| "E2E_P01CheckStatus_code E2E_P01STATUS_INITIAL = 0x04"
| "E2E_P01CheckStatus_code E2E_P01STATUS_REPEATED = 0x05"
| "E2E_P01CheckStatus_code E2E_P01STATUS_OKSOMELOST = 0x06"
| "E2E_P01CheckStatus_code E2E_P01STATUS_WRONGSEQUENCE = 0x07"

text \<open>\<^verbatim>\<open>static_cast<LightSwitchCmd>\<close> of a command byte; the source applies it only to
  bytes that passed \<^verbatim>\<open>SwitchEvent_IsCommandValid\<close>, that is to \<open>0..3\<close>.\<close>

definition LightSwitchCmd_of_byte :: "u8 \<Rightarrow> LightSwitchCmd" where
  "LightSwitchCmd_of_byte c =
     (if c = 0 then LIGHT_SWITCH_OFF
      else if c = 1 then LIGHT_SWITCH_LOW_BEAM
      else if c = 2 then LIGHT_SWITCH_HIGH_BEAM
      else LIGHT_SWITCH_AUTO)"

definition SwitchEvent_IsCommandValid :: "u8 \<Rightarrow> bool" where
  "SwitchEvent_IsCommandValid command = (command \<le> 3)"

definition SwitchEvent_InitE2E :: "SwitchEvent_StateType \<Rightarrow> SwitchEvent_StateType" where
  "SwitchEvent_InitE2E s =
     s\<lparr>se_e2eConfig :=
          \<lparr>DataLength = FLM_E2E_LIGHTSWITCH_DATA_LENGTH,
           DataID = FLM_E2E_LIGHTSWITCH_DATA_ID,
           MaxDeltaCounter = FLM_E2E_MAX_DELTA_COUNTER,
           MaxNoNewOrRepeatedData = FLM_E2E_MAX_NO_NEW_DATA,
           SyncCounter = FLM_E2E_SYNC_COUNTER,
           CounterOffset = FLM_E2E_COUNTER_OFFSET,
           CRCOffset = FLM_E2E_CRC_OFFSET,
           DataIDNibbleOffset = 0,
           DataIDMode = False\<rparr>,
        se_e2eCheckState := E2E_P01CheckInit (se_e2eCheckState s),
        se_e2eSmConfig :=
          \<lparr>WindowSize = 5, MinOkStateInit = 2, MaxErrorStateInit = 2, MinOkStateValid = 2,
           MinOkStateInvalid = 3, MaxErrorStateValid = 2, MaxErrorStateInvalid = 3\<rparr>,
        se_e2eSmState := E2E_SMCheckInit (se_e2eSmState s)\<rparr>"

text \<open>The struct after \<^verbatim>\<open>memset(&SwitchEvent_State, 0, ...)\<close>: every enum is its
  enumerator of value \<open>0\<close>.\<close>

definition SwitchEvent_State_zero :: SwitchEvent_StateType where
  "SwitchEvent_State_zero =
     \<lparr>se_isInitialized = False,
      se_e2eConfig = \<lparr>DataLength = 0, DataID = 0, MaxDeltaCounter = 0, MaxNoNewOrRepeatedData = 0,
        SyncCounter = 0, CounterOffset = 0, CRCOffset = 0, DataIDNibbleOffset = 0, DataIDMode = False\<rparr>,
      se_e2eCheckState = \<lparr>LastValidCounter = 0, cs_MaxDeltaCounter = 0, WaitForFirstData = False,
        NewDataAvailable = False, LostData = 0, Status = E2E_P01STATUS_OK,
        NoNewOrRepeatedDataCounter = 0, cs_SyncCounter = 0\<rparr>,
      se_e2eSmState = \<lparr>OkCount = 0, ErrorCount = 0, SMState = E2E_SM_VALID\<rparr>,
      se_e2eSmConfig = \<lparr>WindowSize = 0, MinOkStateInit = 0, MaxErrorStateInit = 0, MinOkStateValid = 0,
        MinOkStateInvalid = 0, MaxErrorStateValid = 0, MaxErrorStateInvalid = 0\<rparr>,
      se_lightSwitchStatus = \<lparr>ls_command = LIGHT_SWITCH_OFF, ls_isValid = False, ls_e2eStatus = 0\<rparr>,
      se_e2eStatus = E2E_P01STATUS_OK,
      se_e2eSmStatus = E2E_SM_VALID,
      se_timeoutCounter = 0,
      se_e2eTimeoutCounter = 0,
      se_lastValidTimestamp = 0,
      se_currentTimestamp = 0,
      se_consecutiveE2EErrors = 0,
      se_consecutiveTimeouts = 0,
      se_e2eFailureActive = False,
      se_timeoutActive = False,
      se_lastMessageData = [0, 0, 0, 0],
      se_newMessageReceived = False\<rparr>"

definition SwitchEvent_Init :: "SwitchEvent_Statics \<Rightarrow> SwitchEvent_Statics" where
  "SwitchEvent_Init g =
     (let s1 = SwitchEvent_InitE2E SwitchEvent_State_zero;
          s2 = s1\<lparr>se_lightSwitchStatus :=
                    \<lparr>ls_command = LIGHT_SWITCH_OFF, ls_isValid = False, ls_e2eStatus = 0\<rparr>,
                  se_timeoutCounter := 0,
                  se_e2eTimeoutCounter := 0,
                  se_lastValidTimestamp := 0,
                  se_currentTimestamp := 0,
                  se_consecutiveE2EErrors := 0,
                  se_consecutiveTimeouts := 0,
                  se_e2eFailureActive := False,
                  se_timeoutActive := False,
                  se_newMessageReceived := False,
                  se_isInitialized := True\<rparr>
      in g\<lparr>SwitchEvent_State := s2\<rparr>)"

definition SwitchEvent_ExtractLightSwitchCommand ::
  "SwitchEvent_StateType \<Rightarrow> u8 list option \<Rightarrow> SwitchEvent_StateType" where
  "SwitchEvent_ExtractLightSwitchCommand s data =
     (case data of
        None \<Rightarrow> s
      | Some bytes \<Rightarrow>
          (let command = byte_at bytes COM_LIGHTSWITCH_CMD_BYTE
           in if SwitchEvent_IsCommandValid command then
                s\<lparr>se_lightSwitchStatus :=
                     (se_lightSwitchStatus s)\<lparr>ls_command := LightSwitchCmd_of_byte command\<rparr>\<rparr>
              else
                s\<lparr>se_lightSwitchStatus := (se_lightSwitchStatus s)\<lparr>ls_isValid := False\<rparr>\<rparr>))"

definition SwitchEvent_PerformE2ECheck :: "SwitchEvent_StateType \<Rightarrow> SwitchEvent_StateType" where
  "SwitchEvent_PerformE2ECheck s =
     (if se_newMessageReceived s then
        (let r = E2E_P01Check (se_e2eConfig s) (se_e2eCheckState s)
                   (Some (se_lastMessageData s)) FLM_CAN_LIGHTSWITCH_MSG_LEN;
             s1 = s\<lparr>se_e2eCheckState := snd r, se_e2eStatus := fst r\<rparr>;
             m = E2E_SMCheck (se_e2eSmConfig s1) (se_e2eSmState s1) (se_e2eStatus s1);
             s2 = s1\<lparr>se_e2eSmState := snd m, se_e2eSmStatus := fst m\<rparr>;
             s3 = (if se_e2eStatus s2 = E2E_P01STATUS_OK \<or>
                      se_e2eStatus s2 = E2E_P01STATUS_OKSOMELOST \<or>
                      se_e2eStatus s2 = E2E_P01STATUS_INITIAL then
                     (let a = SwitchEvent_ExtractLightSwitchCommand s2 (Some (se_lastMessageData s2))
                      in a\<lparr>se_consecutiveE2EErrors := 0,
                           se_lastValidTimestamp := se_currentTimestamp a,
                           se_timeoutCounter := 0,
                           se_e2eFailureActive := False\<rparr>)
                   else
                     (let a = s2\<lparr>se_consecutiveE2EErrors := se_consecutiveE2EErrors s2 + 1\<rparr>
                      in if se_consecutiveE2EErrors a \<ge> SWITCHEVENT_MAX_E2E_ERRORS then
                           a\<lparr>se_e2eFailureActive := True,
                              se_lightSwitchStatus := (se_lightSwitchStatus a)\<lparr>ls_isValid := False\<rparr>\<rparr>
                         else a))
         in s3\<lparr>se_newMessageReceived := False\<rparr>)
      else
        (let r = E2E_P01Check (se_e2eConfig s) (se_e2eCheckState s) None 0;
             s1 = s\<lparr>se_e2eCheckState := snd r, se_e2eStatus := fst r\<rparr>;
             m = E2E_SMCheck (se_e2eSmConfig s1) (se_e2eSmState s1) (se_e2eStatus s1)
         in s1\<lparr>se_e2eSmState := snd m, se_e2eSmStatus := fst m\<rparr>))"

definition SwitchEvent_UpdateTimeoutStatus :: "SwitchEvent_StateType \<Rightarrow> SwitchEvent_StateType" where
  "SwitchEvent_UpdateTimeoutStatus s =
     (let s1 = (if \<not> se_newMessageReceived s
                then s\<lparr>se_timeoutCounter := se_timeoutCounter s + 1\<rparr> else s);
          s2 = (if ucast (se_timeoutCounter s1) \<ge> SWITCHEVENT_TIMEOUT_CYCLES then
                  s1\<lparr>se_timeoutActive := True,
                     se_consecutiveTimeouts := se_consecutiveTimeouts s1 + 1,
                     se_lightSwitchStatus := (se_lightSwitchStatus s1)\<lparr>ls_isValid := False\<rparr>\<rparr>
                else
                  s1\<lparr>se_timeoutActive := False, se_consecutiveTimeouts := 0\<rparr>)
      in if se_e2eSmStatus s2 \<noteq> E2E_SM_VALID then
           (let a = s2\<lparr>se_e2eTimeoutCounter := se_e2eTimeoutCounter s2 + 1\<rparr>
            in if ucast (se_e2eTimeoutCounter a) \<ge> SWITCHEVENT_E2E_TIMEOUT_CYCLES
               then a\<lparr>se_e2eFailureActive := True\<rparr> else a)
         else s2\<lparr>se_e2eTimeoutCounter := 0\<rparr>)"

definition SwitchEvent_MainFunction :: "SwitchEvent_Statics \<Rightarrow> SwitchEvent_Statics" where
  "SwitchEvent_MainFunction g =
     (if \<not> se_isInitialized (SwitchEvent_State g) then g
      else
        (let s1 = (SwitchEvent_State g)\<lparr>se_currentTimestamp := SwitchEvent_SystemTime g\<rparr>;
             t = SwitchEvent_SystemTime g + FLM_MAIN_FUNCTION_PERIOD_MS;
             s2 = SwitchEvent_PerformE2ECheck s1;
             s3 = SwitchEvent_UpdateTimeoutStatus s2;
             s4 = (if se_e2eSmStatus s3 = E2E_SM_VALID then
                     (if \<not> se_timeoutActive s3
                      then s3\<lparr>se_lightSwitchStatus := (se_lightSwitchStatus s3)\<lparr>ls_isValid := True\<rparr>\<rparr>
                      else s3\<lparr>se_lightSwitchStatus := (se_lightSwitchStatus s3)\<lparr>ls_isValid := False\<rparr>\<rparr>)
                   else s3\<lparr>se_lightSwitchStatus := (se_lightSwitchStatus s3)\<lparr>ls_isValid := False\<rparr>\<rparr>);
             s5 = s4\<lparr>se_lightSwitchStatus :=
                       (se_lightSwitchStatus s4)\<lparr>ls_e2eStatus := E2E_P01CheckStatus_code (se_e2eStatus s4)\<rparr>\<rparr>
         in g\<lparr>SwitchEvent_State := s5, SwitchEvent_SystemTime := t\<rparr>))"

text \<open>\<^verbatim>\<open>SwitchEvent_ProcessCanMessage\<close>: a message of any other length than four bytes is
  dropped. The \<^verbatim>\<open>length\<close> argument is the length of the buffer passed.\<close>

definition SwitchEvent_ProcessCanMessage ::
  "u8 list option \<Rightarrow> SwitchEvent_Statics \<Rightarrow> SwitchEvent_Statics" where
  "SwitchEvent_ProcessCanMessage data g =
     (case data of
        None \<Rightarrow> g
      | Some bytes \<Rightarrow>
          (if length bytes \<noteq> unat FLM_CAN_LIGHTSWITCH_MSG_LEN then g
           else g\<lparr>SwitchEvent_State :=
                    (SwitchEvent_State g)\<lparr>se_lastMessageData := bytes, se_newMessageReceived := True\<rparr>\<rparr>))"

subsection \<open>LightRequest (\<^verbatim>\<open>LightRequest.h\<close>, \<^verbatim>\<open>LightRequest.cpp\<close>)\<close>

definition LIGHTREQUEST_ADC_BUFFER_SIZE :: nat where "LIGHTREQUEST_ADC_BUFFER_SIZE = 8"
definition LIGHTREQUEST_RATE_CHECK_CYCLES :: u8 where "LIGHTREQUEST_RATE_CHECK_CYCLES = 5"
definition LIGHTREQUEST_PLAUSIBILITY_DEBOUNCE :: u8 where "LIGHTREQUEST_PLAUSIBILITY_DEBOUNCE = 3"

record LightRequest_StateType =
  lr_isInitialized :: bool
  lr_adcBuffer :: "u16 list"
  lr_adcBufferIndex :: u8
  lr_adcSampleCount :: u8
  lr_adcFilteredValue :: u16
  lr_adcRawValue :: u16
  lr_previousFilteredValue :: u16
  lr_rateOfChange :: u16
  lr_rateCheckCounter :: u8
  lr_ambientLight :: AmbientLightLevel
  lr_signalStatus :: SignalStatus
  lr_plausibilityErrorCount :: u8
  lr_plausibilityFault :: bool
  lr_currentTimestamp :: u32
  lr_conversionPending :: bool

text \<open>The file-level variables of \<^verbatim>\<open>LightRequest.cpp\<close>.\<close>

record LightRequest_Statics =
  LightRequest_State :: LightRequest_StateType
  LightRequest_SystemTime :: u32
  LightRequest_SimAdcValue :: u16
  LightRequest_SimAdcEnabled :: bool

definition LightRequest_State_zero :: LightRequest_StateType where
  "LightRequest_State_zero =
     \<lparr>lr_isInitialized = False,
      lr_adcBuffer = replicate LIGHTREQUEST_ADC_BUFFER_SIZE 0,
      lr_adcBufferIndex = 0,
      lr_adcSampleCount = 0,
      lr_adcFilteredValue = 0,
      lr_adcRawValue = 0,
      lr_previousFilteredValue = 0,
      lr_rateOfChange = 0,
      lr_rateCheckCounter = 0,
      lr_ambientLight = \<lparr>al_adcValue = 0, al_luxValue = 0, al_isValid = False\<rparr>,
      lr_signalStatus = SIGNAL_STATUS_VALID,
      lr_plausibilityErrorCount = 0,
      lr_plausibilityFault = False,
      lr_currentTimestamp = 0,
      lr_conversionPending = False\<rparr>"

definition LightRequest_Init :: "LightRequest_Statics \<Rightarrow> LightRequest_Statics" where
  "LightRequest_Init g =
     g\<lparr>LightRequest_State :=
         LightRequest_State_zero
           \<lparr>lr_adcBuffer := replicate LIGHTREQUEST_ADC_BUFFER_SIZE 0,
            lr_adcBufferIndex := 0,
            lr_adcSampleCount := 0,
            lr_adcFilteredValue := 0,
            lr_adcRawValue := 0,
            lr_previousFilteredValue := 0,
            lr_rateOfChange := 0,
            lr_rateCheckCounter := 0,
            lr_ambientLight := \<lparr>al_adcValue = 0, al_luxValue = 0, al_isValid = False\<rparr>,
            lr_signalStatus := SIGNAL_STATUS_INVALID,
            lr_plausibilityErrorCount := 0,
            lr_plausibilityFault := False,
            lr_isInitialized := True\<rparr>\<rparr>"

text \<open>
  \<^verbatim>\<open>LightRequest_ReadAdc\<close>. The ADC driver is an external collaborator: \<open>adcRead\<close> is
  what \<^verbatim>\<open>Adc_StartGroupConversion\<close> followed by \<^verbatim>\<open>Adc_ReadGroup\<close> delivers at this
  call, \<open>Some v\<close> for \<^verbatim>\<open>E_OK\<close> with value \<open>v\<close> and \<open>None\<close> for \<^verbatim>\<open>E_NOT_OK\<close>.
\<close>

definition LightRequest_ReadAdc :: "u16 option \<Rightarrow> LightRequest_Statics \<Rightarrow> LightRequest_StateType" where
  "LightRequest_ReadAdc adcRead g =
     (let s = LightRequest_State g
      in if LightRequest_SimAdcEnabled g then s\<lparr>lr_adcRawValue := LightRequest_SimAdcValue g\<rparr>
         else (case adcRead of Some v \<Rightarrow> s\<lparr>lr_adcRawValue := v\<rparr> | None \<Rightarrow> s))"

text \<open>The sum of the first \<open>count\<close> buffer entries in a \<^verbatim>\<open>uint32_t\<close>, then the mean.
  \<open>count\<close> is at least \<open>1\<close> after the increment, so the division is defined. From
  \<^verbatim>\<open>LightRequest_Init\<close> on, the buffer index and the sample count stay within \<open>0..4\<close>, inside
  the eight entries of the buffer; for other values the C++ accesses are out of bounds, and
  the list operations here leave the buffer unchanged and sum the entries there are.\<close>

definition LightRequest_ApplyFilter :: "LightRequest_StateType \<Rightarrow> LightRequest_StateType" where
  "LightRequest_ApplyFilter s =
     (let s1 = s\<lparr>lr_adcBuffer := (lr_adcBuffer s)[unat (lr_adcBufferIndex s) := lr_adcRawValue s]\<rparr>;
          s2 = s1\<lparr>lr_adcBufferIndex :=
                    ucast (((ucast (lr_adcBufferIndex s1) :: u32) + 1) mod ucast FLM_ADC_SAMPLES)\<rparr>;
          s3 = (if lr_adcSampleCount s2 < FLM_ADC_SAMPLES
                then s2\<lparr>lr_adcSampleCount := lr_adcSampleCount s2 + 1\<rparr> else s2);
          count = lr_adcSampleCount s3;
          sum = foldl (\<lambda>acc v. acc + ucast v) (0 :: u32) (take (unat count) (lr_adcBuffer s3))
      in s3\<lparr>lr_adcFilteredValue := ucast (sum div ucast count)\<rparr>)"

definition LightRequest_CheckOpenCircuit :: "LightRequest_StateType \<Rightarrow> LightRequest_StateType" where
  "LightRequest_CheckOpenCircuit s =
     (if lr_adcFilteredValue s < FLM_AMBIENT_OPEN_CIRCUIT then
        s\<lparr>lr_signalStatus := SIGNAL_STATUS_OPEN_CIRCUIT,
          lr_ambientLight := (lr_ambientLight s)\<lparr>al_isValid := False\<rparr>\<rparr>
      else s)"

definition LightRequest_CheckShortCircuit :: "LightRequest_StateType \<Rightarrow> LightRequest_StateType" where
  "LightRequest_CheckShortCircuit s =
     (if lr_adcFilteredValue s > FLM_AMBIENT_SHORT_CIRCUIT then
        s\<lparr>lr_signalStatus := SIGNAL_STATUS_SHORT_CIRCUIT,
          lr_ambientLight := (lr_ambientLight s)\<lparr>al_isValid := False\<rparr>\<rparr>
      else s)"

definition LightRequest_CheckPlausibility :: "LightRequest_StateType \<Rightarrow> LightRequest_StateType" where
  "LightRequest_CheckPlausibility s =
     (let s1 = s\<lparr>lr_rateCheckCounter := lr_rateCheckCounter s + 1\<rparr>
      in if lr_rateCheckCounter s1 \<ge> LIGHTREQUEST_RATE_CHECK_CYCLES then
           (let s2 = s1\<lparr>lr_rateCheckCounter := 0\<rparr>;
                delta = uint (lr_adcFilteredValue s2) - uint (lr_previousFilteredValue s2);
                delta' = (if delta < 0 then - delta else delta);
                s3 = s2\<lparr>lr_rateOfChange := word_of_int delta'\<rparr>;
                s4 = (if lr_rateOfChange s3 > FLM_AMBIENT_RATE_LIMIT then
                        (let a = (if lr_plausibilityErrorCount s3 < LIGHTREQUEST_PLAUSIBILITY_DEBOUNCE
                                  then s3\<lparr>lr_plausibilityErrorCount := lr_plausibilityErrorCount s3 + 1\<rparr>
                                  else s3)
                         in if lr_plausibilityErrorCount a \<ge> LIGHTREQUEST_PLAUSIBILITY_DEBOUNCE then
                              a\<lparr>lr_plausibilityFault := True,
                                lr_signalStatus := SIGNAL_STATUS_PLAUSIBILITY,
                                lr_ambientLight := (lr_ambientLight a)\<lparr>al_isValid := False\<rparr>\<rparr>
                            else a)
                      else s3\<lparr>lr_plausibilityErrorCount := 0, lr_plausibilityFault := False\<rparr>)
            in s4\<lparr>lr_previousFilteredValue := lr_adcFilteredValue s4\<rparr>)
         else s1)"

definition LightRequest_AdcToLux :: "u16 \<Rightarrow> u16" where
  "LightRequest_AdcToLux adcValue = adcValue div 4"

definition LightRequest_UpdateOutput :: "LightRequest_StateType \<Rightarrow> LightRequest_StateType" where
  "LightRequest_UpdateOutput s =
     (let s1 = (if lr_signalStatus s \<noteq> SIGNAL_STATUS_OPEN_CIRCUIT \<and>
                   lr_signalStatus s \<noteq> SIGNAL_STATUS_SHORT_CIRCUIT \<and>
                   lr_signalStatus s \<noteq> SIGNAL_STATUS_PLAUSIBILITY then
                  (if lr_adcSampleCount s \<ge> FLM_ADC_SAMPLES then
                     s\<lparr>lr_signalStatus := SIGNAL_STATUS_VALID,
                       lr_ambientLight := (lr_ambientLight s)\<lparr>al_isValid := True\<rparr>\<rparr>
                   else
                     s\<lparr>lr_signalStatus := SIGNAL_STATUS_INVALID,
                       lr_ambientLight := (lr_ambientLight s)\<lparr>al_isValid := False\<rparr>\<rparr>)
                else s);
          s2 = s1\<lparr>lr_ambientLight := (lr_ambientLight s1)\<lparr>al_adcValue := lr_adcFilteredValue s1\<rparr>\<rparr>
      in s2\<lparr>lr_ambientLight :=
              (lr_ambientLight s2)\<lparr>al_luxValue := LightRequest_AdcToLux (lr_adcFilteredValue s2)\<rparr>\<rparr>)"

definition LightRequest_MainFunction :: "u16 option \<Rightarrow> LightRequest_Statics \<Rightarrow> LightRequest_Statics" where
  "LightRequest_MainFunction adcRead g =
     (if \<not> lr_isInitialized (LightRequest_State g) then g
      else
        (let g1 = g\<lparr>LightRequest_State :=
                      (LightRequest_State g)\<lparr>lr_currentTimestamp := LightRequest_SystemTime g\<rparr>,
                    LightRequest_SystemTime := LightRequest_SystemTime g + FLM_AMBIENT_LIGHT_PERIOD_MS\<rparr>;
             s1 = LightRequest_ReadAdc adcRead g1;
             s2 = LightRequest_ApplyFilter s1;
             s3 = LightRequest_CheckOpenCircuit s2;
             s4 = LightRequest_CheckShortCircuit s3;
             s5 = LightRequest_CheckPlausibility s4;
             s6 = LightRequest_UpdateOutput s5
         in g1\<lparr>LightRequest_State := s6\<rparr>))"

definition LightRequest_SimSetAdcValue :: "u16 \<Rightarrow> LightRequest_Statics \<Rightarrow> LightRequest_Statics" where
  "LightRequest_SimSetAdcValue v g = g\<lparr>LightRequest_SimAdcValue := v, LightRequest_SimAdcEnabled := True\<rparr>"

subsection \<open>FLM application (\<^verbatim>\<open>FLM_Application.h\<close>, \<^verbatim>\<open>FLM_Application.cpp\<close>)\<close>

record FLM_Application_StateType =
  flm_isInitialized :: bool
  flm_currentState :: FLM_StateType
  flm_previousState :: FLM_StateType
  flm_stateEntryTime :: u32
  flm_lightSwitch :: LightSwitchStatus
  flm_ambientLight :: AmbientLightLevel
  flm_switchSignalStatus :: SignalStatus
  flm_ambientSignalStatus :: SignalStatus
  flm_e2eStatus :: E2E_P01CheckStatusType
  flm_headlightCommand :: HeadlightCommand
  flm_lightsCurrentlyOn :: bool
  flm_hysteresisActive :: bool
  flm_consecutiveErrors :: u8
  flm_e2eErrorStartTime :: u32
  flm_e2eTimeoutActive :: bool
  flm_degradedEntryTime :: u32
  flm_currentTime :: u32

text \<open>The file-level variables of \<^verbatim>\<open>FLM_Application.cpp\<close>.\<close>

record FLM_Statics =
  FLM_State :: FLM_Application_StateType
  FLM_SystemTime :: u32
  FLM_ExternalSafeStateTrigger :: bool
  FLM_SafeStateReason :: SafeStateReason

text \<open>
  What \<^verbatim>\<open>FLM_ReadInputs\<close> fetches from the other components at one tick:
  \<^verbatim>\<open>SwitchEvent_GetLightRequest()\<close>, \<^verbatim>\<open>SwitchEvent_GetE2EStatus()\<close>,
  \<^verbatim>\<open>SwitchEvent_IsTimeoutActive()\<close>, \<^verbatim>\<open>LightRequest_GetAmbientLight()\<close> and
  \<^verbatim>\<open>LightRequest_GetSignalStatus()\<close>.
\<close>

record FLM_Inputs =
  in_lightRequest :: LightSwitchStatus
  in_e2eStatus :: E2E_P01CheckStatusType
  in_timeoutActive :: bool
  in_ambientLight :: AmbientLightLevel
  in_signalStatus :: SignalStatus

definition FLM_State_zero :: FLM_Application_StateType where
  "FLM_State_zero =
     \<lparr>flm_isInitialized = False,
      flm_currentState = FLM_STATE_INIT,
      flm_previousState = FLM_STATE_INIT,
      flm_stateEntryTime = 0,
      flm_lightSwitch = \<lparr>ls_command = LIGHT_SWITCH_OFF, ls_isValid = False, ls_e2eStatus = 0\<rparr>,
      flm_ambientLight = \<lparr>al_adcValue = 0, al_luxValue = 0, al_isValid = False\<rparr>,
      flm_switchSignalStatus = SIGNAL_STATUS_VALID,
      flm_ambientSignalStatus = SIGNAL_STATUS_VALID,
      flm_e2eStatus = E2E_P01STATUS_OK,
      flm_headlightCommand = HEADLIGHT_CMD_OFF,
      flm_lightsCurrentlyOn = False,
      flm_hysteresisActive = False,
      flm_consecutiveErrors = 0,
      flm_e2eErrorStartTime = 0,
      flm_e2eTimeoutActive = False,
      flm_degradedEntryTime = 0,
      flm_currentTime = 0\<rparr>"

definition FLM_Init :: "FLM_Statics \<Rightarrow> FLM_Statics" where
  "FLM_Init g =
     g\<lparr>FLM_State :=
         FLM_State_zero
           \<lparr>flm_currentState := FLM_STATE_INIT,
            flm_previousState := FLM_STATE_INIT,
            flm_stateEntryTime := 0,
            flm_lightSwitch := (flm_lightSwitch FLM_State_zero)
               \<lparr>ls_command := LIGHT_SWITCH_OFF, ls_isValid := False\<rparr>,
            flm_ambientLight := (flm_ambientLight FLM_State_zero)\<lparr>al_isValid := False\<rparr>,
            flm_switchSignalStatus := SIGNAL_STATUS_INVALID,
            flm_ambientSignalStatus := SIGNAL_STATUS_INVALID,
            flm_headlightCommand := HEADLIGHT_CMD_OFF,
            flm_lightsCurrentlyOn := False,
            flm_hysteresisActive := False,
            flm_consecutiveErrors := 0,
            flm_e2eTimeoutActive := False,
            flm_isInitialized := True\<rparr>,
       FLM_ExternalSafeStateTrigger := False,
       FLM_SafeStateReason := SAFE_STATE_REASON_NONE\<rparr>"

definition FLM_ReadInputs :: "FLM_Inputs \<Rightarrow> FLM_Application_StateType \<Rightarrow> FLM_Application_StateType" where
  "FLM_ReadInputs inp s =
     (let s1 = s\<lparr>flm_lightSwitch := in_lightRequest inp, flm_e2eStatus := in_e2eStatus inp\<rparr>;
          s2 = (if ls_isValid (flm_lightSwitch s1) then s1\<lparr>flm_switchSignalStatus := SIGNAL_STATUS_VALID\<rparr>
                else if in_timeoutActive inp then s1\<lparr>flm_switchSignalStatus := SIGNAL_STATUS_TIMEOUT\<rparr>
                else s1\<lparr>flm_switchSignalStatus := SIGNAL_STATUS_INVALID\<rparr>)
      in s2\<lparr>flm_ambientLight := in_ambientLight inp, flm_ambientSignalStatus := in_signalStatus inp\<rparr>)"

definition FLM_AreAllInputsValid :: "FLM_Application_StateType \<Rightarrow> bool" where
  "FLM_AreAllInputsValid s = (ls_isValid (flm_lightSwitch s) \<and> al_isValid (flm_ambientLight s))"

definition FLM_IsAnyInputInvalid :: "FLM_Application_StateType \<Rightarrow> bool" where
  "FLM_IsAnyInputInvalid s = (\<not> ls_isValid (flm_lightSwitch s) \<or> \<not> al_isValid (flm_ambientLight s))"

definition FLM_IsCriticalFault :: "bool \<Rightarrow> FLM_Application_StateType \<Rightarrow> bool" where
  "FLM_IsCriticalFault externalSafeStateTrigger s =
     (if flm_e2eTimeoutActive s then True
      else if externalSafeStateTrigger then True
      else False)"

text \<open>The four state handlers take the value of \<^verbatim>\<open>FLM_ExternalSafeStateTrigger\<close>, which
  they read and do not write.\<close>

definition FLM_StateInit :: "bool \<Rightarrow> FLM_Application_StateType \<Rightarrow> FLM_Application_StateType" where
  "FLM_StateInit externalSafeStateTrigger s =
     (if externalSafeStateTrigger then s\<lparr>flm_currentState := FLM_STATE_SAFE\<rparr>
      else
        (let s1 = (if FLM_AreAllInputsValid s
                   then s\<lparr>flm_currentState := FLM_STATE_NORMAL, flm_consecutiveErrors := 0\<rparr> else s)
         in s1\<lparr>flm_headlightCommand := HEADLIGHT_CMD_OFF\<rparr>))"

definition FLM_StateNormal :: "bool \<Rightarrow> FLM_Application_StateType \<Rightarrow> FLM_Application_StateType" where
  "FLM_StateNormal externalSafeStateTrigger s =
     (if externalSafeStateTrigger then s\<lparr>flm_currentState := FLM_STATE_SAFE\<rparr>
      else if FLM_IsCriticalFault externalSafeStateTrigger s then s\<lparr>flm_currentState := FLM_STATE_SAFE\<rparr>
      else if FLM_IsAnyInputInvalid s then
        (let s1 = s\<lparr>flm_consecutiveErrors := flm_consecutiveErrors s + 1\<rparr>
         in if flm_consecutiveErrors s1 \<ge> FLM_MAX_CONSECUTIVE_ERRORS then
              s1\<lparr>flm_currentState := FLM_STATE_DEGRADED, flm_degradedEntryTime := flm_currentTime s1\<rparr>
            else s1)
      else s\<lparr>flm_consecutiveErrors := 0\<rparr>)"

definition FLM_StateDegraded :: "bool \<Rightarrow> FLM_Application_StateType \<Rightarrow> FLM_Application_StateType" where
  "FLM_StateDegraded externalSafeStateTrigger s =
     (if externalSafeStateTrigger then s\<lparr>flm_currentState := FLM_STATE_SAFE\<rparr>
      else if FLM_AreAllInputsValid s then
        s\<lparr>flm_currentState := FLM_STATE_NORMAL, flm_consecutiveErrors := 0\<rparr>
      else if FLM_IsCriticalFault externalSafeStateTrigger s then s\<lparr>flm_currentState := FLM_STATE_SAFE\<rparr>
      else
        (let timeInDegraded = flm_currentTime s - flm_degradedEntryTime s
         in if timeInDegraded > FLM_FTTI_MS - FLM_SAFE_STATE_TRANSITION_MS
            then s\<lparr>flm_currentState := FLM_STATE_SAFE\<rparr> else s))"

definition FLM_StateSafe :: "FLM_Application_StateType \<Rightarrow> FLM_Application_StateType" where
  "FLM_StateSafe s =
     (if al_isValid (flm_ambientLight s) then
        (if al_adcValue (flm_ambientLight s) < FLM_AMBIENT_THRESHOLD_ON
         then s\<lparr>flm_headlightCommand := HEADLIGHT_CMD_LOW_BEAM\<rparr>
         else s\<lparr>flm_headlightCommand := HEADLIGHT_CMD_OFF\<rparr>)
      else s\<lparr>flm_headlightCommand := HEADLIGHT_CMD_LOW_BEAM\<rparr>)"

definition FLM_ProcessStateMachine :: "bool \<Rightarrow> FLM_Application_StateType \<Rightarrow> FLM_Application_StateType" where
  "FLM_ProcessStateMachine externalSafeStateTrigger s =
     (let s1 = s\<lparr>flm_previousState := flm_currentState s\<rparr>;
          s2 = (case flm_currentState s1 of
                  FLM_STATE_INIT \<Rightarrow> FLM_StateInit externalSafeStateTrigger s1
                | FLM_STATE_NORMAL \<Rightarrow> FLM_StateNormal externalSafeStateTrigger s1
                | FLM_STATE_DEGRADED \<Rightarrow> FLM_StateDegraded externalSafeStateTrigger s1
                | FLM_STATE_SAFE \<Rightarrow> FLM_StateSafe s1)
      in if flm_currentState s2 \<noteq> flm_previousState s2
         then s2\<lparr>flm_stateEntryTime := flm_currentTime s2\<rparr> else s2)"

definition FLM_ApplyAutoMode :: "FLM_Application_StateType \<Rightarrow> FLM_Application_StateType" where
  "FLM_ApplyAutoMode s =
     (if \<not> al_isValid (flm_ambientLight s) then s
      else if flm_lightsCurrentlyOn s then
        (if al_adcValue (flm_ambientLight s) > FLM_AMBIENT_THRESHOLD_OFF then
           s\<lparr>flm_headlightCommand := HEADLIGHT_CMD_OFF,
             flm_lightsCurrentlyOn := False,
             flm_hysteresisActive := False\<rparr>
         else
           s\<lparr>flm_headlightCommand := HEADLIGHT_CMD_LOW_BEAM, flm_hysteresisActive := True\<rparr>)
      else
        (if al_adcValue (flm_ambientLight s) < FLM_AMBIENT_THRESHOLD_ON then
           s\<lparr>flm_headlightCommand := HEADLIGHT_CMD_LOW_BEAM,
             flm_lightsCurrentlyOn := True,
             flm_hysteresisActive := True\<rparr>
         else
           s\<lparr>flm_headlightCommand := HEADLIGHT_CMD_OFF, flm_hysteresisActive := False\<rparr>))"

definition FLM_DetermineHeadlightCommand :: "FLM_Application_StateType \<Rightarrow> FLM_Application_StateType" where
  "FLM_DetermineHeadlightCommand s =
     (if flm_currentState s = FLM_STATE_SAFE then s
      else if flm_currentState s = FLM_STATE_INIT then s\<lparr>flm_headlightCommand := HEADLIGHT_CMD_OFF\<rparr>
      else
        (let s1 = (case ls_command (flm_lightSwitch s) of
                     LIGHT_SWITCH_OFF \<Rightarrow>
                       s\<lparr>flm_headlightCommand := HEADLIGHT_CMD_OFF, flm_lightsCurrentlyOn := False\<rparr>
                   | LIGHT_SWITCH_LOW_BEAM \<Rightarrow>
                       s\<lparr>flm_headlightCommand := HEADLIGHT_CMD_LOW_BEAM, flm_lightsCurrentlyOn := True\<rparr>
                   | LIGHT_SWITCH_HIGH_BEAM \<Rightarrow>
                       s\<lparr>flm_headlightCommand := HEADLIGHT_CMD_HIGH_BEAM, flm_lightsCurrentlyOn := True\<rparr>
                   | LIGHT_SWITCH_AUTO \<Rightarrow> FLM_ApplyAutoMode s)
         in if flm_currentState s1 = FLM_STATE_DEGRADED \<and> \<not> ls_isValid (flm_lightSwitch s1)
            then FLM_ApplyAutoMode s1 else s1))"

definition FLM_MainFunction :: "FLM_Inputs \<Rightarrow> FLM_Statics \<Rightarrow> FLM_Statics" where
  "FLM_MainFunction inp g =
     (if \<not> flm_isInitialized (FLM_State g) then g
      else
        (let s1 = (FLM_State g)\<lparr>flm_currentTime := FLM_SystemTime g\<rparr>;
             t = FLM_SystemTime g + FLM_MAIN_FUNCTION_PERIOD_MS;
             s2 = FLM_ReadInputs inp s1;
             s3 = FLM_ProcessStateMachine (FLM_ExternalSafeStateTrigger g) s2;
             s4 = FLM_DetermineHeadlightCommand s3
         in g\<lparr>FLM_State := s4, FLM_SystemTime := t\<rparr>))"

definition FLM_TriggerSafeState :: "SafeStateReason \<Rightarrow> FLM_Statics \<Rightarrow> FLM_Statics" where
  "FLM_TriggerSafeState reason g = g\<lparr>FLM_ExternalSafeStateTrigger := True, FLM_SafeStateReason := reason\<rparr>"

definition FLM_GetHeadlightCommand :: "FLM_Statics \<Rightarrow> HeadlightCommand" where
  "FLM_GetHeadlightCommand g = flm_headlightCommand (FLM_State g)"

definition FLM_GetCurrentState :: "FLM_Statics \<Rightarrow> FLM_StateType" where
  "FLM_GetCurrentState g = flm_currentState (FLM_State g)"

subsection \<open>Digital outputs (\<^verbatim>\<open>Dio.h\<close>, \<^verbatim>\<open>Dio.cpp\<close>)\<close>

definition DIO_NUM_CHANNELS :: u8 where "DIO_NUM_CHANNELS = 16"
definition STD_HIGH :: u8 where "STD_HIGH = 0x01"
definition STD_LOW :: u8 where "STD_LOW = 0x00"
definition HEADLIGHT_DIO_LOW_BEAM :: u8 where "HEADLIGHT_DIO_LOW_BEAM = 0x00"
definition HEADLIGHT_DIO_HIGH_BEAM :: u8 where "HEADLIGHT_DIO_HIGH_BEAM = 0x01"

text \<open>The output levels and the channel directions of the driver, two arrays of
  \<^verbatim>\<open>DIO_NUM_CHANNELS\<close> entries.\<close>

record Dio_Statics =
  Dio_OutputLevels :: "u8 list"
  Dio_ChannelDirection :: "bool list"

definition Dio_WriteChannel :: "u8 \<Rightarrow> u8 \<Rightarrow> Dio_Statics \<Rightarrow> Dio_Statics" where
  "Dio_WriteChannel ChannelId Level d =
     (if ChannelId \<ge> DIO_NUM_CHANNELS then d
      else if Dio_ChannelDirection d ! unat ChannelId then
        d\<lparr>Dio_OutputLevels :=
            (Dio_OutputLevels d)[unat ChannelId := (if Level \<noteq> STD_LOW then STD_HIGH else STD_LOW)]\<rparr>
      else d)"

subsection \<open>Headlight (\<^verbatim>\<open>Headlight.h\<close>, \<^verbatim>\<open>Headlight.cpp\<close>)\<close>

definition HEADLIGHT_FAULT_CONFIRM_CYCLES :: u32 where
  "HEADLIGHT_FAULT_CONFIRM_CYCLES = FLM_HEADLIGHT_FAULT_DETECT_MS div FLM_MAIN_FUNCTION_PERIOD_MS"

record Headlight_StateType =
  hl_isInitialized :: bool
  hl_currentCommand :: HeadlightCommand
  hl_requestedCommand :: HeadlightCommand
  hl_lowBeamOutput :: bool
  hl_highBeamOutput :: bool
  hl_feedbackCurrent :: u16
  hl_feedbackState :: bool
  hl_faultStatus :: HeadlightFaultStatus
  hl_openLoadCounter :: u8
  hl_shortCircuitCounter :: u8
  hl_faultDetectStartTime :: u32
  hl_faultConfirmed :: bool
  hl_commandChangeTime :: u32
  hl_currentTime :: u32

text \<open>The file-level variables of \<^verbatim>\<open>Headlight.cpp\<close>, and the driver's variables that
  the component writes through \<^verbatim>\<open>Dio_WriteChannel\<close>.\<close>

record Headlight_Statics =
  Headlight_State :: Headlight_StateType
  Headlight_SystemTime :: u32
  Headlight_SimCurrent :: u16
  Headlight_SimCurrentEnabled :: bool
  Headlight_Dio :: Dio_Statics

definition Headlight_State_zero :: Headlight_StateType where
  "Headlight_State_zero =
     \<lparr>hl_isInitialized = False,
      hl_currentCommand = HEADLIGHT_CMD_OFF,
      hl_requestedCommand = HEADLIGHT_CMD_OFF,
      hl_lowBeamOutput = False,
      hl_highBeamOutput = False,
      hl_feedbackCurrent = 0,
      hl_feedbackState = False,
      hl_faultStatus = HEADLIGHT_FAULT_NONE,
      hl_openLoadCounter = 0,
      hl_shortCircuitCounter = 0,
      hl_faultDetectStartTime = 0,
      hl_faultConfirmed = False,
      hl_commandChangeTime = 0,
      hl_currentTime = 0\<rparr>"

definition Headlight_Init :: "Headlight_Statics \<Rightarrow> Headlight_Statics" where
  "Headlight_Init g =
     g\<lparr>Headlight_State :=
         Headlight_State_zero
           \<lparr>hl_currentCommand := HEADLIGHT_CMD_OFF,
            hl_requestedCommand := HEADLIGHT_CMD_OFF,
            hl_lowBeamOutput := False,
            hl_highBeamOutput := False,
            hl_feedbackCurrent := 0,
            hl_feedbackState := False,
            hl_faultStatus := HEADLIGHT_FAULT_NONE,
            hl_openLoadCounter := 0,
            hl_shortCircuitCounter := 0,
            hl_faultConfirmed := False,
            hl_isInitialized := True\<rparr>,
       Headlight_Dio :=
         Dio_WriteChannel HEADLIGHT_DIO_HIGH_BEAM STD_LOW
           (Dio_WriteChannel HEADLIGHT_DIO_LOW_BEAM STD_LOW (Headlight_Dio g))\<rparr>"

text \<open>Both lines written in the source's order: low beam first, then high beam.\<close>

definition Headlight_WriteLines :: "u8 \<Rightarrow> u8 \<Rightarrow> Dio_Statics \<Rightarrow> Dio_Statics" where
  "Headlight_WriteLines low high d =
     Dio_WriteChannel HEADLIGHT_DIO_HIGH_BEAM high (Dio_WriteChannel HEADLIGHT_DIO_LOW_BEAM low d)"

definition Headlight_SetOutputs :: "Headlight_Statics \<Rightarrow> Headlight_Statics" where
  "Headlight_SetOutputs g =
     (let s = Headlight_State g;
          g1 = (case hl_requestedCommand s of
                  HEADLIGHT_CMD_OFF \<Rightarrow>
                    g\<lparr>Headlight_State := s\<lparr>hl_lowBeamOutput := False, hl_highBeamOutput := False\<rparr>,
                      Headlight_Dio := Headlight_WriteLines STD_LOW STD_LOW (Headlight_Dio g)\<rparr>
                | HEADLIGHT_CMD_LOW_BEAM \<Rightarrow>
                    g\<lparr>Headlight_State := s\<lparr>hl_lowBeamOutput := True, hl_highBeamOutput := False\<rparr>,
                      Headlight_Dio := Headlight_WriteLines STD_HIGH STD_LOW (Headlight_Dio g)\<rparr>
                | HEADLIGHT_CMD_HIGH_BEAM \<Rightarrow>
                    g\<lparr>Headlight_State := s\<lparr>hl_lowBeamOutput := True, hl_highBeamOutput := True\<rparr>,
                      Headlight_Dio := Headlight_WriteLines STD_HIGH STD_HIGH (Headlight_Dio g)\<rparr>);
          s1 = Headlight_State g1
      in if hl_requestedCommand s1 \<noteq> hl_currentCommand s1
         then g1\<lparr>Headlight_State := s1\<lparr>hl_commandChangeTime := hl_currentTime s1\<rparr>\<rparr>
         else g1)"

text \<open>\<^verbatim>\<open>Headlight_ReadFeedback\<close>; \<open>adcRead\<close> is the result of the ADC driver for the
  current-sense channel, as in \<open>LightRequest_ReadAdc\<close>.\<close>

definition Headlight_ReadFeedback :: "u16 option \<Rightarrow> Headlight_Statics \<Rightarrow> Headlight_Statics" where
  "Headlight_ReadFeedback adcRead g =
     (let s = Headlight_State g;
          s1 = (if Headlight_SimCurrentEnabled g then s\<lparr>hl_feedbackCurrent := Headlight_SimCurrent g\<rparr>
                else (case adcRead of
                        Some adcValue \<Rightarrow> s\<lparr>hl_feedbackCurrent := adcValue * FLM_HEADLIGHT_CURRENT_FACTOR\<rparr>
                      | None \<Rightarrow> s))
      in g\<lparr>Headlight_State :=
             s1\<lparr>hl_feedbackState := (hl_feedbackCurrent s1 \<ge> FLM_HEADLIGHT_MIN_CURRENT_MA)\<rparr>\<rparr>)"

definition Headlight_IsOutputCommanded :: "Headlight_StateType \<Rightarrow> bool" where
  "Headlight_IsOutputCommanded s = (hl_requestedCommand s \<noteq> HEADLIGHT_CMD_OFF)"

definition Headlight_CheckOpenLoad :: "Headlight_StateType \<Rightarrow> Headlight_StateType" where
  "Headlight_CheckOpenLoad s =
     (if \<not> Headlight_IsOutputCommanded s then s\<lparr>hl_openLoadCounter := 0\<rparr>
      else
        (let timeSinceCommand = hl_currentTime s - hl_commandChangeTime s
         in if timeSinceCommand < FLM_HEADLIGHT_FAULT_DETECT_MS then s
            else if hl_feedbackCurrent s < FLM_HEADLIGHT_OPEN_LOAD_MA then
              (let s1 = s\<lparr>hl_openLoadCounter := hl_openLoadCounter s + 1\<rparr>
               in if ucast (hl_openLoadCounter s1) \<ge> HEADLIGHT_FAULT_CONFIRM_CYCLES then
                    s1\<lparr>hl_faultStatus := HEADLIGHT_FAULT_OPEN_LOAD, hl_faultConfirmed := True\<rparr>
                  else s1)
            else s\<lparr>hl_openLoadCounter := 0\<rparr>))"

definition Headlight_CheckShortCircuit :: "Headlight_Statics \<Rightarrow> Headlight_Statics" where
  "Headlight_CheckShortCircuit g =
     (let s = Headlight_State g
      in if hl_feedbackCurrent s > FLM_HEADLIGHT_MAX_CURRENT_MA then
           (let s1 = s\<lparr>hl_shortCircuitCounter := hl_shortCircuitCounter s + 1\<rparr>
            in if ucast (hl_shortCircuitCounter s1) \<ge> HEADLIGHT_FAULT_CONFIRM_CYCLES then
                 g\<lparr>Headlight_State :=
                      s1\<lparr>hl_faultStatus := HEADLIGHT_FAULT_SHORT,
                         hl_faultConfirmed := True,
                         hl_lowBeamOutput := False,
                         hl_highBeamOutput := False\<rparr>,
                    Headlight_Dio := Headlight_WriteLines STD_LOW STD_LOW (Headlight_Dio g)\<rparr>
               else g\<lparr>Headlight_State := s1\<rparr>)
         else g\<lparr>Headlight_State := s\<lparr>hl_shortCircuitCounter := 0\<rparr>\<rparr>)"

definition Headlight_UpdateFaultStatus :: "Headlight_StateType \<Rightarrow> Headlight_StateType" where
  "Headlight_UpdateFaultStatus s =
     (if hl_openLoadCounter s = 0 \<and> hl_shortCircuitCounter s = 0 then
        (if \<not> hl_faultConfirmed s then s\<lparr>hl_faultStatus := HEADLIGHT_FAULT_NONE\<rparr> else s)
      else s)"

text \<open>\<open>flmCommand\<close> is the value of \<^verbatim>\<open>FLM_GetHeadlightCommand()\<close> at this tick.\<close>

definition Headlight_MainFunction ::
  "HeadlightCommand \<Rightarrow> u16 option \<Rightarrow> Headlight_Statics \<Rightarrow> Headlight_Statics" where
  "Headlight_MainFunction flmCommand adcRead g =
     (if \<not> hl_isInitialized (Headlight_State g) then g
      else
        (let g1 = g\<lparr>Headlight_State :=
                      (Headlight_State g)\<lparr>hl_currentTime := Headlight_SystemTime g,
                                          hl_requestedCommand := flmCommand\<rparr>,
                    Headlight_SystemTime := Headlight_SystemTime g + FLM_MAIN_FUNCTION_PERIOD_MS\<rparr>;
             g2 = Headlight_SetOutputs g1;
             g3 = Headlight_ReadFeedback adcRead g2;
             g4 = g3\<lparr>Headlight_State := Headlight_CheckOpenLoad (Headlight_State g3)\<rparr>;
             g5 = Headlight_CheckShortCircuit g4;
             s6 = Headlight_UpdateFaultStatus (Headlight_State g5)
         in g5\<lparr>Headlight_State := s6\<lparr>hl_currentCommand := hl_requestedCommand s6\<rparr>\<rparr>))"

definition Headlight_SimSetFeedbackCurrent :: "u16 \<Rightarrow> Headlight_Statics \<Rightarrow> Headlight_Statics" where
  "Headlight_SimSetFeedbackCurrent current g =
     g\<lparr>Headlight_SimCurrent := current, Headlight_SimCurrentEnabled := True\<rparr>"

subsection \<open>SafetyMonitor (\<^verbatim>\<open>SafetyMonitor.h\<close>, \<^verbatim>\<open>SafetyMonitor.cpp\<close>, \<^verbatim>\<open>Rte_SafetyMonitor.h\<close>)\<close>

definition SAFETYMONITOR_FTTI_MS :: u32 where "SAFETYMONITOR_FTTI_MS = 200"
definition SAFETYMONITOR_E2E_TIMEOUT_MS :: u32 where "SAFETYMONITOR_E2E_TIMEOUT_MS = 100"
definition SAFETYMONITOR_MAX_FAULT_COUNT :: u8 where "SAFETYMONITOR_MAX_FAULT_COUNT = 3"
definition SAFETYMONITOR_DAY_THRESHOLD :: u16 where "SAFETYMONITOR_DAY_THRESHOLD = 1500"

record SafetyMonitor_StateType =
  sm_isInitialized :: bool
  sm_inSafeState :: bool
  sm_switchEventFault :: bool
  sm_lightRequestFault :: bool
  sm_flmFault :: bool
  sm_headlightFault :: bool
  sm_wdgmFault :: bool
  sm_e2eStatus :: E2E_P01CheckStatusType
  sm_e2eSmStatus :: E2E_SMStateType
  sm_e2eFailureStartTime :: u32
  sm_e2eTimeoutActive :: bool
  sm_headlightStatus :: HeadlightFaultStatus
  sm_flmState :: FLM_StateType
  sm_wdgmGlobalStatus :: WdgM_GlobalStatusType
  sm_totalFaultCount :: u8
  sm_firstFaultTime :: u32
  sm_fttiActive :: bool
  sm_safeStateReason :: SafeStateReason
  sm_safeStateEntryTime :: u32
  sm_safeStateCommand :: HeadlightCommand
  sm_lastAmbientLight :: AmbientLightLevel
  sm_isDaytime :: bool
  sm_globalStatus :: SafetyStatusType
  sm_currentTime :: u32

text \<open>The file-level variables of \<^verbatim>\<open>SafetyMonitor.cpp\<close>, together with the variables of
  the FLM application, which \<^verbatim>\<open>SafetyMonitor_TriggerSafeState\<close> writes through
  \<^verbatim>\<open>FLM_TriggerSafeState\<close> and \<^verbatim>\<open>SafetyMonitor_ReadComponentStatus\<close> reads through
  \<^verbatim>\<open>FLM_GetCurrentState\<close>.\<close>

record SafetyMonitor_Statics =
  SafetyMonitor_State :: SafetyMonitor_StateType
  SafetyMonitor_SystemTime :: u32
  SafetyMonitor_SimWdgmStatus :: WdgM_GlobalStatusType
  SafetyMonitor_SimWdgmEnabled :: bool
  SafetyMonitor_FLM :: FLM_Statics

text \<open>What \<^verbatim>\<open>SafetyMonitor_ReadComponentStatus\<close> fetches from the other components:
  \<^verbatim>\<open>SwitchEvent_GetLightRequest()\<close>, \<^verbatim>\<open>SwitchEvent_GetE2EStatus()\<close>,
  \<^verbatim>\<open>SwitchEvent_GetE2ESmStatus()\<close>, \<^verbatim>\<open>LightRequest_GetAmbientLight()\<close> and
  \<^verbatim>\<open>Headlight_GetFaultStatus()\<close>.\<close>

record SafetyMonitor_Inputs =
  smi_switchStatus :: LightSwitchStatus
  smi_e2eStatus :: E2E_P01CheckStatusType
  smi_e2eSmStatus :: E2E_SMStateType
  smi_ambientLevel :: AmbientLightLevel
  smi_headlightFault :: HeadlightFaultStatus

definition SafetyMonitor_State_zero :: SafetyMonitor_StateType where
  "SafetyMonitor_State_zero =
     \<lparr>sm_isInitialized = False,
      sm_inSafeState = False,
      sm_switchEventFault = False,
      sm_lightRequestFault = False,
      sm_flmFault = False,
      sm_headlightFault = False,
      sm_wdgmFault = False,
      sm_e2eStatus = E2E_P01STATUS_OK,
      sm_e2eSmStatus = E2E_SM_VALID,
      sm_e2eFailureStartTime = 0,
      sm_e2eTimeoutActive = False,
      sm_headlightStatus = HEADLIGHT_FAULT_NONE,
      sm_flmState = FLM_STATE_INIT,
      sm_wdgmGlobalStatus = WDGM_GLOBAL_STATUS_OK,
      sm_totalFaultCount = 0,
      sm_firstFaultTime = 0,
      sm_fttiActive = False,
      sm_safeStateReason = SAFE_STATE_REASON_NONE,
      sm_safeStateEntryTime = 0,
      sm_safeStateCommand = HEADLIGHT_CMD_OFF,
      sm_lastAmbientLight = \<lparr>al_adcValue = 0, al_luxValue = 0, al_isValid = False\<rparr>,
      sm_isDaytime = False,
      sm_globalStatus = SAFETY_STATUS_OK,
      sm_currentTime = 0\<rparr>"

definition SafetyMonitor_Init :: "SafetyMonitor_Statics \<Rightarrow> SafetyMonitor_Statics" where
  "SafetyMonitor_Init g =
     g\<lparr>SafetyMonitor_State :=
         SafetyMonitor_State_zero
           \<lparr>sm_inSafeState := False,
            sm_safeStateReason := SAFE_STATE_REASON_NONE,
            sm_safeStateCommand := HEADLIGHT_CMD_OFF,
            sm_totalFaultCount := 0,
            sm_fttiActive := False,
            sm_globalStatus := SAFETY_STATUS_OK,
            sm_wdgmGlobalStatus := WDGM_GLOBAL_STATUS_OK,
            sm_isDaytime := True,
            sm_isInitialized := True\<rparr>\<rparr>"

definition SafetyMonitor_TriggerSafeState ::
  "SafeStateReason \<Rightarrow> SafetyMonitor_Statics \<Rightarrow> SafetyMonitor_Statics" where
  "SafetyMonitor_TriggerSafeState reason g =
     (let s = SafetyMonitor_State g
      in if \<not> sm_inSafeState s then
           g\<lparr>SafetyMonitor_State :=
                s\<lparr>sm_inSafeState := True,
                  sm_safeStateReason := reason,
                  sm_safeStateEntryTime := sm_currentTime s,
                  sm_globalStatus := SAFETY_STATUS_SAFE_STATE\<rparr>,
              SafetyMonitor_FLM := FLM_TriggerSafeState reason (SafetyMonitor_FLM g)\<rparr>
         else g)"

definition SafetyMonitor_ReadComponentStatus ::
  "SafetyMonitor_Inputs \<Rightarrow> SafetyMonitor_Statics \<Rightarrow> SafetyMonitor_Statics" where
  "SafetyMonitor_ReadComponentStatus inp g =
     (let s = SafetyMonitor_State g;
          switchStatus = smi_switchStatus inp;
          s1 = s\<lparr>sm_switchEventFault := \<not> ls_isValid switchStatus,
                 sm_e2eStatus := smi_e2eStatus inp,
                 sm_e2eSmStatus := smi_e2eSmStatus inp\<rparr>;
          ambientLevel = smi_ambientLevel inp;
          s2 = s1\<lparr>sm_lastAmbientLight := ambientLevel,
                  sm_lightRequestFault := \<not> al_isValid ambientLevel\<rparr>;
          s3 = (if al_isValid ambientLevel
                then s2\<lparr>sm_isDaytime := (al_adcValue ambientLevel > SAFETYMONITOR_DAY_THRESHOLD)\<rparr>
                else s2);
          s4 = s3\<lparr>sm_flmState := FLM_GetCurrentState (SafetyMonitor_FLM g)\<rparr>;
          s5 = s4\<lparr>sm_flmFault := (sm_flmState s4 = FLM_STATE_SAFE)\<rparr>;
          s6 = s5\<lparr>sm_headlightStatus := smi_headlightFault inp\<rparr>;
          s7 = s6\<lparr>sm_headlightFault := (sm_headlightStatus s6 \<noteq> HEADLIGHT_FAULT_NONE)\<rparr>;
          s8 = (if SafetyMonitor_SimWdgmEnabled g
                then s7\<lparr>sm_wdgmGlobalStatus := SafetyMonitor_SimWdgmStatus g\<rparr>
                else s7\<lparr>sm_wdgmGlobalStatus := WDGM_GLOBAL_STATUS_OK\<rparr>)
      in g\<lparr>SafetyMonitor_State :=
             s8\<lparr>sm_wdgmFault := (sm_wdgmGlobalStatus s8 \<noteq> WDGM_GLOBAL_STATUS_OK)\<rparr>\<rparr>)"

text \<open>The local \<^verbatim>\<open>faultCount\<close> of \<^verbatim>\<open>SafetyMonitor_AggregrateFaults\<close>.\<close>

definition SafetyMonitor_faultCount :: "SafetyMonitor_StateType \<Rightarrow> u8" where
  "SafetyMonitor_faultCount s =
     (let c0 = 0;
          c1 = (if sm_switchEventFault s then c0 + 1 else c0);
          c2 = (if sm_lightRequestFault s then c1 + 1 else c1);
          c3 = (if sm_headlightFault s then c2 + 1 else c2)
      in if sm_wdgmFault s then c3 + 1 else c3)"

definition SafetyMonitor_AggregrateFaults :: "SafetyMonitor_Statics \<Rightarrow> SafetyMonitor_Statics" where
  "SafetyMonitor_AggregrateFaults g =
     (let s = SafetyMonitor_State g;
          faultCount = SafetyMonitor_faultCount s;
          s1 = (if faultCount > 0 \<and> sm_totalFaultCount s = 0
                then s\<lparr>sm_firstFaultTime := sm_currentTime s, sm_fttiActive := True\<rparr> else s);
          s2 = (if faultCount = 0 then s1\<lparr>sm_fttiActive := False\<rparr> else s1);
          g1 = g\<lparr>SafetyMonitor_State := s2\<lparr>sm_totalFaultCount := faultCount\<rparr>\<rparr>
      in if faultCount \<ge> SAFETYMONITOR_MAX_FAULT_COUNT
         then SafetyMonitor_TriggerSafeState SAFE_STATE_REASON_MULTI_FAULT g1 else g1)"

definition SafetyMonitor_CheckE2ETimeout :: "SafetyMonitor_Statics \<Rightarrow> SafetyMonitor_Statics" where
  "SafetyMonitor_CheckE2ETimeout g =
     (let s = SafetyMonitor_State g
      in if sm_e2eSmStatus s \<noteq> E2E_SM_VALID then
           (if \<not> sm_e2eTimeoutActive s then
              g\<lparr>SafetyMonitor_State :=
                   s\<lparr>sm_e2eFailureStartTime := sm_currentTime s, sm_e2eTimeoutActive := True\<rparr>\<rparr>
            else
              (let elapsed = sm_currentTime s - sm_e2eFailureStartTime s
               in if elapsed \<ge> SAFETYMONITOR_E2E_TIMEOUT_MS
                  then SafetyMonitor_TriggerSafeState SAFE_STATE_REASON_E2E_FAILURE g else g))
         else g\<lparr>SafetyMonitor_State := s\<lparr>sm_e2eTimeoutActive := False\<rparr>\<rparr>)"

definition SafetyMonitor_CheckWdgMStatus :: "SafetyMonitor_Statics \<Rightarrow> SafetyMonitor_Statics" where
  "SafetyMonitor_CheckWdgMStatus g =
     (let s = SafetyMonitor_State g
      in if sm_wdgmGlobalStatus s = WDGM_GLOBAL_STATUS_FAILED \<or>
            sm_wdgmGlobalStatus s = WDGM_GLOBAL_STATUS_EXPIRED
         then SafetyMonitor_TriggerSafeState SAFE_STATE_REASON_WDGM_FAILURE g else g)"

definition SafetyMonitor_CheckFTTI :: "SafetyMonitor_Statics \<Rightarrow> SafetyMonitor_Statics" where
  "SafetyMonitor_CheckFTTI g =
     (let s = SafetyMonitor_State g
      in if \<not> sm_fttiActive s then g
         else
           (let elapsed = sm_currentTime s - sm_firstFaultTime s
            in if elapsed \<ge> SAFETYMONITOR_FTTI_MS
               then SafetyMonitor_TriggerSafeState SAFE_STATE_REASON_TIMEOUT g else g))"

definition SafetyMonitor_UpdateGlobalStatus :: "SafetyMonitor_StateType \<Rightarrow> SafetyMonitor_StateType" where
  "SafetyMonitor_UpdateGlobalStatus s =
     (if sm_inSafeState s then s\<lparr>sm_globalStatus := SAFETY_STATUS_SAFE_STATE\<rparr>
      else if sm_totalFaultCount s > 0 then
        (if sm_totalFaultCount s \<ge> 2 then s\<lparr>sm_globalStatus := SAFETY_STATUS_DEGRADED\<rparr>
         else s\<lparr>sm_globalStatus := SAFETY_STATUS_WARNING\<rparr>)
      else s\<lparr>sm_globalStatus := SAFETY_STATUS_OK\<rparr>)"

definition SafetyMonitor_DetermineSafeStateCommand ::
  "SafetyMonitor_StateType \<Rightarrow> SafetyMonitor_StateType" where
  "SafetyMonitor_DetermineSafeStateCommand s =
     (if sm_isDaytime s then s\<lparr>sm_safeStateCommand := HEADLIGHT_CMD_OFF\<rparr>
      else s\<lparr>sm_safeStateCommand := HEADLIGHT_CMD_LOW_BEAM\<rparr>)"

definition SafetyMonitor_MainFunction ::
  "SafetyMonitor_Inputs \<Rightarrow> SafetyMonitor_Statics \<Rightarrow> SafetyMonitor_Statics" where
  "SafetyMonitor_MainFunction inp g =
     (if \<not> sm_isInitialized (SafetyMonitor_State g) then g
      else
        (let g1 = g\<lparr>SafetyMonitor_State :=
                      (SafetyMonitor_State g)\<lparr>sm_currentTime := SafetyMonitor_SystemTime g\<rparr>,
                    SafetyMonitor_SystemTime := SafetyMonitor_SystemTime g + FLM_SAFETY_MONITOR_PERIOD_MS\<rparr>;
             g2 = SafetyMonitor_ReadComponentStatus inp g1;
             g3 = SafetyMonitor_AggregrateFaults g2;
             g4 = SafetyMonitor_CheckE2ETimeout g3;
             g5 = SafetyMonitor_CheckWdgMStatus g4;
             g6 = SafetyMonitor_CheckFTTI g5;
             s7 = SafetyMonitor_UpdateGlobalStatus (SafetyMonitor_State g6);
             s8 = (if sm_inSafeState s7 then SafetyMonitor_DetermineSafeStateCommand s7 else s7)
         in g6\<lparr>SafetyMonitor_State := s8\<rparr>))"

definition SafetyMonitor_SimSetWdgmStatus ::
  "WdgM_GlobalStatusType \<Rightarrow> SafetyMonitor_Statics \<Rightarrow> SafetyMonitor_Statics" where
  "SafetyMonitor_SimSetWdgmStatus status g =
     g\<lparr>SafetyMonitor_SimWdgmStatus := status, SafetyMonitor_SimWdgmEnabled := True\<rparr>"

subsection \<open>Driver initialisation and runs over several ticks\<close>

text \<open>\<^verbatim>\<open>Dio_Init\<close>: all sixteen channels low; the channels \<open>0\<close>, \<open>1\<close>, \<open>3\<close> and \<open>4\<close> (low
  beam, high beam and the two LEDs) are outputs, all others inputs.\<close>

definition Dio_Init :: Dio_Statics where
  "Dio_Init =
     \<lparr>Dio_OutputLevels = replicate (unat DIO_NUM_CHANNELS) STD_LOW,
      Dio_ChannelDirection = (replicate (unat DIO_NUM_CHANNELS) False)[0 := True, 1 := True, 3 := True, 4 := True]\<rparr>"

text \<open>The configuration that \<^verbatim>\<open>SwitchEvent_InitE2E\<close> installs for the light-switch
  message; the test fixture of \<^verbatim>\<open>test_E2E.cpp\<close> sets up the same values.\<close>

definition LightSwitch_E2E_Config :: E2E_P01ConfigType where
  "LightSwitch_E2E_Config = se_e2eConfig (SwitchEvent_InitE2E SwitchEvent_State_zero)"

text \<open>
  A sender and a receiver in lock step, as the test \<^verbatim>\<open>ConsecutiveValidMessages\<close> drives
  them: each buffer is protected with \<^verbatim>\<open>E2E_P01Protect\<close> and the protected buffer is
  checked at once with \<^verbatim>\<open>E2E_P01Check\<close>, both with the message length \<open>len\<close>. The
  result is the list of verdicts.
\<close>

fun E2E_ProtectCheck_run ::
  "E2E_P01ConfigType \<Rightarrow> u16 \<Rightarrow> E2E_P01ProtectStateType \<Rightarrow> E2E_P01CheckStateType \<Rightarrow> u8 list list
     \<Rightarrow> E2E_P01CheckStatusType list" where
  "E2E_ProtectCheck_run config len ps cs [] = []"
| "E2E_ProtectCheck_run config len ps cs (buf # bufs) =
     (let p = E2E_P01Protect config ps (Some buf) len;
          c = E2E_P01Check config cs (snd (snd p)) len
      in fst c # E2E_ProtectCheck_run config len (fst (snd p)) (snd c) bufs)"

text \<open>What can happen to the FLM application between \<^verbatim>\<open>FLM_Init\<close> and the next
  \<^verbatim>\<open>FLM_Init\<close>: a tick of \<^verbatim>\<open>FLM_MainFunction\<close> with the inputs it reads, or a call
  of \<^verbatim>\<open>FLM_TriggerSafeState\<close>.\<close>

datatype FLM_Event = FLM_Tick FLM_Inputs | FLM_Trigger SafeStateReason

fun FLM_step :: "FLM_Event \<Rightarrow> FLM_Statics \<Rightarrow> FLM_Statics" where
  "FLM_step (FLM_Tick inp) g = FLM_MainFunction inp g"
| "FLM_step (FLM_Trigger reason) g = FLM_TriggerSafeState reason g"

fun FLM_run :: "FLM_Event list \<Rightarrow> FLM_Statics \<Rightarrow> FLM_Statics" where
  "FLM_run [] g = g"
| "FLM_run (e # es) g = FLM_run es (FLM_step e g)"

text \<open>Ticks of the ambient sensor with an injected ADC value, as the tests drive it:
  \<^verbatim>\<open>LightRequest_SimSetAdcValue(v)\<close> followed by \<^verbatim>\<open>LightRequest_MainFunction()\<close>, once per
  list entry.\<close>

fun LightRequest_run :: "u16 list \<Rightarrow> LightRequest_Statics \<Rightarrow> LightRequest_Statics" where
  "LightRequest_run [] g = g"
| "LightRequest_run (v # vs) g =
     LightRequest_run vs (LightRequest_MainFunction None (LightRequest_SimSetAdcValue v g))"

text \<open>Ticks of the output monitor with an injected feedback current and the command of
  the FLM application: \<^verbatim>\<open>Headlight_SimSetFeedbackCurrent(mA)\<close> followed by
  \<^verbatim>\<open>Headlight_MainFunction()\<close>, once per list entry.\<close>

fun Headlight_run :: "(HeadlightCommand \<times> u16) list \<Rightarrow> Headlight_Statics \<Rightarrow> Headlight_Statics" where
  "Headlight_run [] g = g"
| "Headlight_run ((cmd, mA) # xs) g =
     Headlight_run xs (Headlight_MainFunction cmd None (Headlight_SimSetFeedbackCurrent mA g))"

text \<open>Ticks of the switch receiver: \<open>Some buf\<close> is a frame handed over with
  \<^verbatim>\<open>SwitchEvent_ProcessCanMessage\<close> before the tick, \<open>None\<close> a tick without a frame.\<close>

fun SwitchEvent_run :: "u8 list option list \<Rightarrow> SwitchEvent_Statics \<Rightarrow> SwitchEvent_Statics" where
  "SwitchEvent_run [] g = g"
| "SwitchEvent_run (None # fs) g = SwitchEvent_run fs (SwitchEvent_MainFunction g)"
| "SwitchEvent_run (Some buf # fs) g =
     SwitchEvent_run fs (SwitchEvent_MainFunction (SwitchEvent_ProcessCanMessage (Some buf) g))"

text \<open>The file-level variables at program start: the state structs are zero-initialised
  statics, the other variables have the initialisers written in the source. The driver's
  arrays are taken after \<^verbatim>\<open>Dio_Init\<close>, which the start-up code calls before any
  component runs.\<close>

definition SwitchEvent_PowerOn :: SwitchEvent_Statics where
  "SwitchEvent_PowerOn = \<lparr>SwitchEvent_State = SwitchEvent_State_zero, SwitchEvent_SystemTime = 0\<rparr>"

definition LightRequest_PowerOn :: LightRequest_Statics where
  "LightRequest_PowerOn =
     \<lparr>LightRequest_State = LightRequest_State_zero,
      LightRequest_SystemTime = 0,
      LightRequest_SimAdcValue = 2000,
      LightRequest_SimAdcEnabled = False\<rparr>"

definition FLM_PowerOn :: FLM_Statics where
  "FLM_PowerOn =
     \<lparr>FLM_State = FLM_State_zero,
      FLM_SystemTime = 0,
      FLM_ExternalSafeStateTrigger = False,
      FLM_SafeStateReason = SAFE_STATE_REASON_NONE\<rparr>"

definition Headlight_PowerOn :: Headlight_Statics where
  "Headlight_PowerOn =
     \<lparr>Headlight_State = Headlight_State_zero,
      Headlight_SystemTime = 0,
      Headlight_SimCurrent = 0,
      Headlight_SimCurrentEnabled = False,
      Headlight_Dio = Dio_Init\<rparr>"

definition SafetyMonitor_PowerOn :: SafetyMonitor_Statics where
  "SafetyMonitor_PowerOn =
     \<lparr>SafetyMonitor_State = SafetyMonitor_State_zero,
      SafetyMonitor_SystemTime = 0,
      SafetyMonitor_SimWdgmStatus = WDGM_GLOBAL_STATUS_OK,
      SafetyMonitor_SimWdgmEnabled = False,
      SafetyMonitor_FLM = FLM_PowerOn\<rparr>"

subsection \<open>Trigger conditions and output-line predicates\<close>

text \<open>Ticks of the safety monitor, one per list entry, each with the values it reads
  from the other components.\<close>

fun SafetyMonitor_run ::
  "SafetyMonitor_Inputs list \<Rightarrow> SafetyMonitor_Statics \<Rightarrow> SafetyMonitor_Statics" where
  "SafetyMonitor_run [] g = g"
| "SafetyMonitor_run (inp # inps) g = SafetyMonitor_run inps (SafetyMonitor_MainFunction inp g)"

text \<open>
  The immediate trigger conditions of one tick of \<^verbatim>\<open>SafetyMonitor_MainFunction\<close>, written
  over the inputs of the tick and the variables before it. The watchdog status of the
  tick is the simulated status when simulation is enabled and \<open>Ok\<close> otherwise, as
  \<^verbatim>\<open>SafetyMonitor_ReadComponentStatus\<close> reads it. The fault count is the number of the
  four fault flags that \<^verbatim>\<open>SafetyMonitor_AggregrateFaults\<close> counts. The E2E condition is the
  guard under which \<^verbatim>\<open>SafetyMonitor_CheckE2ETimeout\<close> calls the trigger: the supervisor is
  not \<open>Valid\<close>, the timeout tracking is already running, and the time since its start,
  measured at this tick's time stamp, is at least \<^verbatim>\<open>SAFETYMONITOR_E2E_TIMEOUT_MS\<close>.
\<close>

definition SafetyMonitor_wdgmStatus_read :: "SafetyMonitor_Statics \<Rightarrow> WdgM_GlobalStatusType" where
  "SafetyMonitor_wdgmStatus_read g =
     (if SafetyMonitor_SimWdgmEnabled g then SafetyMonitor_SimWdgmStatus g else WDGM_GLOBAL_STATUS_OK)"

definition SafetyMonitor_faults_read :: "SafetyMonitor_Inputs \<Rightarrow> SafetyMonitor_Statics \<Rightarrow> nat" where
  "SafetyMonitor_faults_read inp g =
     length (filter id
       [\<not> ls_isValid (smi_switchStatus inp),
        \<not> al_isValid (smi_ambientLevel inp),
        smi_headlightFault inp \<noteq> HEADLIGHT_FAULT_NONE,
        SafetyMonitor_wdgmStatus_read g \<noteq> WDGM_GLOBAL_STATUS_OK])"

definition SafetyMonitor_cond_MultiFault :: "SafetyMonitor_Inputs \<Rightarrow> SafetyMonitor_Statics \<Rightarrow> bool" where
  "SafetyMonitor_cond_MultiFault inp g = (SafetyMonitor_faults_read inp g \<ge> 3)"

definition SafetyMonitor_cond_WdgmFailure :: "SafetyMonitor_Statics \<Rightarrow> bool" where
  "SafetyMonitor_cond_WdgmFailure g =
     (SafetyMonitor_wdgmStatus_read g = WDGM_GLOBAL_STATUS_FAILED \<or>
      SafetyMonitor_wdgmStatus_read g = WDGM_GLOBAL_STATUS_EXPIRED)"

definition SafetyMonitor_cond_E2eFailure :: "SafetyMonitor_Inputs \<Rightarrow> SafetyMonitor_Statics \<Rightarrow> bool" where
  "SafetyMonitor_cond_E2eFailure inp g =
     (smi_e2eSmStatus inp \<noteq> E2E_SM_VALID \<and>
      sm_e2eTimeoutActive (SafetyMonitor_State g) \<and>
      SafetyMonitor_SystemTime g - sm_e2eFailureStartTime (SafetyMonitor_State g)
        \<ge> SAFETYMONITOR_E2E_TIMEOUT_MS)"

text \<open>The driver's arrays have their sixteen entries and the two headlight channels are
  configured as outputs, as they are after \<^verbatim>\<open>Dio_Init\<close>.\<close>

definition Dio_lines_are_outputs :: "Dio_Statics \<Rightarrow> bool" where
  "Dio_lines_are_outputs d =
     (length (Dio_OutputLevels d) = unat DIO_NUM_CHANNELS \<and>
      length (Dio_ChannelDirection d) = unat DIO_NUM_CHANNELS \<and>
      Dio_ChannelDirection d ! unat HEADLIGHT_DIO_LOW_BEAM \<and>
      Dio_ChannelDirection d ! unat HEADLIGHT_DIO_HIGH_BEAM)"

text \<open>The guard of the protective action in \<^verbatim>\<open>Headlight_CheckShortCircuit\<close>, read off the
  state at the end of a tick: the sensed current of the tick is above
  \<^verbatim>\<open>FLM_HEADLIGHT_MAX_CURRENT_MA\<close> and the short-circuit counter, already incremented for
  this tick, has reached \<^verbatim>\<open>HEADLIGHT_FAULT_CONFIRM_CYCLES\<close>.\<close>

definition Headlight_short_confirming :: "Headlight_StateType \<Rightarrow> bool" where
  "Headlight_short_confirming s =
     (hl_feedbackCurrent s > FLM_HEADLIGHT_MAX_CURRENT_MA \<and>
      ucast (hl_shortCircuitCounter s) \<ge> HEADLIGHT_FAULT_CONFIRM_CYCLES)"

text \<open>The three signal statuses that \<^verbatim>\<open>LightRequest_UpdateOutput\<close> treats as a detected
  fault.\<close>

definition LightRequest_fault_status :: "SignalStatus \<Rightarrow> bool" where
  "LightRequest_fault_status st =
     (st = SIGNAL_STATUS_OPEN_CIRCUIT \<or> st = SIGNAL_STATUS_SHORT_CIRCUIT \<or>
      st = SIGNAL_STATUS_PLAUSIBILITY)"

subsection \<open>Scenarios\<close>

text \<open>Inputs and runs that the concrete evaluations below use. Each run starts from the
  variables at program start followed by the component's \<open>Init\<close>.\<close>

abbreviation FLM_Inputs_valid :: "LightSwitchCmd \<Rightarrow> u16 \<Rightarrow> FLM_Inputs" where
  "FLM_Inputs_valid cmd adc \<equiv>
     \<lparr>in_lightRequest = \<lparr>ls_command = cmd, ls_isValid = True, ls_e2eStatus = 0\<rparr>,
      in_e2eStatus = E2E_P01STATUS_OK, in_timeoutActive = False,
      in_ambientLight = \<lparr>al_adcValue = adc, al_luxValue = adc div 4, al_isValid = True\<rparr>,
      in_signalStatus = SIGNAL_STATUS_VALID\<rparr>"

abbreviation FLM_Inputs_ambient_invalid :: "LightSwitchCmd \<Rightarrow> FLM_Inputs" where
  "FLM_Inputs_ambient_invalid cmd \<equiv>
     \<lparr>in_lightRequest = \<lparr>ls_command = cmd, ls_isValid = True, ls_e2eStatus = 0\<rparr>,
      in_e2eStatus = E2E_P01STATUS_OK, in_timeoutActive = False,
      in_ambientLight = \<lparr>al_adcValue = 50, al_luxValue = 12, al_isValid = False\<rparr>,
      in_signalStatus = SIGNAL_STATUS_OPEN_CIRCUIT\<rparr>"

text \<open>The FLM application after one tick in \<open>Normal\<close> with a valid high-beam request in
  bright ambient light, an external safe-state trigger, and one more tick with the same
  inputs: the tick that enters \<open>Safe\<close>.\<close>

abbreviation FLM_entered_Safe_bright :: FLM_Statics where
  "FLM_entered_Safe_bright \<equiv>
     FLM_run
       [FLM_Tick (FLM_Inputs_valid LIGHT_SWITCH_HIGH_BEAM 2000),
        FLM_Trigger SAFE_STATE_REASON_MANUAL,
        FLM_Tick (FLM_Inputs_valid LIGHT_SWITCH_HIGH_BEAM 2000)]
       (FLM_Init FLM_PowerOn)"

text \<open>The FLM application triggered before its first tick, which then runs with an
  invalid ambient reading.\<close>

abbreviation FLM_entered_Safe_ambient_invalid :: FLM_Statics where
  "FLM_entered_Safe_ambient_invalid \<equiv>
     FLM_run
       [FLM_Trigger SAFE_STATE_REASON_MANUAL,
        FLM_Tick (FLM_Inputs_ambient_invalid LIGHT_SWITCH_LOW_BEAM)]
       (FLM_Init FLM_PowerOn)"

text \<open>Four frames as \<^verbatim>\<open>E2E_P01Protect\<close> produces them for the counters \<open>0..3\<close>, the first
  three carrying the command \<open>1\<close> (low beam) and the fourth the command code \<open>7\<close>.\<close>

abbreviation SwitchEvent_after_code_7 :: SwitchEvent_Statics where
  "SwitchEvent_after_code_7 \<equiv>
     SwitchEvent_run
       [Some [0x38, 0x00, 0x01, 0x00], Some [0xB7, 0x01, 0x01, 0x00],
        Some [0x3B, 0x02, 0x01, 0x00], Some [0x01, 0x03, 0x07, 0x00]]
       (SwitchEvent_Init SwitchEvent_PowerOn)"

text \<open>The output monitor after two ticks with the command \<open>LowBeam\<close> and an injected
  feedback current of 20000 mA.\<close>

abbreviation Headlight_short_confirmed :: Headlight_Statics where
  "Headlight_short_confirmed \<equiv>
     Headlight_run [(HEADLIGHT_CMD_LOW_BEAM, 20000), (HEADLIGHT_CMD_LOW_BEAM, 20000)]
       (Headlight_Init Headlight_PowerOn)"

text \<open>The output monitor after 256 ticks with the command \<open>LowBeam\<close> and an injected
  feedback current of 20000 mA throughout.\<close>

abbreviation Headlight_short_sustained :: Headlight_Statics where
  "Headlight_short_sustained \<equiv>
     Headlight_run (replicate 256 (HEADLIGHT_CMD_LOW_BEAM, 20000))
       (Headlight_Init Headlight_PowerOn)"

text \<open>The E2E checker of the light-switch message right after \<^verbatim>\<open>E2E_P01CheckInit\<close>.\<close>

abbreviation E2E_P01Check_fresh :: E2E_P01CheckStateType where
  "E2E_P01Check_fresh \<equiv> E2E_P01CheckInit (se_e2eCheckState SwitchEvent_State_zero)"

text \<open>The safety monitor's inputs while the E2E supervisor is \<open>Invalid\<close> and everything
  else is healthy; and the monitor after twenty such ticks (time stamps 0 to 95 ms) with
  the watchdog status then set to \<open>Failed\<close>, so that at the next tick (time stamp 100 ms)
  the E2E condition and the watchdog condition hold together.\<close>

abbreviation SafetyMonitor_Inputs_e2e_invalid :: SafetyMonitor_Inputs where
  "SafetyMonitor_Inputs_e2e_invalid \<equiv>
     \<lparr>smi_switchStatus = \<lparr>ls_command = LIGHT_SWITCH_OFF, ls_isValid = False, ls_e2eStatus = 2\<rparr>,
      smi_e2eStatus = E2E_P01STATUS_WRONGCRC, smi_e2eSmStatus = E2E_SM_INVALID,
      smi_ambientLevel = \<lparr>al_adcValue = 2000, al_luxValue = 500, al_isValid = True\<rparr>,
      smi_headlightFault = HEADLIGHT_FAULT_NONE\<rparr>"

abbreviation SafetyMonitor_both_triggers :: SafetyMonitor_Statics where
  "SafetyMonitor_both_triggers \<equiv>
     SafetyMonitor_SimSetWdgmStatus WDGM_GLOBAL_STATUS_FAILED
       (SafetyMonitor_run (replicate 20 SafetyMonitor_Inputs_e2e_invalid)
          (SafetyMonitor_Init SafetyMonitor_PowerOn))"

text \<open>Sixteen message buffers as the tests build them, with the command in byte 2.\<close>

abbreviation E2E_sixteen_buffers :: "u8 list list" where
  "E2E_sixteen_buffers \<equiv>
     map (\<lambda>cmd. [0, 0, cmd, 0]) [1, 1, 1, 1, 2, 2, 2, 2, 3, 3, 3, 3, 0, 0, 0, 0]"

text \<open>The ambient sensor after one tick with an injected ADC value of 50 and eleven ticks
  with 2000.\<close>

abbreviation LightRequest_open_then_healthy :: LightRequest_Statics where
  "LightRequest_open_then_healthy \<equiv>
     LightRequest_run (50 # replicate 11 2000) (LightRequest_Init LightRequest_PowerOn)"

section \<open>Properties\<close>

subsection \<open>Evaluation on concrete inputs\<close>

lemma LightSwitch_E2E_Config_eq:
  "LightSwitch_E2E_Config =
     \<lparr>DataLength = 32, DataID = 0x0100, MaxDeltaCounter = 2, MaxNoNewOrRepeatedData = 5,
      SyncCounter = 2, CounterOffset = 8, CRCOffset = 0, DataIDNibbleOffset = 0, DataIDMode = False\<rparr>"
  by (simp add: LightSwitch_E2E_Config_def SwitchEvent_InitE2E_def SwitchEvent_State_zero_def
      FLM_E2E_LIGHTSWITCH_DATA_LENGTH_def FLM_E2E_LIGHTSWITCH_DATA_ID_def FLM_E2E_MAX_DELTA_COUNTER_def
      FLM_E2E_MAX_NO_NEW_DATA_def FLM_E2E_SYNC_COUNTER_def FLM_E2E_COUNTER_OFFSET_def FLM_E2E_CRC_OFFSET_def)

lemmas crc_eval =
  E2E_P01_ComputeCRC_def E2E_P01_CalculateCRC8_def Let_def E2E_P01_CRC8_Table_def
  E2E_P01_CRC_INITIAL_VALUE_def E2E_P01_CRC_XOR_VALUE_def E2E_P01_GetCRC_def byte_at_def

subsection \<open>The E2E check and its supervisor\<close>

text \<open>
  The CRC-8/SAE-J1850 of the nine characters \<open>123456789\<close> is \<open>0x4B\<close>, the check value of
  that CRC.
\<close>

lemma Spec_CRC8_J1850_check_value:
  "Spec_CRC8_J1850 [0x31, 0x32, 0x33, 0x34, 0x35, 0x36, 0x37, 0x38, 0x39] = 0x4B"
  by code_simp

text \<open>
  With the CRC byte first and at least one more byte, the source computes its CRC in two
  calls of \<^verbatim>\<open>E2E_P01_CalculateCRC8\<close>. The first call ends with the XOR-out, and the
  second starts from that value as it is: the DataID part is XOR-ed out before the
  payload is fed.
\<close>

lemma E2E_P01_ComputeCRC_two_calls:
  assumes "CRCOffset config = 0" and "1 < unat len"
  shows "E2E_P01_ComputeCRC config bytes len =
           crc8_loop
             (crc8_loop 0xFF [ucast (drop_bit 8 (DataID config)), ucast (DataID config AND 0xFF)]
                XOR 0xFF)
             (take (unat (len - 1)) (drop 1 bytes))
           XOR 0xFF"
  using assms
  by (simp add: E2E_P01_ComputeCRC_def E2E_P01_CalculateCRC8_def Let_def
        E2E_P01_CRC_INITIAL_VALUE_def E2E_P01_CRC_XOR_VALUE_def)

text \<open>
  Against the value that these chained calls compute, a mismatch is answered with
  \<open>WrongCrc\<close>, and the state is the state given with only the \<open>Status\<close> tag set to
  \<open>WrongCrc\<close>.
\<close>

lemma E2E_P01Check_mismatch_with_ComputeCRC:
  assumes "len \<noteq> 0"
    and "E2E_P01_GetCRC (Some bytes) config \<noteq> E2E_P01_ComputeCRC config bytes len"
  shows "E2E_P01Check config state (Some bytes) len =
           (E2E_P01STATUS_WRONGCRC, state\<lparr>Status := E2E_P01STATUS_WRONGCRC\<rparr>)"
  using assms by (simp add: E2E_P01Check_def Let_def)

text \<open>
  C8. A frame whose received CRC byte differs from the CRC-8/SAE-J1850 over the DataID
  bytes and the payload bytes other than the CRC byte is to be answered with \<open>WrongCrc\<close>,
  the last-valid counter left as it was and nothing but the \<open>Status\<close> tag modified. The
  code does not do this. For the light-switch message and a freshly initialised checker:
  the frame \<open>38 00 01 00\<close> carries \<open>0x38\<close> where that CRC is \<open>0x36\<close>, and \<open>E2E_P01Check\<close>
  answers \<open>Initial\<close> and clears \<open>WaitForFirstData\<close>; the frame \<open>B7 01 01 00\<close> carries
  \<open>0xB7\<close> where that CRC is \<open>0xB9\<close>, and \<open>E2E_P01Check\<close> answers \<open>Initial\<close> and moves the
  last-valid counter from \<open>0\<close> to \<open>1\<close>; the frame \<open>36 00 01 00\<close>, which carries that CRC,
  is answered with \<open>WrongCrc\<close>.
\<close>

theorem E2E_P01Check_accepts_other_crc:
  "Spec_FrameCRC LightSwitch_E2E_Config [0x38, 0x00, 0x01, 0x00] = 0x36 \<and>
   E2E_P01_GetCRC (Some [0x38, 0x00, 0x01, 0x00]) LightSwitch_E2E_Config = 0x38 \<and>
   E2E_P01Check LightSwitch_E2E_Config E2E_P01Check_fresh (Some [0x38, 0x00, 0x01, 0x00]) 4 =
     (E2E_P01STATUS_INITIAL, E2E_P01Check_fresh\<lparr>WaitForFirstData := False\<rparr>) \<and>
   Spec_FrameCRC LightSwitch_E2E_Config [0xB7, 0x01, 0x01, 0x00] = 0xB9 \<and>
   E2E_P01_GetCRC (Some [0xB7, 0x01, 0x01, 0x00]) LightSwitch_E2E_Config = 0xB7 \<and>
   LastValidCounter E2E_P01Check_fresh = 0 \<and>
   E2E_P01Check LightSwitch_E2E_Config E2E_P01Check_fresh (Some [0xB7, 0x01, 0x01, 0x00]) 4 =
     (E2E_P01STATUS_INITIAL, E2E_P01Check_fresh\<lparr>LastValidCounter := 1, WaitForFirstData := False\<rparr>) \<and>
   Spec_FrameCRC LightSwitch_E2E_Config [0x36, 0x00, 0x01, 0x00] = 0x36 \<and>
   E2E_P01Check LightSwitch_E2E_Config E2E_P01Check_fresh (Some [0x36, 0x00, 0x01, 0x00]) 4 =
     (E2E_P01STATUS_WRONGCRC, E2E_P01Check_fresh\<lparr>Status := E2E_P01STATUS_WRONGCRC\<rparr>)"
  by code_simp

text \<open>
  C9, as claimed: a step of \<open>E2E_SMCheck\<close> with status \<open>Repeated\<close> does not increment the
  error count. It does: in the supervisor state \<open>Valid\<close> with an error count of \<open>0\<close>, a
  \<open>Repeated\<close> step leaves the error count at \<open>1\<close>.
\<close>

theorem E2E_SMCheck_repeated_counterexample:
  "ErrorCount (snd (E2E_SMCheck (se_e2eSmConfig (SwitchEvent_InitE2E SwitchEvent_State_zero))
       \<lparr>OkCount = 1, ErrorCount = 0, SMState = E2E_SM_VALID\<rparr> E2E_P01STATUS_REPEATED)) = 1"
  by (simp add: E2E_SMCheck_def SwitchEvent_InitE2E_def SwitchEvent_State_zero_def Let_def
        word_le_nat_alt)

text \<open>
  C9, amended. One step of \<open>E2E_SMCheck\<close> first updates the two counts, both saturating
  at \<open>255\<close>: a status \<open>Ok\<close>, \<open>OkSomeLost\<close> or \<open>Initial\<close> increments the ok count and clears
  the error count; \<open>Repeated\<close> leaves the ok count and increments the error count; any
  other status clears the ok count and increments the error count. These are the counts
  after the step whenever the supervisor state stays the same or was \<open>Deinit\<close> or
  \<open>NoData\<close>; a change of the supervisor state out of \<open>Init\<close>, \<open>Valid\<close> or \<open>Invalid\<close> clears
  both counts.
\<close>

theorem E2E_SMCheck_counts:
  "(SMState (snd (E2E_SMCheck config state st)) = SMState state \<or>
    SMState state = E2E_SM_DEINIT \<or> SMState state = E2E_SM_NODATA \<longrightarrow>
      (st \<in> {E2E_P01STATUS_OK, E2E_P01STATUS_OKSOMELOST, E2E_P01STATUS_INITIAL} \<longrightarrow>
          OkCount (snd (E2E_SMCheck config state st)) =
            (if OkCount state < 0xFF then OkCount state + 1 else OkCount state)
        \<and> ErrorCount (snd (E2E_SMCheck config state st)) = 0) \<and>
      (st = E2E_P01STATUS_REPEATED \<longrightarrow>
          OkCount (snd (E2E_SMCheck config state st)) = OkCount state
        \<and> ErrorCount (snd (E2E_SMCheck config state st)) =
            (if ErrorCount state < 0xFF then ErrorCount state + 1 else ErrorCount state)) \<and>
      (st \<in> {E2E_P01STATUS_WRONGCRC, E2E_P01STATUS_WRONGSEQUENCE,
              E2E_P01STATUS_NONEWDATA, E2E_P01STATUS_SYNC} \<longrightarrow>
          OkCount (snd (E2E_SMCheck config state st)) = 0
        \<and> ErrorCount (snd (E2E_SMCheck config state st)) =
            (if ErrorCount state < 0xFF then ErrorCount state + 1 else ErrorCount state))) \<and>
   (SMState (snd (E2E_SMCheck config state st)) \<noteq> SMState state \<and>
    SMState state \<noteq> E2E_SM_DEINIT \<and> SMState state \<noteq> E2E_SM_NODATA \<longrightarrow>
      OkCount (snd (E2E_SMCheck config state st)) = 0 \<and>
      ErrorCount (snd (E2E_SMCheck config state st)) = 0)"
  by (cases "SMState state"; cases st; simp add: E2E_SMCheck_def Let_def)

theorem E2E_SMCheck_counts_witness:
  "snd (E2E_SMCheck (se_e2eSmConfig (SwitchEvent_InitE2E SwitchEvent_State_zero))
       \<lparr>OkCount = 1, ErrorCount = 0, SMState = E2E_SM_VALID\<rparr> E2E_P01STATUS_REPEATED) =
     \<lparr>OkCount = 1, ErrorCount = 1, SMState = E2E_SM_VALID\<rparr> \<and>
   snd (E2E_SMCheck (se_e2eSmConfig (SwitchEvent_InitE2E SwitchEvent_State_zero))
       \<lparr>OkCount = 4, ErrorCount = 1, SMState = E2E_SM_VALID\<rparr> E2E_P01STATUS_OK) =
     \<lparr>OkCount = 5, ErrorCount = 0, SMState = E2E_SM_VALID\<rparr> \<and>
   snd (E2E_SMCheck (se_e2eSmConfig (SwitchEvent_InitE2E SwitchEvent_State_zero))
       \<lparr>OkCount = 4, ErrorCount = 0, SMState = E2E_SM_VALID\<rparr> E2E_P01STATUS_WRONGCRC) =
     \<lparr>OkCount = 0, ErrorCount = 1, SMState = E2E_SM_VALID\<rparr> \<and>
   snd (E2E_SMCheck (se_e2eSmConfig (SwitchEvent_InitE2E SwitchEvent_State_zero))
       \<lparr>OkCount = 4, ErrorCount = 1, SMState = E2E_SM_VALID\<rparr> E2E_P01STATUS_WRONGCRC) =
     \<lparr>OkCount = 0, ErrorCount = 0, SMState = E2E_SM_INVALID\<rparr>"
proof -
  have st:
    "SMState (snd (E2E_SMCheck (se_e2eSmConfig (SwitchEvent_InitE2E SwitchEvent_State_zero))
       \<lparr>OkCount = 1, ErrorCount = 0, SMState = E2E_SM_VALID\<rparr> E2E_P01STATUS_REPEATED)) = E2E_SM_VALID"
    "SMState (snd (E2E_SMCheck (se_e2eSmConfig (SwitchEvent_InitE2E SwitchEvent_State_zero))
       \<lparr>OkCount = 4, ErrorCount = 1, SMState = E2E_SM_VALID\<rparr> E2E_P01STATUS_OK)) = E2E_SM_VALID"
    "SMState (snd (E2E_SMCheck (se_e2eSmConfig (SwitchEvent_InitE2E SwitchEvent_State_zero))
       \<lparr>OkCount = 4, ErrorCount = 0, SMState = E2E_SM_VALID\<rparr> E2E_P01STATUS_WRONGCRC)) = E2E_SM_VALID"
    "SMState (snd (E2E_SMCheck (se_e2eSmConfig (SwitchEvent_InitE2E SwitchEvent_State_zero))
       \<lparr>OkCount = 4, ErrorCount = 1, SMState = E2E_SM_VALID\<rparr> E2E_P01STATUS_WRONGCRC)) = E2E_SM_INVALID"
    by code_simp+
  have eq: "\<And>r :: E2E_SMCheckStateType. r = \<lparr>OkCount = OkCount r, ErrorCount = ErrorCount r, SMState = SMState r\<rparr>"
    by simp
  show ?thesis
    using st
      E2E_SMCheck_counts [of "se_e2eSmConfig (SwitchEvent_InitE2E SwitchEvent_State_zero)"
       "\<lparr>OkCount = 1, ErrorCount = 0, SMState = E2E_SM_VALID\<rparr>" E2E_P01STATUS_REPEATED]
      E2E_SMCheck_counts [of "se_e2eSmConfig (SwitchEvent_InitE2E SwitchEvent_State_zero)"
       "\<lparr>OkCount = 4, ErrorCount = 1, SMState = E2E_SM_VALID\<rparr>" E2E_P01STATUS_OK]
      E2E_SMCheck_counts [of "se_e2eSmConfig (SwitchEvent_InitE2E SwitchEvent_State_zero)"
       "\<lparr>OkCount = 4, ErrorCount = 0, SMState = E2E_SM_VALID\<rparr>" E2E_P01STATUS_WRONGCRC]
      E2E_SMCheck_counts [of "se_e2eSmConfig (SwitchEvent_InitE2E SwitchEvent_State_zero)"
       "\<lparr>OkCount = 4, ErrorCount = 1, SMState = E2E_SM_VALID\<rparr>" E2E_P01STATUS_WRONGCRC]
    by (simp add: word_less_nat_alt E2E_SMCheckStateType.equality)
qed

subsection \<open>Components that have not been initialised\<close>

text \<open>
  C10. For each of the five components: when its \<open>isInitialized\<close> flag is false, its
  main function returns at once and leaves all of the component's variables, the state
  record and the system-time counter among them, as they were.
\<close>

theorem MainFunction_not_initialized:
  assumes "\<not> se_isInitialized (SwitchEvent_State se)"
    and "\<not> lr_isInitialized (LightRequest_State lr)"
    and "\<not> flm_isInitialized (FLM_State flm)"
    and "\<not> hl_isInitialized (Headlight_State hl)"
    and "\<not> sm_isInitialized (SafetyMonitor_State sm)"
  shows "SwitchEvent_MainFunction se = se
       \<and> LightRequest_MainFunction adc lr = lr
       \<and> FLM_MainFunction inp flm = flm
       \<and> Headlight_MainFunction cmd cur hl = hl
       \<and> SafetyMonitor_MainFunction sinp sm = sm"
  using assms
  by (simp add: SwitchEvent_MainFunction_def LightRequest_MainFunction_def FLM_MainFunction_def
        Headlight_MainFunction_def SafetyMonitor_MainFunction_def)

theorem MainFunction_not_initialized_witness:
  "SwitchEvent_MainFunction SwitchEvent_PowerOn = SwitchEvent_PowerOn
 \<and> LightRequest_MainFunction (Some 2000) LightRequest_PowerOn = LightRequest_PowerOn
 \<and> FLM_MainFunction
      \<lparr>in_lightRequest = \<lparr>ls_command = LIGHT_SWITCH_HIGH_BEAM, ls_isValid = True, ls_e2eStatus = 0\<rparr>,
       in_e2eStatus = E2E_P01STATUS_OK, in_timeoutActive = False,
       in_ambientLight = \<lparr>al_adcValue = 2000, al_luxValue = 500, al_isValid = True\<rparr>,
       in_signalStatus = SIGNAL_STATUS_VALID\<rparr> FLM_PowerOn = FLM_PowerOn
 \<and> Headlight_MainFunction HEADLIGHT_CMD_LOW_BEAM (Some 50) Headlight_PowerOn = Headlight_PowerOn
 \<and> SafetyMonitor_MainFunction
      \<lparr>smi_switchStatus = \<lparr>ls_command = LIGHT_SWITCH_OFF, ls_isValid = False, ls_e2eStatus = 0\<rparr>,
       smi_e2eStatus = E2E_P01STATUS_OK, smi_e2eSmStatus = E2E_SM_INVALID,
       smi_ambientLevel = \<lparr>al_adcValue = 0, al_luxValue = 0, al_isValid = False\<rparr>,
       smi_headlightFault = HEADLIGHT_FAULT_SHORT\<rparr> SafetyMonitor_PowerOn = SafetyMonitor_PowerOn"
proof -
  have h1: "\<not> se_isInitialized (SwitchEvent_State SwitchEvent_PowerOn)"
    by (simp add: SwitchEvent_PowerOn_def SwitchEvent_State_zero_def)
  have h2: "\<not> lr_isInitialized (LightRequest_State LightRequest_PowerOn)"
    by (simp add: LightRequest_PowerOn_def LightRequest_State_zero_def)
  have h3: "\<not> flm_isInitialized (FLM_State FLM_PowerOn)"
    by (simp add: FLM_PowerOn_def FLM_State_zero_def)
  have h4: "\<not> hl_isInitialized (Headlight_State Headlight_PowerOn)"
    by (simp add: Headlight_PowerOn_def Headlight_State_zero_def)
  have h5: "\<not> sm_isInitialized (SafetyMonitor_State SafetyMonitor_PowerOn)"
    by (simp add: SafetyMonitor_PowerOn_def SafetyMonitor_State_zero_def)
  show ?thesis
    using MainFunction_not_initialized [OF h1 h2 h3 h4 h5] by simp
qed

subsection \<open>The FLM state machine\<close>

lemma FLM_MainFunction_Safe:
  "flm_currentState (FLM_State g) = FLM_STATE_SAFE \<Longrightarrow>
   flm_currentState (FLM_State (FLM_MainFunction inp g)) = FLM_STATE_SAFE"
  by (simp add: FLM_MainFunction_def FLM_ReadInputs_def FLM_ProcessStateMachine_def FLM_StateSafe_def
        FLM_DetermineHeadlightCommand_def Let_def)

lemma FLM_step_Safe:
  "flm_currentState (FLM_State g) = FLM_STATE_SAFE \<Longrightarrow>
   flm_currentState (FLM_State (FLM_step e g)) = FLM_STATE_SAFE"
  by (cases e) (simp_all add: FLM_MainFunction_Safe FLM_TriggerSafeState_def)

text \<open>
  C1. Once the current state of the FLM application is \<open>Safe\<close>, it is \<open>Safe\<close> after every
  further sequence of main-function ticks (with any switch report and ambient reading as
  inputs) and external safe-state triggers: without a new \<open>FLM_Init\<close>, \<open>Safe\<close> is never
  left. The statement holds from every state, reachable or not.
\<close>

theorem FLM_Safe_absorbing:
  assumes "flm_currentState (FLM_State g) = FLM_STATE_SAFE"
  shows "flm_currentState (FLM_State (FLM_run es g)) = FLM_STATE_SAFE"
  using assms by (induction es arbitrary: g) (simp_all add: FLM_step_Safe)

theorem FLM_Safe_absorbing_witness:
  "flm_currentState (FLM_State FLM_entered_Safe_bright) = FLM_STATE_SAFE \<and>
   flm_currentState (FLM_State (FLM_run
       [FLM_Tick (FLM_Inputs_valid LIGHT_SWITCH_AUTO 2000),
        FLM_Trigger SAFE_STATE_REASON_E2E_FAILURE,
        FLM_Tick (FLM_Inputs_valid LIGHT_SWITCH_OFF 500),
        FLM_Tick (FLM_Inputs_ambient_invalid LIGHT_SWITCH_AUTO)]
       FLM_entered_Safe_bright)) = FLM_STATE_SAFE"
proof -
  have h: "flm_currentState (FLM_State FLM_entered_Safe_bright) = FLM_STATE_SAFE"
    by code_simp
  show ?thesis
    by (rule conjI [OF h FLM_Safe_absorbing [OF h]])
qed

lemma FLM_StateNormal_command:
  "flm_headlightCommand (FLM_StateNormal t s) = flm_headlightCommand s"
  by (simp add: FLM_StateNormal_def Let_def)

lemma FLM_StateDegraded_command:
  "flm_headlightCommand (FLM_StateDegraded t s) = flm_headlightCommand s"
  by (simp add: FLM_StateDegraded_def Let_def)

lemma FLM_StateInit_command:
  "flm_currentState s = FLM_STATE_INIT \<Longrightarrow> flm_currentState (FLM_StateInit t s) = FLM_STATE_SAFE \<Longrightarrow>
   flm_headlightCommand (FLM_StateInit t s) = flm_headlightCommand s"
  by (simp add: FLM_StateInit_def Let_def split: if_splits)

lemma FLM_ProcessStateMachine_entering_Safe:
  assumes "flm_currentState s \<noteq> FLM_STATE_SAFE"
    and "flm_currentState (FLM_ProcessStateMachine t s) = FLM_STATE_SAFE"
  shows "flm_headlightCommand (FLM_ProcessStateMachine t s) = flm_headlightCommand s"
proof (cases "flm_currentState s")
  case FLM_STATE_INIT
  with assms show ?thesis
    using FLM_StateInit_command [of "s\<lparr>flm_previousState := flm_currentState s\<rparr>" t]
    by (simp add: FLM_ProcessStateMachine_def Let_def split: if_splits)
next
  case FLM_STATE_NORMAL
  then show ?thesis
    by (simp add: FLM_ProcessStateMachine_def Let_def FLM_StateNormal_command)
next
  case FLM_STATE_DEGRADED
  then show ?thesis
    by (simp add: FLM_ProcessStateMachine_def Let_def FLM_StateDegraded_command)
next
  case FLM_STATE_SAFE
  with assms show ?thesis by simp
qed

lemma FLM_ReadInputs_keeps:
  "flm_currentState (FLM_ReadInputs inp s) = flm_currentState s \<and>
   flm_headlightCommand (FLM_ReadInputs inp s) = flm_headlightCommand s"
  by (simp add: FLM_ReadInputs_def Let_def)

lemma FLM_MainFunction_entering_Safe_command:
  assumes "flm_currentState (FLM_State g) \<noteq> FLM_STATE_SAFE"
    and "flm_currentState (FLM_State (FLM_MainFunction inp g)) = FLM_STATE_SAFE"
  shows "flm_headlightCommand (FLM_State (FLM_MainFunction inp g)) = flm_headlightCommand (FLM_State g)"
proof (cases "flm_isInitialized (FLM_State g)")
  case False
  then show ?thesis by (simp add: FLM_MainFunction_def)
next
  case True
  define s2 where "s2 = FLM_ReadInputs inp ((FLM_State g)\<lparr>flm_currentTime := FLM_SystemTime g\<rparr>)"
  define s3 where "s3 = FLM_ProcessStateMachine (FLM_ExternalSafeStateTrigger g) s2"
  have r: "FLM_State (FLM_MainFunction inp g) = FLM_DetermineHeadlightCommand s3"
    using True by (simp add: FLM_MainFunction_def Let_def s2_def s3_def)
  have c2: "flm_currentState s2 = flm_currentState (FLM_State g)"
    and h2: "flm_headlightCommand s2 = flm_headlightCommand (FLM_State g)"
    by (simp_all add: s2_def FLM_ReadInputs_keeps)
  have d: "flm_currentState (FLM_DetermineHeadlightCommand s3) = flm_currentState s3"
    by (simp add: FLM_DetermineHeadlightCommand_def FLM_ApplyAutoMode_def Let_def split: LightSwitchCmd.split)
  have safe3: "flm_currentState s3 = FLM_STATE_SAFE" using assms(2) r d by simp
  have "FLM_DetermineHeadlightCommand s3 = s3"
    using safe3 by (simp add: FLM_DetermineHeadlightCommand_def)
  moreover have "flm_headlightCommand s3 = flm_headlightCommand s2"
    unfolding s3_def
    by (rule FLM_ProcessStateMachine_entering_Safe) (use assms(1) c2 safe3 in \<open>simp_all add: s3_def\<close>)
  ultimately show ?thesis using r h2 by simp
qed

lemma FLM_MainFunction_from_Safe_command:
  assumes "flm_isInitialized (FLM_State g)" and "flm_currentState (FLM_State g) = FLM_STATE_SAFE"
  shows "flm_headlightCommand (FLM_State (FLM_MainFunction inp g)) =
           (if al_isValid (in_ambientLight inp)
            then (if al_adcValue (in_ambientLight inp) < FLM_AMBIENT_THRESHOLD_ON
                  then HEADLIGHT_CMD_LOW_BEAM else HEADLIGHT_CMD_OFF)
            else HEADLIGHT_CMD_LOW_BEAM)"
  using assms
  by (simp add: FLM_MainFunction_def FLM_ReadInputs_def FLM_ProcessStateMachine_def FLM_StateSafe_def
        FLM_DetermineHeadlightCommand_def Let_def)

text \<open>
  C4 claims, for every tick that ends in \<open>Safe\<close>: the headlight command is \<open>LowBeam\<close> when
  the ambient reading is invalid, and when it is valid, \<open>LowBeam\<close> below 800 and \<open>Off\<close>
  otherwise. That holds on every tick that starts in \<open>Safe\<close>
  (\<open>FLM_MainFunction_from_Safe_command\<close>). On the tick that enters \<open>Safe\<close> the handler
  \<open>FLM_StateSafe\<close> has not run and \<open>FLM_DetermineHeadlightCommand\<close> returns early, so the
  command of the tick before stays (\<open>FLM_MainFunction_entering_Safe_command\<close>). Two runs
  of the code: entering \<open>Safe\<close> from \<open>Normal\<close> with a valid ambient reading of 2000 leaves
  the command \<open>HighBeam\<close>, not \<open>Off\<close>; entering \<open>Safe\<close> from \<open>Init\<close> with an invalid ambient
  reading leaves the command \<open>Off\<close>, not \<open>LowBeam\<close>.
\<close>

theorem FLM_Safe_entry_tick_command:
  "flm_currentState (FLM_State FLM_entered_Safe_bright) = FLM_STATE_SAFE \<and>
   al_isValid (flm_ambientLight (FLM_State FLM_entered_Safe_bright)) \<and>
   al_adcValue (flm_ambientLight (FLM_State FLM_entered_Safe_bright)) = 2000 \<and>
   flm_headlightCommand (FLM_State FLM_entered_Safe_bright) = HEADLIGHT_CMD_HIGH_BEAM \<and>
   flm_currentState (FLM_State FLM_entered_Safe_ambient_invalid) = FLM_STATE_SAFE \<and>
   \<not> al_isValid (flm_ambientLight (FLM_State FLM_entered_Safe_ambient_invalid)) \<and>
   flm_headlightCommand (FLM_State FLM_entered_Safe_ambient_invalid) = HEADLIGHT_CMD_OFF"
  by code_simp

subsection \<open>The switch receiver\<close>

lemma SwitchEvent_ExtractLightSwitchCommand_fields:
  "se_e2eSmStatus (SwitchEvent_ExtractLightSwitchCommand s (Some bytes)) = se_e2eSmStatus s"
  "ls_command (se_lightSwitchStatus (SwitchEvent_ExtractLightSwitchCommand s (Some bytes))) =
     (if byte_at bytes COM_LIGHTSWITCH_CMD_BYTE \<le> 3
      then LightSwitchCmd_of_byte (byte_at bytes COM_LIGHTSWITCH_CMD_BYTE)
      else ls_command (se_lightSwitchStatus s))"
  by (simp_all add: SwitchEvent_ExtractLightSwitchCommand_def SwitchEvent_IsCommandValid_def Let_def)

lemma SwitchEvent_PerformE2ECheck_passing:
  assumes "se_newMessageReceived s"
    and "fst (E2E_P01Check (se_e2eConfig s) (se_e2eCheckState s)
               (Some (se_lastMessageData s)) FLM_CAN_LIGHTSWITCH_MSG_LEN)
           \<in> {E2E_P01STATUS_OK, E2E_P01STATUS_OKSOMELOST, E2E_P01STATUS_INITIAL}"
  shows "se_timeoutCounter (SwitchEvent_PerformE2ECheck s) = 0"
    and "\<not> se_newMessageReceived (SwitchEvent_PerformE2ECheck s)"
    and "ls_command (se_lightSwitchStatus (SwitchEvent_PerformE2ECheck s)) =
           (if byte_at (se_lastMessageData s) COM_LIGHTSWITCH_CMD_BYTE \<le> 3
            then LightSwitchCmd_of_byte (byte_at (se_lastMessageData s) COM_LIGHTSWITCH_CMD_BYTE)
            else ls_command (se_lightSwitchStatus s))"
  using assms
  by (simp_all add: SwitchEvent_PerformE2ECheck_def Let_def SwitchEvent_ExtractLightSwitchCommand_fields)

lemma SwitchEvent_UpdateTimeoutStatus_fresh:
  assumes "se_timeoutCounter s = 0" and "\<not> se_newMessageReceived s"
  shows "\<not> se_timeoutActive (SwitchEvent_UpdateTimeoutStatus s)"
    and "se_e2eSmStatus (SwitchEvent_UpdateTimeoutStatus s) = se_e2eSmStatus s"
    and "ls_command (se_lightSwitchStatus (SwitchEvent_UpdateTimeoutStatus s)) =
           ls_command (se_lightSwitchStatus s)"
  using assms
  by (simp_all add: SwitchEvent_UpdateTimeoutStatus_def SWITCHEVENT_TIMEOUT_CYCLES_def
        FLM_CAN_TIMEOUT_MS_def FLM_MAIN_FUNCTION_PERIOD_MS_def Let_def word_le_nat_alt)

lemma SwitchEvent_MainFunction_passing_frame:
  assumes init: "se_isInitialized (SwitchEvent_State g)"
    and new: "se_newMessageReceived (SwitchEvent_State g)"
    and pass: "fst (E2E_P01Check (se_e2eConfig (SwitchEvent_State g)) (se_e2eCheckState (SwitchEvent_State g))
               (Some (se_lastMessageData (SwitchEvent_State g))) FLM_CAN_LIGHTSWITCH_MSG_LEN)
           \<in> {E2E_P01STATUS_OK, E2E_P01STATUS_OKSOMELOST, E2E_P01STATUS_INITIAL}"
  shows "ls_isValid (se_lightSwitchStatus (SwitchEvent_State (SwitchEvent_MainFunction g))) =
           (se_e2eSmStatus (SwitchEvent_State (SwitchEvent_MainFunction g)) = E2E_SM_VALID)
       \<and> ls_command (se_lightSwitchStatus (SwitchEvent_State (SwitchEvent_MainFunction g))) =
           (if byte_at (se_lastMessageData (SwitchEvent_State g)) COM_LIGHTSWITCH_CMD_BYTE \<le> 3
            then LightSwitchCmd_of_byte (byte_at (se_lastMessageData (SwitchEvent_State g)) COM_LIGHTSWITCH_CMD_BYTE)
            else ls_command (se_lightSwitchStatus (SwitchEvent_State g)))"
proof -
  define s1 where "s1 = (SwitchEvent_State g)\<lparr>se_currentTimestamp := SwitchEvent_SystemTime g\<rparr>"
  define s2 where "s2 = SwitchEvent_PerformE2ECheck s1"
  define s3 where "s3 = SwitchEvent_UpdateTimeoutStatus s2"
  have new1: "se_newMessageReceived s1" using new by (simp add: s1_def)
  have pass1: "fst (E2E_P01Check (se_e2eConfig s1) (se_e2eCheckState s1)
               (Some (se_lastMessageData s1)) FLM_CAN_LIGHTSWITCH_MSG_LEN)
           \<in> {E2E_P01STATUS_OK, E2E_P01STATUS_OKSOMELOST, E2E_P01STATUS_INITIAL}"
    using pass by (simp add: s1_def)
  note p = SwitchEvent_PerformE2ECheck_passing [OF new1 pass1, folded s2_def]
  note u = SwitchEvent_UpdateTimeoutStatus_fresh [OF p(1) p(2), folded s3_def]
  have r: "SwitchEvent_State (SwitchEvent_MainFunction g) =
        (let s4 = (if se_e2eSmStatus s3 = E2E_SM_VALID then
                     (if \<not> se_timeoutActive s3
                      then s3\<lparr>se_lightSwitchStatus := (se_lightSwitchStatus s3)\<lparr>ls_isValid := True\<rparr>\<rparr>
                      else s3\<lparr>se_lightSwitchStatus := (se_lightSwitchStatus s3)\<lparr>ls_isValid := False\<rparr>\<rparr>)
                   else s3\<lparr>se_lightSwitchStatus := (se_lightSwitchStatus s3)\<lparr>ls_isValid := False\<rparr>\<rparr>)
         in s4\<lparr>se_lightSwitchStatus :=
                (se_lightSwitchStatus s4)\<lparr>ls_e2eStatus := E2E_P01CheckStatus_code (se_e2eStatus s4)\<rparr>\<rparr>)"
    using init by (simp add: SwitchEvent_MainFunction_def Let_def s1_def s2_def s3_def)
  show ?thesis
    using u p(3) by (simp add: r Let_def s1_def)
qed

text \<open>
  C5 claims that a tick whose frame passes the E2E check but carries a command code above
  \<open>3\<close> emits a report marked invalid, with the command of the last accepted frame. The
  command is kept, but the validity flag that \<open>SwitchEvent_ExtractLightSwitchCommand\<close>
  clears is written again by the validity decision of \<open>SwitchEvent_MainFunction\<close>: after
  a passing frame the report is valid exactly when the supervisor is \<open>Valid\<close>
  (\<open>SwitchEvent_MainFunction_passing_frame\<close>). The run: three frames with the command
  \<open>1\<close> bring the supervisor to \<open>Valid\<close>; the fourth frame passes the check with status
  \<open>Ok\<close> and carries the code \<open>7\<close>; the report after that tick is marked valid and carries
  \<open>LowBeam\<close>.
\<close>

theorem SwitchEvent_code_7_reported_valid:
  "se_e2eStatus (SwitchEvent_State SwitchEvent_after_code_7) = E2E_P01STATUS_OK \<and>
   byte_at (se_lastMessageData (SwitchEvent_State SwitchEvent_after_code_7)) COM_LIGHTSWITCH_CMD_BYTE = 7 \<and>
   se_e2eSmStatus (SwitchEvent_State SwitchEvent_after_code_7) = E2E_SM_VALID \<and>
   ls_isValid (se_lightSwitchStatus (SwitchEvent_State SwitchEvent_after_code_7)) \<and>
   ls_command (se_lightSwitchStatus (SwitchEvent_State SwitchEvent_after_code_7)) = LIGHT_SWITCH_LOW_BEAM"
  by code_simp

subsection \<open>The output monitor\<close>

text \<open>
  C3. Once the fault \<open>Short\<close> is confirmed, both output lines are to stay de-energised on
  every later tick of the power cycle, whatever the command. The code does not hold them
  off. After two ticks with the command \<open>LowBeam\<close> and 20000 mA the fault is \<open>Short\<close>,
  confirmed, and the low-beam line is off; one more tick with the command \<open>LowBeam\<close> and
  500 mA leaves the fault \<open>Short\<close> and confirmed and the low-beam line energised. And
  with 20000 mA sensed on every tick, the 8-bit short-circuit counter is back at \<open>0\<close>
  at the 256th tick, so that this tick ends with the low-beam line energised while the
  fault is \<open>Short\<close> and confirmed and the over-current is still sensed.
\<close>

theorem Headlight_short_reenergised:
  "hl_faultStatus (Headlight_State Headlight_short_confirmed) = HEADLIGHT_FAULT_SHORT \<and>
   hl_faultConfirmed (Headlight_State Headlight_short_confirmed) \<and>
   \<not> hl_lowBeamOutput (Headlight_State Headlight_short_confirmed) \<and>
   Dio_OutputLevels (Headlight_Dio Headlight_short_confirmed) ! unat HEADLIGHT_DIO_LOW_BEAM = STD_LOW \<and>
   hl_faultStatus (Headlight_State
      (Headlight_run [(HEADLIGHT_CMD_LOW_BEAM, 500)] Headlight_short_confirmed)) = HEADLIGHT_FAULT_SHORT \<and>
   hl_faultConfirmed (Headlight_State
      (Headlight_run [(HEADLIGHT_CMD_LOW_BEAM, 500)] Headlight_short_confirmed)) \<and>
   hl_lowBeamOutput (Headlight_State
      (Headlight_run [(HEADLIGHT_CMD_LOW_BEAM, 500)] Headlight_short_confirmed)) \<and>
   Dio_OutputLevels (Headlight_Dio
      (Headlight_run [(HEADLIGHT_CMD_LOW_BEAM, 500)] Headlight_short_confirmed))
       ! unat HEADLIGHT_DIO_LOW_BEAM = STD_HIGH \<and>
   hl_feedbackCurrent (Headlight_State Headlight_short_sustained) = 20000 \<and>
   hl_shortCircuitCounter (Headlight_State Headlight_short_sustained) = 0 \<and>
   hl_faultStatus (Headlight_State Headlight_short_sustained) = HEADLIGHT_FAULT_SHORT \<and>
   hl_faultConfirmed (Headlight_State Headlight_short_sustained) \<and>
   hl_lowBeamOutput (Headlight_State Headlight_short_sustained) \<and>
   Dio_OutputLevels (Headlight_Dio Headlight_short_sustained) ! unat HEADLIGHT_DIO_LOW_BEAM = STD_HIGH"
  by code_simp

text \<open>
  The lemmas below follow one tick of \<^verbatim>\<open>Headlight_MainFunction\<close> through its steps, for
  every initialised state.
\<close>

lemma Headlight_WriteLines_levels:
  assumes "Dio_lines_are_outputs d"
  shows "Dio_lines_are_outputs (Headlight_WriteLines low high d)"
    and "Dio_OutputLevels (Headlight_WriteLines low high d) ! unat HEADLIGHT_DIO_LOW_BEAM =
           (if low \<noteq> STD_LOW then STD_HIGH else STD_LOW)"
    and "Dio_OutputLevels (Headlight_WriteLines low high d) ! unat HEADLIGHT_DIO_HIGH_BEAM =
           (if high \<noteq> STD_LOW then STD_HIGH else STD_LOW)"
  using assms
  by (simp_all add: Dio_lines_are_outputs_def Headlight_WriteLines_def Dio_WriteChannel_def
        DIO_NUM_CHANNELS_def HEADLIGHT_DIO_LOW_BEAM_def HEADLIGHT_DIO_HIGH_BEAM_def word_le_nat_alt)


lemma Headlight_SetOutputs_fields:
  assumes "Dio_lines_are_outputs (Headlight_Dio g)"
  shows "hl_lowBeamOutput (Headlight_State (Headlight_SetOutputs g)) =
           (hl_requestedCommand (Headlight_State g) \<noteq> HEADLIGHT_CMD_OFF)"
    and "hl_highBeamOutput (Headlight_State (Headlight_SetOutputs g)) =
           (hl_requestedCommand (Headlight_State g) = HEADLIGHT_CMD_HIGH_BEAM)"
    and "Dio_lines_are_outputs (Headlight_Dio (Headlight_SetOutputs g))"
    and "Dio_OutputLevels (Headlight_Dio (Headlight_SetOutputs g)) ! unat HEADLIGHT_DIO_LOW_BEAM =
           (if hl_requestedCommand (Headlight_State g) \<noteq> HEADLIGHT_CMD_OFF then STD_HIGH else STD_LOW)"
    and "Dio_OutputLevels (Headlight_Dio (Headlight_SetOutputs g)) ! unat HEADLIGHT_DIO_HIGH_BEAM =
           (if hl_requestedCommand (Headlight_State g) = HEADLIGHT_CMD_HIGH_BEAM then STD_HIGH else STD_LOW)"
    and "hl_shortCircuitCounter (Headlight_State (Headlight_SetOutputs g)) =
           hl_shortCircuitCounter (Headlight_State g)"
  using Headlight_WriteLines_levels [OF assms]
  by (cases "hl_requestedCommand (Headlight_State g)";
      simp add: Headlight_SetOutputs_def Let_def STD_HIGH_def STD_LOW_def)+

lemma Headlight_ReadFeedback_fields:
  "hl_lowBeamOutput (Headlight_State (Headlight_ReadFeedback adc g)) = hl_lowBeamOutput (Headlight_State g)"
  "hl_highBeamOutput (Headlight_State (Headlight_ReadFeedback adc g)) = hl_highBeamOutput (Headlight_State g)"
  "hl_shortCircuitCounter (Headlight_State (Headlight_ReadFeedback adc g)) = hl_shortCircuitCounter (Headlight_State g)"
  "Headlight_Dio (Headlight_ReadFeedback adc g) = Headlight_Dio g"
  by (simp_all add: Headlight_ReadFeedback_def Let_def split: option.split)

lemma Headlight_CheckOpenLoad_fields:
  "hl_lowBeamOutput (Headlight_CheckOpenLoad s) = hl_lowBeamOutput s"
  "hl_highBeamOutput (Headlight_CheckOpenLoad s) = hl_highBeamOutput s"
  "hl_shortCircuitCounter (Headlight_CheckOpenLoad s) = hl_shortCircuitCounter s"
  "hl_feedbackCurrent (Headlight_CheckOpenLoad s) = hl_feedbackCurrent s"
  by (simp_all add: Headlight_CheckOpenLoad_def Let_def)

lemma Headlight_UpdateFaultStatus_fields:
  "hl_lowBeamOutput (Headlight_UpdateFaultStatus s) = hl_lowBeamOutput s"
  "hl_highBeamOutput (Headlight_UpdateFaultStatus s) = hl_highBeamOutput s"
  "hl_shortCircuitCounter (Headlight_UpdateFaultStatus s) = hl_shortCircuitCounter s"
  "hl_feedbackCurrent (Headlight_UpdateFaultStatus s) = hl_feedbackCurrent s"
  "hl_faultConfirmed (Headlight_UpdateFaultStatus s) = hl_faultConfirmed s"
  "hl_shortCircuitCounter s \<noteq> 0 \<Longrightarrow> hl_faultStatus (Headlight_UpdateFaultStatus s) = hl_faultStatus s"
  by (simp_all add: Headlight_UpdateFaultStatus_def)

lemma Headlight_CheckShortCircuit_fields:
  assumes "Dio_lines_are_outputs (Headlight_Dio g)"
  shows "hl_feedbackCurrent (Headlight_State (Headlight_CheckShortCircuit g)) = hl_feedbackCurrent (Headlight_State g)"
    and "Headlight_short_confirming (Headlight_State (Headlight_CheckShortCircuit g)) \<Longrightarrow>
           \<not> hl_lowBeamOutput (Headlight_State (Headlight_CheckShortCircuit g)) \<and>
           \<not> hl_highBeamOutput (Headlight_State (Headlight_CheckShortCircuit g)) \<and>
           hl_faultStatus (Headlight_State (Headlight_CheckShortCircuit g)) = HEADLIGHT_FAULT_SHORT \<and>
           hl_faultConfirmed (Headlight_State (Headlight_CheckShortCircuit g)) \<and>
           hl_shortCircuitCounter (Headlight_State (Headlight_CheckShortCircuit g)) \<noteq> 0 \<and>
           Dio_OutputLevels (Headlight_Dio (Headlight_CheckShortCircuit g)) ! unat HEADLIGHT_DIO_LOW_BEAM = STD_LOW \<and>
           Dio_OutputLevels (Headlight_Dio (Headlight_CheckShortCircuit g)) ! unat HEADLIGHT_DIO_HIGH_BEAM = STD_LOW"
    and "\<not> Headlight_short_confirming (Headlight_State (Headlight_CheckShortCircuit g)) \<Longrightarrow>
           hl_lowBeamOutput (Headlight_State (Headlight_CheckShortCircuit g)) = hl_lowBeamOutput (Headlight_State g) \<and>
           hl_highBeamOutput (Headlight_State (Headlight_CheckShortCircuit g)) = hl_highBeamOutput (Headlight_State g) \<and>
           Headlight_Dio (Headlight_CheckShortCircuit g) = Headlight_Dio g"
  using Headlight_WriteLines_levels [OF assms, of STD_LOW STD_LOW]
  by (auto simp add: Headlight_CheckShortCircuit_def Headlight_short_confirming_def Let_def
        HEADLIGHT_FAULT_CONFIRM_CYCLES_def FLM_HEADLIGHT_FAULT_DETECT_MS_def
        FLM_MAIN_FUNCTION_PERIOD_MS_def word_le_nat_alt split: if_splits)

text \<open>
  What one tick leaves on the lines. \<^verbatim>\<open>Headlight_SetOutputs\<close> drives them from the
  requested command, and only the guard of \<^verbatim>\<open>Headlight_CheckShortCircuit\<close> at this very
  tick switches them off again: \<^verbatim>\<open>faultStatus\<close> and \<^verbatim>\<open>faultConfirmed\<close> of the state before
  the tick do not enter.
\<close>

lemma Headlight_MainFunction_outputs:
  assumes init: "hl_isInitialized (Headlight_State g)"
    and dio: "Dio_lines_are_outputs (Headlight_Dio g)"
  shows "(Headlight_short_confirming (Headlight_State (Headlight_MainFunction cmd adc g)) \<longrightarrow>
            \<not> hl_lowBeamOutput (Headlight_State (Headlight_MainFunction cmd adc g)) \<and>
            \<not> hl_highBeamOutput (Headlight_State (Headlight_MainFunction cmd adc g)) \<and>
            Dio_OutputLevels (Headlight_Dio (Headlight_MainFunction cmd adc g)) ! unat HEADLIGHT_DIO_LOW_BEAM = STD_LOW \<and>
            Dio_OutputLevels (Headlight_Dio (Headlight_MainFunction cmd adc g)) ! unat HEADLIGHT_DIO_HIGH_BEAM = STD_LOW \<and>
            hl_faultStatus (Headlight_State (Headlight_MainFunction cmd adc g)) = HEADLIGHT_FAULT_SHORT \<and>
            hl_faultConfirmed (Headlight_State (Headlight_MainFunction cmd adc g))) \<and>
         (\<not> Headlight_short_confirming (Headlight_State (Headlight_MainFunction cmd adc g)) \<longrightarrow>
            hl_lowBeamOutput (Headlight_State (Headlight_MainFunction cmd adc g)) = (cmd \<noteq> HEADLIGHT_CMD_OFF) \<and>
            hl_highBeamOutput (Headlight_State (Headlight_MainFunction cmd adc g)) = (cmd = HEADLIGHT_CMD_HIGH_BEAM) \<and>
            Dio_OutputLevels (Headlight_Dio (Headlight_MainFunction cmd adc g)) ! unat HEADLIGHT_DIO_LOW_BEAM =
              (if cmd \<noteq> HEADLIGHT_CMD_OFF then STD_HIGH else STD_LOW) \<and>
            Dio_OutputLevels (Headlight_Dio (Headlight_MainFunction cmd adc g)) ! unat HEADLIGHT_DIO_HIGH_BEAM =
              (if cmd = HEADLIGHT_CMD_HIGH_BEAM then STD_HIGH else STD_LOW))"
proof -
  define g1 where "g1 = g\<lparr>Headlight_State :=
                      (Headlight_State g)\<lparr>hl_currentTime := Headlight_SystemTime g,
                                          hl_requestedCommand := cmd\<rparr>,
                    Headlight_SystemTime := Headlight_SystemTime g + FLM_MAIN_FUNCTION_PERIOD_MS\<rparr>"
  define g2 where "g2 = Headlight_SetOutputs g1"
  define g3 where "g3 = Headlight_ReadFeedback adc g2"
  define g4 where "g4 = g3\<lparr>Headlight_State := Headlight_CheckOpenLoad (Headlight_State g3)\<rparr>"
  define g5 where "g5 = Headlight_CheckShortCircuit g4"
  define s6 where "s6 = Headlight_UpdateFaultStatus (Headlight_State g5)"
  have r: "Headlight_MainFunction cmd adc g =
             g5\<lparr>Headlight_State := s6\<lparr>hl_currentCommand := hl_requestedCommand s6\<rparr>\<rparr>"
    using init
    by (simp add: Headlight_MainFunction_def Let_def g1_def g2_def g3_def g4_def g5_def s6_def)
  have dio1: "Dio_lines_are_outputs (Headlight_Dio g1)" using dio by (simp add: g1_def)
  have cmd1: "hl_requestedCommand (Headlight_State g1) = cmd" by (simp add: g1_def)
  note a = Headlight_SetOutputs_fields [OF dio1, folded g2_def, unfolded cmd1]
  note b = Headlight_ReadFeedback_fields [of adc g2, folded g3_def]
  have dio4: "Headlight_Dio g4 = Headlight_Dio g2" using b(4) by (simp add: g4_def)
  have out4: "hl_lowBeamOutput (Headlight_State g4) = (cmd \<noteq> HEADLIGHT_CMD_OFF)"
             "hl_highBeamOutput (Headlight_State g4) = (cmd = HEADLIGHT_CMD_HIGH_BEAM)"
    using a(1,2) b(1,2) by (simp_all add: g4_def Headlight_CheckOpenLoad_fields)
  have dio4': "Dio_lines_are_outputs (Headlight_Dio g4)" using a(3) dio4 by simp
  note c = Headlight_CheckShortCircuit_fields [OF dio4', folded g5_def]
  have conf: "Headlight_short_confirming (Headlight_State (Headlight_MainFunction cmd adc g)) =
              Headlight_short_confirming (Headlight_State g5)"
    by (simp add: r Headlight_short_confirming_def s6_def Headlight_UpdateFaultStatus_fields)
  show ?thesis
  proof (cases "Headlight_short_confirming (Headlight_State g5)")
    case True
    from c(2) [OF True] show ?thesis
      using True conf by (simp add: r s6_def Headlight_UpdateFaultStatus_fields)
  next
    case False
    from c(3) [OF False] show ?thesis
      using False conf out4 a(4,5) dio4 by (simp add: r s6_def Headlight_UpdateFaultStatus_fields)
  qed
qed

subsection \<open>The safety monitor\<close>

lemma SafetyMonitor_TriggerSafeState_latched:
  "sm_inSafeState (SafetyMonitor_State g) \<Longrightarrow> SafetyMonitor_TriggerSafeState r g = g"
  by (simp add: SafetyMonitor_TriggerSafeState_def)

lemma SafetyMonitor_CheckE2ETimeout_latched:
  "sm_inSafeState (SafetyMonitor_State g) \<Longrightarrow>
   sm_inSafeState (SafetyMonitor_State (SafetyMonitor_CheckE2ETimeout g)) \<and>
   sm_safeStateReason (SafetyMonitor_State (SafetyMonitor_CheckE2ETimeout g)) =
     sm_safeStateReason (SafetyMonitor_State g)"
  by (simp add: SafetyMonitor_CheckE2ETimeout_def Let_def SafetyMonitor_TriggerSafeState_latched)

lemma SafetyMonitor_CheckWdgMStatus_latched:
  "sm_inSafeState (SafetyMonitor_State g) \<Longrightarrow> SafetyMonitor_CheckWdgMStatus g = g"
  by (simp add: SafetyMonitor_CheckWdgMStatus_def Let_def SafetyMonitor_TriggerSafeState_latched)

lemma SafetyMonitor_CheckFTTI_latched:
  "sm_inSafeState (SafetyMonitor_State g) \<Longrightarrow> SafetyMonitor_CheckFTTI g = g"
  by (simp add: SafetyMonitor_CheckFTTI_def Let_def SafetyMonitor_TriggerSafeState_latched)

lemma SafetyMonitor_finish_reason:
  "sm_safeStateReason
     (if sm_inSafeState (SafetyMonitor_UpdateGlobalStatus s)
      then SafetyMonitor_DetermineSafeStateCommand (SafetyMonitor_UpdateGlobalStatus s)
      else SafetyMonitor_UpdateGlobalStatus s) = sm_safeStateReason s"
  by (simp add: SafetyMonitor_UpdateGlobalStatus_def SafetyMonitor_DetermineSafeStateCommand_def)

lemma SafetyMonitor_latched_rest:
  assumes "sm_inSafeState (SafetyMonitor_State g)"
  shows "sm_safeStateReason (SafetyMonitor_State (SafetyMonitor_CheckFTTI (SafetyMonitor_CheckWdgMStatus g)))
           = sm_safeStateReason (SafetyMonitor_State g)"
  using assms by (simp add: SafetyMonitor_CheckWdgMStatus_latched SafetyMonitor_CheckFTTI_latched)

lemma SafetyMonitor_ReadComponentStatus_fields:
  "sm_inSafeState (SafetyMonitor_State (SafetyMonitor_ReadComponentStatus inp g)) = sm_inSafeState (SafetyMonitor_State g)"
  "sm_e2eSmStatus (SafetyMonitor_State (SafetyMonitor_ReadComponentStatus inp g)) = smi_e2eSmStatus inp"
  "sm_e2eTimeoutActive (SafetyMonitor_State (SafetyMonitor_ReadComponentStatus inp g)) = sm_e2eTimeoutActive (SafetyMonitor_State g)"
  "sm_e2eFailureStartTime (SafetyMonitor_State (SafetyMonitor_ReadComponentStatus inp g)) = sm_e2eFailureStartTime (SafetyMonitor_State g)"
  "sm_currentTime (SafetyMonitor_State (SafetyMonitor_ReadComponentStatus inp g)) = sm_currentTime (SafetyMonitor_State g)"
  "sm_wdgmGlobalStatus (SafetyMonitor_State (SafetyMonitor_ReadComponentStatus inp g)) = SafetyMonitor_wdgmStatus_read g"
  "unat (SafetyMonitor_faultCount (SafetyMonitor_State (SafetyMonitor_ReadComponentStatus inp g))) = SafetyMonitor_faults_read inp g"
  by (simp_all add: SafetyMonitor_ReadComponentStatus_def Let_def SafetyMonitor_wdgmStatus_read_def
        SafetyMonitor_faultCount_def SafetyMonitor_faults_read_def)

lemma SafetyMonitor_AggregrateFaults_multi:
  assumes "\<not> sm_inSafeState (SafetyMonitor_State g)"
    and "unat (SafetyMonitor_faultCount (SafetyMonitor_State g)) \<ge> 3"
  shows "sm_inSafeState (SafetyMonitor_State (SafetyMonitor_AggregrateFaults g))"
    and "sm_safeStateReason (SafetyMonitor_State (SafetyMonitor_AggregrateFaults g)) = SAFE_STATE_REASON_MULTI_FAULT"
proof -
  have "SafetyMonitor_faultCount (SafetyMonitor_State g) \<ge> SAFETYMONITOR_MAX_FAULT_COUNT"
    using assms(2) by (simp add: SAFETYMONITOR_MAX_FAULT_COUNT_def word_le_nat_alt)
  then show "sm_inSafeState (SafetyMonitor_State (SafetyMonitor_AggregrateFaults g))"
    and "sm_safeStateReason (SafetyMonitor_State (SafetyMonitor_AggregrateFaults g)) = SAFE_STATE_REASON_MULTI_FAULT"
    using assms(1)
    by (simp_all add: SafetyMonitor_AggregrateFaults_def Let_def SafetyMonitor_TriggerSafeState_def)
qed

lemma SafetyMonitor_AggregrateFaults_few:
  assumes "unat (SafetyMonitor_faultCount (SafetyMonitor_State g)) < 3"
  shows "sm_inSafeState (SafetyMonitor_State (SafetyMonitor_AggregrateFaults g)) = sm_inSafeState (SafetyMonitor_State g)"
    and "sm_e2eSmStatus (SafetyMonitor_State (SafetyMonitor_AggregrateFaults g)) = sm_e2eSmStatus (SafetyMonitor_State g)"
    and "sm_e2eTimeoutActive (SafetyMonitor_State (SafetyMonitor_AggregrateFaults g)) = sm_e2eTimeoutActive (SafetyMonitor_State g)"
    and "sm_e2eFailureStartTime (SafetyMonitor_State (SafetyMonitor_AggregrateFaults g)) = sm_e2eFailureStartTime (SafetyMonitor_State g)"
    and "sm_currentTime (SafetyMonitor_State (SafetyMonitor_AggregrateFaults g)) = sm_currentTime (SafetyMonitor_State g)"
    and "sm_wdgmGlobalStatus (SafetyMonitor_State (SafetyMonitor_AggregrateFaults g)) = sm_wdgmGlobalStatus (SafetyMonitor_State g)"
proof -
  have "\<not> SafetyMonitor_faultCount (SafetyMonitor_State g) \<ge> SAFETYMONITOR_MAX_FAULT_COUNT"
    using assms by (simp add: SAFETYMONITOR_MAX_FAULT_COUNT_def word_le_nat_alt)
  then show "sm_inSafeState (SafetyMonitor_State (SafetyMonitor_AggregrateFaults g)) = sm_inSafeState (SafetyMonitor_State g)"
    and "sm_e2eSmStatus (SafetyMonitor_State (SafetyMonitor_AggregrateFaults g)) = sm_e2eSmStatus (SafetyMonitor_State g)"
    and "sm_e2eTimeoutActive (SafetyMonitor_State (SafetyMonitor_AggregrateFaults g)) = sm_e2eTimeoutActive (SafetyMonitor_State g)"
    and "sm_e2eFailureStartTime (SafetyMonitor_State (SafetyMonitor_AggregrateFaults g)) = sm_e2eFailureStartTime (SafetyMonitor_State g)"
    and "sm_currentTime (SafetyMonitor_State (SafetyMonitor_AggregrateFaults g)) = sm_currentTime (SafetyMonitor_State g)"
    and "sm_wdgmGlobalStatus (SafetyMonitor_State (SafetyMonitor_AggregrateFaults g)) = sm_wdgmGlobalStatus (SafetyMonitor_State g)"
    by (simp_all add: SafetyMonitor_AggregrateFaults_def Let_def)
qed

lemma SafetyMonitor_CheckE2ETimeout_fires:
  assumes "\<not> sm_inSafeState (SafetyMonitor_State g)"
    and "sm_e2eSmStatus (SafetyMonitor_State g) \<noteq> E2E_SM_VALID"
    and "sm_e2eTimeoutActive (SafetyMonitor_State g)"
    and "sm_currentTime (SafetyMonitor_State g) - sm_e2eFailureStartTime (SafetyMonitor_State g) \<ge> SAFETYMONITOR_E2E_TIMEOUT_MS"
  shows "sm_inSafeState (SafetyMonitor_State (SafetyMonitor_CheckE2ETimeout g))"
    and "sm_safeStateReason (SafetyMonitor_State (SafetyMonitor_CheckE2ETimeout g)) = SAFE_STATE_REASON_E2E_FAILURE"
  using assms by (simp_all add: SafetyMonitor_CheckE2ETimeout_def Let_def SafetyMonitor_TriggerSafeState_def)

lemma SafetyMonitor_CheckE2ETimeout_quiet:
  assumes "\<not> sm_inSafeState (SafetyMonitor_State g)"
    and "\<not> (sm_e2eSmStatus (SafetyMonitor_State g) \<noteq> E2E_SM_VALID \<and>
            sm_e2eTimeoutActive (SafetyMonitor_State g) \<and>
            sm_currentTime (SafetyMonitor_State g) - sm_e2eFailureStartTime (SafetyMonitor_State g) \<ge> SAFETYMONITOR_E2E_TIMEOUT_MS)"
  shows "\<not> sm_inSafeState (SafetyMonitor_State (SafetyMonitor_CheckE2ETimeout g))"
    and "sm_wdgmGlobalStatus (SafetyMonitor_State (SafetyMonitor_CheckE2ETimeout g)) = sm_wdgmGlobalStatus (SafetyMonitor_State g)"
  using assms by (auto simp add: SafetyMonitor_CheckE2ETimeout_def Let_def)

lemma SafetyMonitor_CheckWdgMStatus_fires:
  assumes "\<not> sm_inSafeState (SafetyMonitor_State g)"
    and "sm_wdgmGlobalStatus (SafetyMonitor_State g) = WDGM_GLOBAL_STATUS_FAILED \<or>
         sm_wdgmGlobalStatus (SafetyMonitor_State g) = WDGM_GLOBAL_STATUS_EXPIRED"
  shows "sm_inSafeState (SafetyMonitor_State (SafetyMonitor_CheckWdgMStatus g))"
    and "sm_safeStateReason (SafetyMonitor_State (SafetyMonitor_CheckWdgMStatus g)) = SAFE_STATE_REASON_WDGM_FAILURE"
  using assms by (auto simp add: SafetyMonitor_CheckWdgMStatus_def Let_def SafetyMonitor_TriggerSafeState_def)

text \<open>
  C7, as claimed: when the watchdog condition and the E2E condition hold at the same tick
  with fewer than three faults, the latched reason is \<open>WdgmFailure\<close>. At the tick with
  time stamp 100 ms of the scenario both conditions hold, two faults are counted, the
  safe state is not yet latched, and the tick latches \<open>E2eFailure\<close>.
\<close>

theorem SafetyMonitor_both_triggers_counterexample:
  "\<not> sm_inSafeState (SafetyMonitor_State SafetyMonitor_both_triggers) \<and>
   SafetyMonitor_cond_WdgmFailure SafetyMonitor_both_triggers \<and>
   SafetyMonitor_cond_E2eFailure SafetyMonitor_Inputs_e2e_invalid SafetyMonitor_both_triggers \<and>
   SafetyMonitor_faults_read SafetyMonitor_Inputs_e2e_invalid SafetyMonitor_both_triggers = 2 \<and>
   sm_safeStateReason (SafetyMonitor_State
      (SafetyMonitor_MainFunction SafetyMonitor_Inputs_e2e_invalid SafetyMonitor_both_triggers))
     = SAFE_STATE_REASON_E2E_FAILURE"
  by code_simp

text \<open>
  C7, amended. When several immediate trigger conditions hold at the same tick of an
  initialised safety monitor whose safe state is not yet latched, the latched reason
  follows the order of the checks in \<open>SafetyMonitor_MainFunction\<close>: \<open>MultiFault\<close> (three or
  more faults), then \<open>E2eFailure\<close>, then \<open>WdgmFailure\<close>. In particular, with fewer than
  three faults and both the E2E condition and the watchdog condition, the reason is
  \<open>E2eFailure\<close>.
\<close>

theorem SafetyMonitor_trigger_priority:
  assumes init: "sm_isInitialized (SafetyMonitor_State g)"
    and fresh: "\<not> sm_inSafeState (SafetyMonitor_State g)"
  shows "(SafetyMonitor_cond_MultiFault inp g \<longrightarrow>
            sm_safeStateReason (SafetyMonitor_State (SafetyMonitor_MainFunction inp g)) = SAFE_STATE_REASON_MULTI_FAULT) \<and>
         (\<not> SafetyMonitor_cond_MultiFault inp g \<and> SafetyMonitor_cond_E2eFailure inp g \<longrightarrow>
            sm_safeStateReason (SafetyMonitor_State (SafetyMonitor_MainFunction inp g)) = SAFE_STATE_REASON_E2E_FAILURE) \<and>
         (\<not> SafetyMonitor_cond_MultiFault inp g \<and> \<not> SafetyMonitor_cond_E2eFailure inp g \<and>
          SafetyMonitor_cond_WdgmFailure g \<longrightarrow>
            sm_safeStateReason (SafetyMonitor_State (SafetyMonitor_MainFunction inp g)) = SAFE_STATE_REASON_WDGM_FAILURE)"
proof -
  define g1 where "g1 = g\<lparr>SafetyMonitor_State :=
                      (SafetyMonitor_State g)\<lparr>sm_currentTime := SafetyMonitor_SystemTime g\<rparr>,
                    SafetyMonitor_SystemTime := SafetyMonitor_SystemTime g + FLM_SAFETY_MONITOR_PERIOD_MS\<rparr>"
  define g2 where "g2 = SafetyMonitor_ReadComponentStatus inp g1"
  define g3 where "g3 = SafetyMonitor_AggregrateFaults g2"
  define g4 where "g4 = SafetyMonitor_CheckE2ETimeout g3"
  define g5 where "g5 = SafetyMonitor_CheckWdgMStatus g4"
  define g6 where "g6 = SafetyMonitor_CheckFTTI g5"
  have r: "sm_safeStateReason (SafetyMonitor_State (SafetyMonitor_MainFunction inp g)) =
           sm_safeStateReason (SafetyMonitor_State g6)"
    using init
    by (simp add: SafetyMonitor_MainFunction_def Let_def SafetyMonitor_finish_reason
          g1_def g2_def g3_def g4_def g5_def g6_def)
  note rd = SafetyMonitor_ReadComponentStatus_fields [of inp g1, folded g2_def]
  have w1: "SafetyMonitor_wdgmStatus_read g1 = SafetyMonitor_wdgmStatus_read g"
    and f1: "SafetyMonitor_faults_read inp g1 = SafetyMonitor_faults_read inp g"
    by (simp_all add: g1_def SafetyMonitor_wdgmStatus_read_def SafetyMonitor_faults_read_def)
  have fresh2: "\<not> sm_inSafeState (SafetyMonitor_State g2)"
    using fresh rd(1) by (simp add: g1_def)
  have fc: "unat (SafetyMonitor_faultCount (SafetyMonitor_State g2)) = SafetyMonitor_faults_read inp g"
    using rd(7) f1 by simp
  have e2e2: "(sm_e2eSmStatus (SafetyMonitor_State g2) \<noteq> E2E_SM_VALID \<and>
            sm_e2eTimeoutActive (SafetyMonitor_State g2) \<and>
            sm_currentTime (SafetyMonitor_State g2) - sm_e2eFailureStartTime (SafetyMonitor_State g2) \<ge> SAFETYMONITOR_E2E_TIMEOUT_MS)
          = SafetyMonitor_cond_E2eFailure inp g"
    using rd(2-5) by (simp add: SafetyMonitor_cond_E2eFailure_def g1_def)
  have wd2: "sm_wdgmGlobalStatus (SafetyMonitor_State g2) = SafetyMonitor_wdgmStatus_read g"
    using rd(6) w1 by simp
  have multi: "sm_safeStateReason (SafetyMonitor_State g6) = SAFE_STATE_REASON_MULTI_FAULT"
    if m: "SafetyMonitor_cond_MultiFault inp g"
  proof -
    have ge: "unat (SafetyMonitor_faultCount (SafetyMonitor_State g2)) \<ge> 3"
      using m fc by (simp add: SafetyMonitor_cond_MultiFault_def)
    note a = SafetyMonitor_AggregrateFaults_multi [OF fresh2 ge, folded g3_def]
    note b = SafetyMonitor_CheckE2ETimeout_latched [OF a(1), folded g4_def]
    have "sm_safeStateReason (SafetyMonitor_State g6) = sm_safeStateReason (SafetyMonitor_State g4)"
      unfolding g6_def g5_def using b by (simp add: SafetyMonitor_latched_rest)
    then show ?thesis using a(2) b by simp
  qed
  have rest: "(SafetyMonitor_cond_E2eFailure inp g \<longrightarrow>
                 sm_safeStateReason (SafetyMonitor_State g6) = SAFE_STATE_REASON_E2E_FAILURE) \<and>
              (\<not> SafetyMonitor_cond_E2eFailure inp g \<and> SafetyMonitor_cond_WdgmFailure g \<longrightarrow>
                 sm_safeStateReason (SafetyMonitor_State g6) = SAFE_STATE_REASON_WDGM_FAILURE)"
    if m: "\<not> SafetyMonitor_cond_MultiFault inp g"
  proof -
    have lt: "unat (SafetyMonitor_faultCount (SafetyMonitor_State g2)) < 3"
      using m fc by (simp add: SafetyMonitor_cond_MultiFault_def)
    note a = SafetyMonitor_AggregrateFaults_few [OF lt, folded g3_def]
    have fresh3: "\<not> sm_inSafeState (SafetyMonitor_State g3)" using a(1) fresh2 by simp
    have e2e3: "(sm_e2eSmStatus (SafetyMonitor_State g3) \<noteq> E2E_SM_VALID \<and>
            sm_e2eTimeoutActive (SafetyMonitor_State g3) \<and>
            sm_currentTime (SafetyMonitor_State g3) - sm_e2eFailureStartTime (SafetyMonitor_State g3) \<ge> SAFETYMONITOR_E2E_TIMEOUT_MS)
          = SafetyMonitor_cond_E2eFailure inp g"
      using e2e2 a(2-5) by simp
    have wd3: "sm_wdgmGlobalStatus (SafetyMonitor_State g3) = SafetyMonitor_wdgmStatus_read g"
      using wd2 a(6) by simp
    have c1: "sm_safeStateReason (SafetyMonitor_State g6) = SAFE_STATE_REASON_E2E_FAILURE"
      if e: "SafetyMonitor_cond_E2eFailure inp g"
    proof -
      from e e2e3 have h: "sm_e2eSmStatus (SafetyMonitor_State g3) \<noteq> E2E_SM_VALID"
        "sm_e2eTimeoutActive (SafetyMonitor_State g3)"
        "sm_currentTime (SafetyMonitor_State g3) - sm_e2eFailureStartTime (SafetyMonitor_State g3) \<ge> SAFETYMONITOR_E2E_TIMEOUT_MS"
        by simp_all
      note b = SafetyMonitor_CheckE2ETimeout_fires [OF fresh3 h, folded g4_def]
      have "sm_safeStateReason (SafetyMonitor_State g6) = sm_safeStateReason (SafetyMonitor_State g4)"
        unfolding g6_def g5_def using b(1) by (simp add: SafetyMonitor_latched_rest)
      then show ?thesis using b(2) by simp
    qed
    have c2: "sm_safeStateReason (SafetyMonitor_State g6) = SAFE_STATE_REASON_WDGM_FAILURE"
      if e: "\<not> SafetyMonitor_cond_E2eFailure inp g" and w: "SafetyMonitor_cond_WdgmFailure g"
    proof -
      from e e2e3 have h: "\<not> (sm_e2eSmStatus (SafetyMonitor_State g3) \<noteq> E2E_SM_VALID \<and>
            sm_e2eTimeoutActive (SafetyMonitor_State g3) \<and>
            sm_currentTime (SafetyMonitor_State g3) - sm_e2eFailureStartTime (SafetyMonitor_State g3) \<ge> SAFETYMONITOR_E2E_TIMEOUT_MS)"
        by simp
      note b = SafetyMonitor_CheckE2ETimeout_quiet [OF fresh3 h, folded g4_def]
      have wd4: "sm_wdgmGlobalStatus (SafetyMonitor_State g4) = WDGM_GLOBAL_STATUS_FAILED \<or>
                 sm_wdgmGlobalStatus (SafetyMonitor_State g4) = WDGM_GLOBAL_STATUS_EXPIRED"
        using w b(2) wd3 by (simp add: SafetyMonitor_cond_WdgmFailure_def)
      note c = SafetyMonitor_CheckWdgMStatus_fires [OF b(1) wd4, folded g5_def]
      show ?thesis unfolding g6_def using c by (simp add: SafetyMonitor_CheckFTTI_latched)
    qed
    show ?thesis using c1 c2 by blast
  qed
  show ?thesis using multi rest r by simp
qed

theorem SafetyMonitor_trigger_priority_witness:
  "sm_safeStateReason (SafetyMonitor_State
      (SafetyMonitor_MainFunction SafetyMonitor_Inputs_e2e_invalid SafetyMonitor_both_triggers))
     = SAFE_STATE_REASON_E2E_FAILURE \<and>
   sm_safeStateReason (SafetyMonitor_State
      (SafetyMonitor_MainFunction SafetyMonitor_Inputs_e2e_invalid
         (SafetyMonitor_SimSetWdgmStatus WDGM_GLOBAL_STATUS_EXPIRED
            (SafetyMonitor_Init SafetyMonitor_PowerOn))))
     = SAFE_STATE_REASON_WDGM_FAILURE \<and>
   sm_safeStateReason (SafetyMonitor_State
      (SafetyMonitor_MainFunction
         (SafetyMonitor_Inputs_e2e_invalid\<lparr>smi_headlightFault := HEADLIGHT_FAULT_OPEN_LOAD\<rparr>)
         (SafetyMonitor_SimSetWdgmStatus WDGM_GLOBAL_STATUS_FAILED
            (SafetyMonitor_Init SafetyMonitor_PowerOn))))
     = SAFE_STATE_REASON_MULTI_FAULT"
proof -
  have a1: "sm_isInitialized (SafetyMonitor_State SafetyMonitor_both_triggers)" by code_simp
  have a2: "\<not> sm_inSafeState (SafetyMonitor_State SafetyMonitor_both_triggers)" by code_simp
  have a3: "\<not> SafetyMonitor_cond_MultiFault SafetyMonitor_Inputs_e2e_invalid SafetyMonitor_both_triggers"
    by code_simp
  have a4: "SafetyMonitor_cond_E2eFailure SafetyMonitor_Inputs_e2e_invalid SafetyMonitor_both_triggers"
    by code_simp
  have b1: "sm_isInitialized (SafetyMonitor_State
      (SafetyMonitor_SimSetWdgmStatus WDGM_GLOBAL_STATUS_EXPIRED (SafetyMonitor_Init SafetyMonitor_PowerOn)))"
    by code_simp
  have b2: "\<not> sm_inSafeState (SafetyMonitor_State
      (SafetyMonitor_SimSetWdgmStatus WDGM_GLOBAL_STATUS_EXPIRED (SafetyMonitor_Init SafetyMonitor_PowerOn)))"
    by code_simp
  have b3: "\<not> SafetyMonitor_cond_MultiFault SafetyMonitor_Inputs_e2e_invalid
      (SafetyMonitor_SimSetWdgmStatus WDGM_GLOBAL_STATUS_EXPIRED (SafetyMonitor_Init SafetyMonitor_PowerOn))"
    by code_simp
  have b4: "\<not> SafetyMonitor_cond_E2eFailure SafetyMonitor_Inputs_e2e_invalid
      (SafetyMonitor_SimSetWdgmStatus WDGM_GLOBAL_STATUS_EXPIRED (SafetyMonitor_Init SafetyMonitor_PowerOn))"
    by code_simp
  have b5: "SafetyMonitor_cond_WdgmFailure
      (SafetyMonitor_SimSetWdgmStatus WDGM_GLOBAL_STATUS_EXPIRED (SafetyMonitor_Init SafetyMonitor_PowerOn))"
    by code_simp
  have c1: "sm_isInitialized (SafetyMonitor_State
      (SafetyMonitor_SimSetWdgmStatus WDGM_GLOBAL_STATUS_FAILED (SafetyMonitor_Init SafetyMonitor_PowerOn)))"
    by code_simp
  have c2: "\<not> sm_inSafeState (SafetyMonitor_State
      (SafetyMonitor_SimSetWdgmStatus WDGM_GLOBAL_STATUS_FAILED (SafetyMonitor_Init SafetyMonitor_PowerOn)))"
    by code_simp
  have c3: "SafetyMonitor_cond_MultiFault
      (SafetyMonitor_Inputs_e2e_invalid\<lparr>smi_headlightFault := HEADLIGHT_FAULT_OPEN_LOAD\<rparr>)
      (SafetyMonitor_SimSetWdgmStatus WDGM_GLOBAL_STATUS_FAILED (SafetyMonitor_Init SafetyMonitor_PowerOn))"
    by code_simp
  show ?thesis
    using a3 a4 b3 b4 b5 c3
      SafetyMonitor_trigger_priority [OF a1 a2, of SafetyMonitor_Inputs_e2e_invalid]
      SafetyMonitor_trigger_priority [OF b1 b2, of SafetyMonitor_Inputs_e2e_invalid]
      SafetyMonitor_trigger_priority [OF c1 c2,
        of "SafetyMonitor_Inputs_e2e_invalid\<lparr>smi_headlightFault := HEADLIGHT_FAULT_OPEN_LOAD\<rparr>"]
    by blast
qed

subsection \<open>Sender and receiver in lock step\<close>

lemma low_nibble_mask: "(0x0F :: u8) = mask 4" by (simp add: mask_eq_exp_minus_1)
lemma high_nibble_mask: "(0xF0 :: u8) = NOT (mask 4)" by (simp add: mask_eq_exp_minus_1)

lemma set_low_nibble: "((x AND 0xF0) OR (c AND 0x0F)) AND (0x0F :: u8) = c AND 0x0F"
  unfolding low_nibble_mask high_nibble_mask
  by (rule bit_word_eqI) (auto simp add: bit_simps)

lemma low_nibble_id: "c \<le> (14::u8) \<Longrightarrow> c AND 0x0F = c"
proof -
  assume "c \<le> 14"
  then have "c < 2 ^ 4" by (simp add: word_le_nat_alt word_less_nat_alt)
  then show ?thesis unfolding low_nibble_mask by (rule less_mask_eq)
qed

lemma E2E_P01_ComputeCRC_ignores_crc_byte:
  "E2E_P01_ComputeCRC config (bytes[unat (CRCOffset config div 8) := v]) len =
   E2E_P01_ComputeCRC config bytes len"
  by (simp add: E2E_P01_ComputeCRC_def E2E_P01_CalculateCRC8_def Let_def)

text \<open>A frame checked right after \<open>E2E_P01Protect\<close>: its CRC byte is the CRC the checker computes,
  and the counter read back is the low nibble of the sender's counter.\<close>

lemma E2E_Protect_then_Check:
  assumes len: "len \<noteq> 0"
    and crc_in: "unat (CRCOffset config div 8) < length buf"
    and cnt_in: "unat (CounterOffset config div 8) < length buf"
    and apart: "CRCOffset config div 8 \<noteq> CounterOffset config div 8"
  shows "\<exists>d. E2E_P01Protect config ps (Some buf) len =
               (E_OK, ps\<lparr>Counter := E2E_P01_IncrementCounter (Counter ps)\<rparr>, Some d) \<and>
             E2E_P01_GetCRC (Some d) config = E2E_P01_ComputeCRC config d len \<and>
             E2E_P01_GetCounter (Some d) config = Counter ps AND 0x0F"
proof -
  define k where "k = unat (CRCOffset config div 8)"
  define j where "j = unat (CounterOffset config div 8)"
  have kj: "k \<noteq> j" using apart by (simp add: k_def j_def word_unat_eq_iff)
  define d1 where "d1 = buf[j := (byte_at buf j AND E2E_P01_HIGH_NIBBLE_MASK) OR
                                 (Counter ps AND E2E_P01_LOW_NIBBLE_MASK)]"
  define d where "d = d1[k := E2E_P01_ComputeCRC config d1 len]"
  have p: "E2E_P01Protect config ps (Some buf) len =
               (E_OK, ps\<lparr>Counter := E2E_P01_IncrementCounter (Counter ps)\<rparr>, Some d)"
    using len
    by (simp add: E2E_P01Protect_def E2E_P01_SetCounter_def E2E_P01_SetCRC_def Let_def
          d_def d1_def k_def j_def)
  have c: "E2E_P01_ComputeCRC config d len = E2E_P01_ComputeCRC config d1 len"
    unfolding d_def k_def by (rule E2E_P01_ComputeCRC_ignores_crc_byte)
  have g: "E2E_P01_GetCRC (Some d) config = E2E_P01_ComputeCRC config d1 len"
    using crc_in by (simp add: E2E_P01_GetCRC_def byte_at_def d_def d1_def k_def)
  have n: "E2E_P01_GetCounter (Some d) config = Counter ps AND 0x0F"
    using cnt_in kj
    by (simp add: E2E_P01_GetCounter_def byte_at_def d_def d1_def
          E2E_P01_HIGH_NIBBLE_MASK_def E2E_P01_LOW_NIBBLE_MASK_def set_low_nibble
          flip: k_def j_def)
  show ?thesis using p c g n by simp
qed


lemma E2E_P01Check_crc_ok:
  assumes "len \<noteq> 0" and "E2E_P01_GetCRC (Some d) config = E2E_P01_ComputeCRC config d len"
    and "\<not> WaitForFirstData cs"
  shows "E2E_P01Check config cs (Some d) len =
     (let s1 = cs\<lparr>NoNewOrRepeatedDataCounter := 0\<rparr>;
          receivedCounter = E2E_P01_GetCounter (Some d) config;
          deltaCounter = E2E_P01_DeltaCounter receivedCounter (LastValidCounter s1);
          s2 = (if deltaCounter = 0 then s1\<lparr>Status := E2E_P01STATUS_REPEATED\<rparr>
                else if deltaCounter = 1 then
                  s1\<lparr>LastValidCounter := receivedCounter, Status := E2E_P01STATUS_OK\<rparr>
                else if deltaCounter > 1 \<and> deltaCounter \<le> uint (MaxDeltaCounter config) then
                  s1\<lparr>LostData := LostData s1 + word_of_int (deltaCounter - 1),
                     LastValidCounter := receivedCounter,
                     Status := E2E_P01STATUS_OKSOMELOST\<rparr>
                else s1\<lparr>Status := E2E_P01STATUS_WRONGSEQUENCE\<rparr>)
      in (Status s2, s2))"
  using assms by (simp add: E2E_P01Check_def Let_def)

lemma E2E_P01Check_first:
  assumes "len \<noteq> 0" and "E2E_P01_GetCRC (Some d) config = E2E_P01_ComputeCRC config d len"
    and "WaitForFirstData cs"
  shows "E2E_P01Check config cs (Some d) len =
     (E2E_P01STATUS_INITIAL,
      cs\<lparr>NoNewOrRepeatedDataCounter := 0, WaitForFirstData := False,
         LastValidCounter := E2E_P01_GetCounter (Some d) config, Status := E2E_P01STATUS_INITIAL\<rparr>)"
  using assms by (simp add: E2E_P01Check_def Let_def)

lemma E2E_P01_IncrementCounter_unat:
  assumes "unat c < 15"
  shows "unat (E2E_P01_IncrementCounter c) = (unat c + 1) mod 15"
proof -
  have u: "unat (c + 1) = unat c + 1" using assms by (simp add: unat_word_ariths)
  show ?thesis
  proof (cases "unat c = 14")
    case True
    then show ?thesis
      using u by (simp add: E2E_P01_IncrementCounter_def Let_def E2E_P01_COUNTER_MAX_def word_less_nat_alt)
  next
    case False
    then have "unat c + 1 < 15" using assms by simp
    then show ?thesis
      using u by (simp add: E2E_P01_IncrementCounter_def Let_def E2E_P01_COUNTER_MAX_def word_less_nat_alt)
  qed
qed

lemma E2E_P01_DeltaCounter_in_step:
  assumes "unat c < 15" and "unat l = (unat c + 14) mod 15"
  shows "E2E_P01_DeltaCounter c l = (if unat c = 0 then 2 else 1)"
proof (cases "unat c = 0")
  case True
  then have l: "unat l = 14" using assms by simp
  have "\<not> l \<le> c" using True l by (simp add: word_le_nat_alt)
  moreover have "uint l = 14" "uint c = 0" using True l by (simp_all add: uint_nat)
  ultimately show ?thesis
    using True by (simp add: E2E_P01_DeltaCounter_def E2E_P01_COUNTER_WRAP_def)
next
  case False
  then have l: "unat l = unat c - 1" using assms by (simp add: mod_if)
  have "l \<le> c" using l by (simp add: word_le_nat_alt)
  moreover have "uint c - uint l = 1"
  proof -
    have "int (unat c) - int (unat l) = 1" using l False by linarith
    then show ?thesis by (simp only: uint_nat)
  qed
  ultimately show ?thesis
    using False by (simp add: E2E_P01_DeltaCounter_def)
qed


lemma LightSwitch_frame_wf:
  assumes "length buf = 4"
  shows "(4 :: u16) \<noteq> 0"
    and "unat (CRCOffset LightSwitch_E2E_Config div 8) < length buf"
    and "unat (CounterOffset LightSwitch_E2E_Config div 8) < length buf"
    and "CRCOffset LightSwitch_E2E_Config div 8 \<noteq> CounterOffset LightSwitch_E2E_Config div 8"
  using assms by (simp_all add: LightSwitch_E2E_Config_eq)

lemma E2E_ProtectCheck_step:
  assumes len: "length buf = 4"
    and cnt: "unat (Counter ps) < 15"
    and wait: "\<not> WaitForFirstData cs"
    and last: "unat (LastValidCounter cs) = (unat (Counter ps) + 14) mod 15"
  shows "\<exists>ps' cs' d.
           E2E_P01Protect LightSwitch_E2E_Config ps (Some buf) 4 = (E_OK, ps', Some d) \<and>
           E2E_P01Check LightSwitch_E2E_Config cs (Some d) 4 =
             (if unat (Counter ps) = 0 then E2E_P01STATUS_OKSOMELOST else E2E_P01STATUS_OK, cs') \<and>
           unat (Counter ps') = (unat (Counter ps) + 1) mod 15 \<and>
           \<not> WaitForFirstData cs' \<and>
           unat (LastValidCounter cs') = unat (Counter ps)"
proof -
  note wf = LightSwitch_frame_wf [OF len]
  obtain d where p: "E2E_P01Protect LightSwitch_E2E_Config ps (Some buf) 4 =
               (E_OK, ps\<lparr>Counter := E2E_P01_IncrementCounter (Counter ps)\<rparr>, Some d)"
    and crc: "E2E_P01_GetCRC (Some d) LightSwitch_E2E_Config = E2E_P01_ComputeCRC LightSwitch_E2E_Config d 4"
    and rc: "E2E_P01_GetCounter (Some d) LightSwitch_E2E_Config = Counter ps AND 0x0F"
    using E2E_Protect_then_Check [OF wf, of ps] by blast
  have "Counter ps \<le> 14" using cnt by (simp add: word_le_nat_alt)
  then have rc': "E2E_P01_GetCounter (Some d) LightSwitch_E2E_Config = Counter ps"
    using rc by (simp add: low_nibble_id)
  have delta: "E2E_P01_DeltaCounter (Counter ps) (LastValidCounter cs) = (if unat (Counter ps) = 0 then 2 else 1)"
    by (rule E2E_P01_DeltaCounter_in_step [OF cnt last])
  have md: "uint (MaxDeltaCounter LightSwitch_E2E_Config) = 2"
    by (simp add: LightSwitch_E2E_Config_eq)
  define cs' where "cs' = snd (E2E_P01Check LightSwitch_E2E_Config cs (Some d) 4)"
  have chk: "E2E_P01Check LightSwitch_E2E_Config cs (Some d) 4 =
             (if unat (Counter ps) = 0 then E2E_P01STATUS_OKSOMELOST else E2E_P01STATUS_OK, cs')"
    and w': "\<not> WaitForFirstData cs'" and l': "LastValidCounter cs' = Counter ps"
    unfolding cs'_def
    using wait by (simp_all add: E2E_P01Check_crc_ok [OF wf(1) crc wait] Let_def rc' delta md)
  show ?thesis
    using p chk w' l' E2E_P01_IncrementCounter_unat [OF cnt] by simp
qed

lemma E2E_ProtectCheck_run_steady:
  assumes "\<forall>buf \<in> set bufs. length buf = 4"
    and "unat (Counter ps) = k mod 15"
    and "\<not> WaitForFirstData cs"
    and "unat (LastValidCounter cs) = (k + 14) mod 15"
  shows "E2E_ProtectCheck_run LightSwitch_E2E_Config 4 ps cs bufs =
           map (\<lambda>i. if (k + i) mod 15 = 0 then E2E_P01STATUS_OKSOMELOST else E2E_P01STATUS_OK)
             [0..<length bufs]"
  using assms
proof (induction bufs arbitrary: ps cs k)
  case Nil
  then show ?case by simp
next
  case (Cons buf bufs)
  have len: "length buf = 4" using Cons.prems(1) by simp
  have cnt: "unat (Counter ps) < 15" using Cons.prems(2) by simp
  have last: "unat (LastValidCounter cs) = (unat (Counter ps) + 14) mod 15"
    using Cons.prems(2,4) by (simp add: mod_simps)
  obtain ps' cs' d where
    p: "E2E_P01Protect LightSwitch_E2E_Config ps (Some buf) 4 = (E_OK, ps', Some d)"
    and c: "E2E_P01Check LightSwitch_E2E_Config cs (Some d) 4 =
             (if unat (Counter ps) = 0 then E2E_P01STATUS_OKSOMELOST else E2E_P01STATUS_OK, cs')"
    and n: "unat (Counter ps') = (unat (Counter ps) + 1) mod 15"
    and w: "\<not> WaitForFirstData cs'"
    and l: "unat (LastValidCounter cs') = unat (Counter ps)"
    using E2E_ProtectCheck_step [OF len cnt Cons.prems(3) last] by blast
  have n': "unat (Counter ps') = (k + 1) mod 15"
    using n Cons.prems(2) by (simp add: mod_simps)
  have l': "unat (LastValidCounter cs') = (k + 1 + 14) mod 15"
    using l Cons.prems(2) by (simp add: mod_simps)
  have ih: "E2E_ProtectCheck_run LightSwitch_E2E_Config 4 ps' cs' bufs =
           map (\<lambda>i. if (k + 1 + i) mod 15 = 0 then E2E_P01STATUS_OKSOMELOST else E2E_P01STATUS_OK)
             [0..<length bufs]"
    using Cons.IH [OF _ n' w l'] Cons.prems(1) by simp
  show ?case
    using p c ih Cons.prems(2) by (simp add: Let_def map_upt_Suc del: upt_Suc)
qed

text \<open>
  C2 claims the verdicts \<open>Initial\<close>, then \<open>Ok\<close> for every further frame, also across the
  wrap of the sender's counter from 14 to 0. With the configuration of the light-switch
  message and four-byte buffers, the verdicts of the code are: \<open>Initial\<close> for the first
  frame, \<open>OkSomeLost\<close> for every frame whose position is a multiple of 15 (the frames sent
  with counter 0 after a frame with counter 14), and \<open>Ok\<close> for all others.
  \<open>E2E_P01_DeltaCounter\<close> yields \<open>15 - 14 + 0 + 1 = 2\<close> at the wrap, the delta of one lost
  frame. The sixteenth frame of any run is the first to differ from the claim.
\<close>

theorem E2E_ProtectCheck_run_verdicts:
  assumes "\<forall>buf \<in> set bufs. length buf = 4"
  shows "E2E_ProtectCheck_run LightSwitch_E2E_Config 4 (E2E_P01ProtectInit ps) (E2E_P01CheckInit cs) bufs =
           map (\<lambda>i. if i = 0 then E2E_P01STATUS_INITIAL
                     else if i mod 15 = 0 then E2E_P01STATUS_OKSOMELOST
                     else E2E_P01STATUS_OK)
             [0..<length bufs]"
proof (cases bufs)
  case Nil
  then show ?thesis by simp
next
  case (Cons buf rest)
  have len: "length buf = 4" using assms Cons by simp
  note wf = LightSwitch_frame_wf [OF len]
  obtain d where p: "E2E_P01Protect LightSwitch_E2E_Config (E2E_P01ProtectInit ps) (Some buf) 4 =
               (E_OK, (E2E_P01ProtectInit ps)\<lparr>Counter := E2E_P01_IncrementCounter (Counter (E2E_P01ProtectInit ps))\<rparr>, Some d)"
    and crc: "E2E_P01_GetCRC (Some d) LightSwitch_E2E_Config = E2E_P01_ComputeCRC LightSwitch_E2E_Config d 4"
    and rc: "E2E_P01_GetCounter (Some d) LightSwitch_E2E_Config = Counter (E2E_P01ProtectInit ps) AND 0x0F"
    using E2E_Protect_then_Check [OF wf, of "E2E_P01ProtectInit ps"] by blast
  have w: "WaitForFirstData (E2E_P01CheckInit cs)" by (simp add: E2E_P01CheckInit_def)
  define ps' where "ps' = (E2E_P01ProtectInit ps)\<lparr>Counter := E2E_P01_IncrementCounter (Counter (E2E_P01ProtectInit ps))\<rparr>"
  define cs' where "cs' = snd (E2E_P01Check LightSwitch_E2E_Config (E2E_P01CheckInit cs) (Some d) 4)"
  have c: "E2E_P01Check LightSwitch_E2E_Config (E2E_P01CheckInit cs) (Some d) 4 = (E2E_P01STATUS_INITIAL, cs')"
    and w': "\<not> WaitForFirstData cs'" and l': "unat (LastValidCounter cs') = (1 + 14) mod 15"
    unfolding cs'_def
    by (simp_all add: E2E_P01Check_first [OF wf(1) crc w] rc E2E_P01ProtectInit_def)
  have n': "unat (Counter ps') = 1 mod 15"
    by (simp add: ps'_def E2E_P01ProtectInit_def E2E_P01_IncrementCounter_def Let_def
          E2E_P01_COUNTER_MAX_def word_less_nat_alt)
  have rest: "E2E_ProtectCheck_run LightSwitch_E2E_Config 4 ps' cs' rest =
           map (\<lambda>i. if (1 + i) mod 15 = 0 then E2E_P01STATUS_OKSOMELOST else E2E_P01STATUS_OK)
             [0..<length rest]"
    by (rule E2E_ProtectCheck_run_steady [OF _ n' w' l']) (use assms Cons in simp)
  show ?thesis
    using p c rest by (simp add: Cons Let_def map_upt_Suc ps'_def del: upt_Suc)
qed

theorem E2E_ProtectCheck_run_verdicts_witness:
  "E2E_ProtectCheck_run LightSwitch_E2E_Config 4
      (E2E_P01ProtectInit \<lparr>Counter = 9\<rparr>)
      (E2E_P01CheckInit (se_e2eCheckState SwitchEvent_State_zero))
      E2E_sixteen_buffers =
   [E2E_P01STATUS_INITIAL,
    E2E_P01STATUS_OK, E2E_P01STATUS_OK, E2E_P01STATUS_OK, E2E_P01STATUS_OK, E2E_P01STATUS_OK,
    E2E_P01STATUS_OK, E2E_P01STATUS_OK, E2E_P01STATUS_OK, E2E_P01STATUS_OK, E2E_P01STATUS_OK,
    E2E_P01STATUS_OK, E2E_P01STATUS_OK, E2E_P01STATUS_OK, E2E_P01STATUS_OK,
    E2E_P01STATUS_OKSOMELOST]"
proof -
  have h: "\<forall>buf \<in> set E2E_sixteen_buffers. length buf = 4" by simp
  have e: "map (\<lambda>i. if i = 0 then E2E_P01STATUS_INITIAL
                     else if i mod 15 = 0 then E2E_P01STATUS_OKSOMELOST
                     else E2E_P01STATUS_OK)
             [0..<length E2E_sixteen_buffers] =
   [E2E_P01STATUS_INITIAL,
    E2E_P01STATUS_OK, E2E_P01STATUS_OK, E2E_P01STATUS_OK, E2E_P01STATUS_OK, E2E_P01STATUS_OK,
    E2E_P01STATUS_OK, E2E_P01STATUS_OK, E2E_P01STATUS_OK, E2E_P01STATUS_OK, E2E_P01STATUS_OK,
    E2E_P01STATUS_OK, E2E_P01STATUS_OK, E2E_P01STATUS_OK, E2E_P01STATUS_OK,
    E2E_P01STATUS_OKSOMELOST]"
    by code_simp
  show ?thesis
    unfolding E2E_ProtectCheck_run_verdicts [OF h] by (rule e)
qed

subsection \<open>The ambient sensor\<close>

lemma LightRequest_steps_keep_fault:
  assumes "LightRequest_fault_status (lr_signalStatus s) \<and> \<not> al_isValid (lr_ambientLight s)"
  shows "LightRequest_fault_status (lr_signalStatus (LightRequest_ApplyFilter s)) \<and>
           \<not> al_isValid (lr_ambientLight (LightRequest_ApplyFilter s))"
    and "LightRequest_fault_status (lr_signalStatus (LightRequest_CheckOpenCircuit s)) \<and>
           \<not> al_isValid (lr_ambientLight (LightRequest_CheckOpenCircuit s))"
    and "LightRequest_fault_status (lr_signalStatus (LightRequest_CheckShortCircuit s)) \<and>
           \<not> al_isValid (lr_ambientLight (LightRequest_CheckShortCircuit s))"
    and "LightRequest_fault_status (lr_signalStatus (LightRequest_CheckPlausibility s)) \<and>
           \<not> al_isValid (lr_ambientLight (LightRequest_CheckPlausibility s))"
    and "LightRequest_fault_status (lr_signalStatus (LightRequest_UpdateOutput s)) \<and>
           \<not> al_isValid (lr_ambientLight (LightRequest_UpdateOutput s))"
  using assms
  by (simp_all add: LightRequest_fault_status_def LightRequest_ApplyFilter_def
        LightRequest_CheckOpenCircuit_def LightRequest_CheckShortCircuit_def
        LightRequest_CheckPlausibility_def LightRequest_UpdateOutput_def Let_def)

lemma LightRequest_fault_status_latched:
  assumes "LightRequest_fault_status (lr_signalStatus (LightRequest_State g))"
    and "\<not> al_isValid (lr_ambientLight (LightRequest_State g))"
  shows "LightRequest_fault_status (lr_signalStatus (LightRequest_State (LightRequest_MainFunction adc g))) \<and>
         \<not> al_isValid (lr_ambientLight (LightRequest_State (LightRequest_MainFunction adc g)))"
proof (cases "lr_isInitialized (LightRequest_State g)")
  case False
  then show ?thesis using assms by (simp add: LightRequest_MainFunction_def)
next
  case True
  define g1 where "g1 = g\<lparr>LightRequest_State :=
                      (LightRequest_State g)\<lparr>lr_currentTimestamp := LightRequest_SystemTime g\<rparr>,
                    LightRequest_SystemTime := LightRequest_SystemTime g + FLM_AMBIENT_LIGHT_PERIOD_MS\<rparr>"
  define s1 where "s1 = LightRequest_ReadAdc adc g1"
  have h1: "LightRequest_fault_status (lr_signalStatus s1) \<and> \<not> al_isValid (lr_ambientLight s1)"
    using assms by (simp add: s1_def g1_def LightRequest_ReadAdc_def Let_def split: option.split)
  have r: "LightRequest_State (LightRequest_MainFunction adc g) =
        LightRequest_UpdateOutput (LightRequest_CheckPlausibility (LightRequest_CheckShortCircuit
          (LightRequest_CheckOpenCircuit (LightRequest_ApplyFilter s1))))"
    using True by (simp add: LightRequest_MainFunction_def Let_def s1_def g1_def)
  show ?thesis
    unfolding r
    by (intro LightRequest_steps_keep_fault h1)
qed


lemma LightRequest_checks_keep_filter:
  "lr_adcFilteredValue (LightRequest_CheckOpenCircuit s) = lr_adcFilteredValue s"
  "lr_adcSampleCount (LightRequest_CheckOpenCircuit s) = lr_adcSampleCount s"
  "lr_adcFilteredValue (LightRequest_CheckShortCircuit s) = lr_adcFilteredValue s"
  "lr_adcSampleCount (LightRequest_CheckShortCircuit s) = lr_adcSampleCount s"
  "lr_adcFilteredValue (LightRequest_CheckPlausibility s) = lr_adcFilteredValue s"
  "lr_adcSampleCount (LightRequest_CheckPlausibility s) = lr_adcSampleCount s"
  "lr_adcFilteredValue (LightRequest_UpdateOutput s) = lr_adcFilteredValue s"
  "lr_adcSampleCount (LightRequest_UpdateOutput s) = lr_adcSampleCount s"
  by (simp_all add: LightRequest_CheckOpenCircuit_def LightRequest_CheckShortCircuit_def
        LightRequest_CheckPlausibility_def LightRequest_UpdateOutput_def Let_def)

lemma LightRequest_tail_valid:
  assumes nf: "\<not> LightRequest_fault_status (lr_signalStatus s)"
    and lo: "\<not> lr_adcFilteredValue s < FLM_AMBIENT_OPEN_CIRCUIT"
    and hi: "\<not> lr_adcFilteredValue s > FLM_AMBIENT_SHORT_CIRCUIT"
    and cnt: "lr_adcSampleCount s \<ge> FLM_ADC_SAMPLES"
    and np: "lr_signalStatus (LightRequest_UpdateOutput (LightRequest_CheckPlausibility
               (LightRequest_CheckShortCircuit (LightRequest_CheckOpenCircuit s)))) \<noteq> SIGNAL_STATUS_PLAUSIBILITY"
  shows "lr_signalStatus (LightRequest_UpdateOutput (LightRequest_CheckPlausibility
               (LightRequest_CheckShortCircuit (LightRequest_CheckOpenCircuit s)))) = SIGNAL_STATUS_VALID \<and>
         al_isValid (lr_ambientLight (LightRequest_UpdateOutput (LightRequest_CheckPlausibility
               (LightRequest_CheckShortCircuit (LightRequest_CheckOpenCircuit s)))))"
proof -
  have a: "LightRequest_CheckShortCircuit (LightRequest_CheckOpenCircuit s) = s"
    using lo hi by (simp add: LightRequest_CheckOpenCircuit_def LightRequest_CheckShortCircuit_def)
  define p where "p = LightRequest_CheckPlausibility s"
  have pc: "lr_adcSampleCount p = lr_adcSampleCount s"
    by (simp add: p_def LightRequest_checks_keep_filter)
  have ps: "lr_signalStatus p = SIGNAL_STATUS_PLAUSIBILITY \<or> lr_signalStatus p = lr_signalStatus s"
    by (simp add: p_def LightRequest_CheckPlausibility_def Let_def)
  have keep: "lr_signalStatus p = SIGNAL_STATUS_PLAUSIBILITY \<Longrightarrow>
              lr_signalStatus (LightRequest_UpdateOutput p) = SIGNAL_STATUS_PLAUSIBILITY"
    by (simp add: LightRequest_UpdateOutput_def Let_def)
  have "lr_signalStatus p \<noteq> SIGNAL_STATUS_PLAUSIBILITY"
    using np keep by (auto simp add: a p_def)
  then have "\<not> LightRequest_fault_status (lr_signalStatus p)"
    using ps nf by (auto simp add: LightRequest_fault_status_def)
  then show ?thesis
    using cnt pc by (simp add: a LightRequest_UpdateOutput_def Let_def LightRequest_fault_status_def flip: p_def)
qed

lemma LightRequest_valid_without_earlier_fault:
  assumes init: "lr_isInitialized (LightRequest_State g)"
    and nf: "\<not> LightRequest_fault_status (lr_signalStatus (LightRequest_State g))"
    and lo: "lr_adcFilteredValue (LightRequest_State (LightRequest_MainFunction adc g)) \<ge> FLM_AMBIENT_OPEN_CIRCUIT"
    and hi: "lr_adcFilteredValue (LightRequest_State (LightRequest_MainFunction adc g)) \<le> FLM_AMBIENT_SHORT_CIRCUIT"
    and np: "lr_signalStatus (LightRequest_State (LightRequest_MainFunction adc g)) \<noteq> SIGNAL_STATUS_PLAUSIBILITY"
    and cnt: "lr_adcSampleCount (LightRequest_State (LightRequest_MainFunction adc g)) \<ge> FLM_ADC_SAMPLES"
  shows "lr_signalStatus (LightRequest_State (LightRequest_MainFunction adc g)) = SIGNAL_STATUS_VALID \<and>
         al_isValid (lr_ambientLight (LightRequest_State (LightRequest_MainFunction adc g)))"
proof -
  define g1 where "g1 = g\<lparr>LightRequest_State :=
                      (LightRequest_State g)\<lparr>lr_currentTimestamp := LightRequest_SystemTime g\<rparr>,
                    LightRequest_SystemTime := LightRequest_SystemTime g + FLM_AMBIENT_LIGHT_PERIOD_MS\<rparr>"
  define s2 where "s2 = LightRequest_ApplyFilter (LightRequest_ReadAdc adc g1)"
  have r: "LightRequest_State (LightRequest_MainFunction adc g) =
        LightRequest_UpdateOutput (LightRequest_CheckPlausibility (LightRequest_CheckShortCircuit
          (LightRequest_CheckOpenCircuit s2)))"
    using init by (simp add: LightRequest_MainFunction_def Let_def s2_def g1_def)
  have st2: "lr_signalStatus s2 = lr_signalStatus (LightRequest_State g)"
    by (simp add: s2_def g1_def LightRequest_ApplyFilter_def LightRequest_ReadAdc_def Let_def
          split: option.split)
  have keepf: "lr_adcFilteredValue (LightRequest_UpdateOutput (LightRequest_CheckPlausibility
          (LightRequest_CheckShortCircuit (LightRequest_CheckOpenCircuit s)))) = lr_adcFilteredValue s"
    and keepc: "lr_adcSampleCount (LightRequest_UpdateOutput (LightRequest_CheckPlausibility
          (LightRequest_CheckShortCircuit (LightRequest_CheckOpenCircuit s)))) = lr_adcSampleCount s" for s
    by (simp_all add: LightRequest_checks_keep_filter)
  have lo2: "\<not> lr_adcFilteredValue s2 < FLM_AMBIENT_OPEN_CIRCUIT"
    and hi2: "\<not> lr_adcFilteredValue s2 > FLM_AMBIENT_SHORT_CIRCUIT"
    and cnt2: "lr_adcSampleCount s2 \<ge> FLM_ADC_SAMPLES"
    using lo hi cnt by (simp_all add: r keepf keepc not_less)
  show ?thesis
    unfolding r
    by (rule LightRequest_tail_valid) (use nf st2 lo2 hi2 cnt2 np in \<open>simp_all add: r\<close>)
qed

text \<open>
  C6 claims that a tick which ends with the filtered value within \<open>[100, 3995]\<close>, without a
  plausibility fault raised at that tick and with four samples accumulated, ends with the
  signal status \<open>Valid\<close> and the validity flag set, so that an earlier fault status clears
  itself. That holds when the status before the tick is not a fault status
  (\<open>LightRequest_valid_without_earlier_fault\<close>). A status \<open>OpenCircuit\<close>, \<open>ShortCircuit\<close>
  or \<open>Plausibility\<close> is never left again: \<open>LightRequest_UpdateOutput\<close> tests the status
  that the earlier tick stored, and nothing resets it
  (\<open>LightRequest_fault_status_latched\<close>). The run: one tick with an ADC value of 50 sets
  \<open>OpenCircuit\<close>; after eleven more ticks with 2000 the filtered value is 2000, four
  samples are in, no plausibility fault is set, and the status is still \<open>OpenCircuit\<close>
  with the validity flag clear.
\<close>

theorem LightRequest_open_circuit_status_stays:
  "lr_adcFilteredValue (LightRequest_State LightRequest_open_then_healthy) = 2000 \<and>
   lr_adcSampleCount (LightRequest_State LightRequest_open_then_healthy) = 4 \<and>
   \<not> lr_plausibilityFault (LightRequest_State LightRequest_open_then_healthy) \<and>
   lr_signalStatus (LightRequest_State LightRequest_open_then_healthy) = SIGNAL_STATUS_OPEN_CIRCUIT \<and>
   \<not> al_isValid (lr_ambientLight (LightRequest_State LightRequest_open_then_healthy))"
  by code_simp

end
